theory Spec2Isabelle
  imports Complex_Main
begin

section \<open>Liquid-handling robot: data model\<close>

text \<open>
  A shallow embedding of \<^verbatim>\<open>deck.py\<close>, \<^verbatim>\<open>labware.py\<close>, \<^verbatim>\<open>robot.py\<close> and the step
  executor of \<^verbatim>\<open>gui.py\<close>.

  Conventions of the embedding.
  \<^item> A Python float is written as a \<^typ>\<open>real\<close>. Where the source computes with floats
    and the result decides a comparison, a truncation to an integer or the travel of
    the plunger (\<^verbatim>\<open>dwell\<close>, \<^verbatim>\<open>transfer_volume\<close>, \<^verbatim>\<open>aspirate\<close>, \<^verbatim>\<open>dispense\<close>), the model
    computes in binary64 as the source does (section on binary floating point). The
    coordinates of wells and slots, which \<^verbatim>\<open>move_to\<close> writes with three decimals, are
    kept as exact sums. Python ints are \<^typ>\<open>int\<close>.
  \<^item> Strings are ASCII \<^typ>\<open>string\<close>s. Exception messages keep their ASCII part.
  \<^item> A Python exception is a value of type \<open>error\<close>; the constructor is the
    exception class and the argument is the message.
  \<^item> The serial port is part of the state of the robot: \<open>sent\<close> is the list of
    commands written so far, \<open>rx\<close> is the list of lines the coming calls of
    \<^verbatim>\<open>_read_line\<close> will return, \<open>stdout\<close> is what \<^verbatim>\<open>print\<close> has printed.
\<close>

datatype error =
    RuntimeError string
  | ValueError string
  | KeyError string
  | IndexError string
  | TypeError string

subsection \<open>deck.py\<close>

record DeckSlot =
  slot_id :: string
  x_deck :: real
  y_deck :: real

record Deck =
  origin_x :: real
  origin_y :: real
  slots :: "string \<rightharpoonup> DeckSlot"

text \<open>\<^verbatim>\<open>DECK_LAYOUT\<close> and \<^verbatim>\<open>Deck.__init__\<close>: the fixed 3 x 2 layout.\<close>

definition mk_slot :: "string \<Rightarrow> real \<Rightarrow> real \<Rightarrow> DeckSlot" where
  "mk_slot i x y = \<lparr>slot_id = i, x_deck = x, y_deck = y\<rparr>"

definition Deck_init :: Deck where
  "Deck_init =
     \<lparr>origin_x = -8, origin_y = -5,
      slots = [''1'' \<mapsto> mk_slot ''1'' 90.9 70.0,
               ''2'' \<mapsto> mk_slot ''2'' 242.1 70.0,
               ''3'' \<mapsto> mk_slot ''3'' 90.9 170.0,
               ''4'' \<mapsto> mk_slot ''4'' 242.1 170.0,
               ''5'' \<mapsto> mk_slot ''5'' 90.9 270.0,
               ''6'' \<mapsto> mk_slot ''6'' 242.1 270.0]\<rparr>"

definition deck_to_machine :: "Deck \<Rightarrow> real \<Rightarrow> real \<Rightarrow> real \<times> real" where
  "deck_to_machine dk xd yd = (origin_x dk + xd, origin_y dk + yd)"

text \<open>\<^verbatim>\<open>self.slots[slot_id]\<close> raises KeyError on an unknown slot.\<close>

definition slot_lookup :: "Deck \<Rightarrow> string \<Rightarrow> error + DeckSlot" where
  "slot_lookup dk sid = (case slots dk sid of None \<Rightarrow> Inl (KeyError sid) | Some sl \<Rightarrow> Inr sl)"

definition slot_center_machine :: "Deck \<Rightarrow> string \<Rightarrow> error + real \<times> real" where
  "slot_center_machine dk sid =
     (case slot_lookup dk sid of
        Inl e \<Rightarrow> Inl e
      | Inr sl \<Rightarrow> Inr (deck_to_machine dk (x_deck sl) (y_deck sl)))"

subsection \<open>labware.py: syringes and labware types\<close>

record SyringeType =
  syringe_name :: string
  max_volume_ul :: real
  u_per_ul :: real
  u_base :: real
  u_min :: "real option"
  u_max :: "real option"

definition Syringe_1ml :: SyringeType where
  "Syringe_1ml =
     \<lparr>syringe_name = ''1ml'', max_volume_ul = 1000.0, u_per_ul = 0.06, u_base = 5.0,
      u_min = Some 0.0, u_max = Some 65.0\<rparr>"

text \<open>The registry \<^verbatim>\<open>SYRINGES\<close>. The operations below take the registry as their
  first argument, so that a statement can range over every calibration.\<close>

definition SYRINGES :: "string \<rightharpoonup> SyringeType" where
  "SYRINGES = [''1ml'' \<mapsto> Syringe_1ml]"

record LabwareType =
  labware_name :: string
  rows :: int
  cols :: int
  pitch_x :: real
  pitch_y :: real
  offset_x :: real
  offset_y :: real
  safe_z :: real
  bottom_z :: real
  aspirate_z :: "real option"
  dispense_z :: "real option"
  tip_touch_z :: "real option"
  tip_press_z :: "real option"
  tip_full_z :: "real option"
  scrape_z :: "real option"

definition LABWARE_TIPRACK_96 :: LabwareType where
  "LABWARE_TIPRACK_96 =
     \<lparr>labware_name = ''tiprack_96'', rows = 8, cols = 12, pitch_x = 9.0, pitch_y = 9.0,
      offset_x = -49.7, offset_y = -31.5, safe_z = 100.0, bottom_z = 0.0,
      aspirate_z = None, dispense_z = None,
      tip_touch_z = Some 170.0, tip_press_z = Some 172.0, tip_full_z = Some 176.0,
      scrape_z = Some 152.0\<rparr>"

definition LABWARE_TIPWASTE_BOX :: LabwareType where
  "LABWARE_TIPWASTE_BOX =
     \<lparr>labware_name = ''tip_waste_box'', rows = 1, cols = 1, pitch_x = 0, pitch_y = 0,
      offset_x = 0, offset_y = 0, safe_z = 100.0, bottom_z = 0.0,
      aspirate_z = None, dispense_z = None,
      tip_touch_z = None, tip_press_z = None, tip_full_z = None,
      scrape_z = Some 170.0\<rparr>"

definition LABWARE_48WELL_10MM :: LabwareType where
  "LABWARE_48WELL_10MM =
     \<lparr>labware_name = ''48well_10mm'', rows = 6, cols = 8, pitch_x = 12.47, pitch_y = 12.47,
      offset_x = -43.88, offset_y = -32.04, safe_z = 158.0, bottom_z = 170.0,
      aspirate_z = None, dispense_z = None,
      tip_touch_z = None, tip_press_z = None, tip_full_z = None,
      scrape_z = None\<rparr>"

definition LABWARE_BEAKER_1WELL :: LabwareType where
  "LABWARE_BEAKER_1WELL =
     \<lparr>labware_name = ''beaker_1well'', rows = 1, cols = 1, pitch_x = 0.0, pitch_y = 0.0,
      offset_x = 0.0, offset_y = 0.0, safe_z = 100.0, bottom_z = 150.0,
      aspirate_z = Some 150.0, dispense_z = Some 150.0,
      tip_touch_z = None, tip_press_z = None, tip_full_z = None,
      scrape_z = None\<rparr>"

subsection \<open>Python string helpers\<close>

definition is_space :: "char \<Rightarrow> bool" where
  "is_space c = (c \<in> set [CHR '' '', CHR 0x09, CHR 0x0A, CHR 0x0B, CHR 0x0C, CHR 0x0D,
                           CHR 0x1C, CHR 0x1D, CHR 0x1E, CHR 0x1F])"

definition strip :: "string \<Rightarrow> string" where
  "strip s = rev (dropWhile is_space (rev (dropWhile is_space s)))"

text \<open>\<^verbatim>\<open>str.upper\<close> and \<^verbatim>\<open>str.lower\<close> on ASCII: the letters are mapped, every other
  character is kept.\<close>

definition upper_char :: "char \<Rightarrow> char" where
  "upper_char c =
     (case map_of (zip ''abcdefghijklmnopqrstuvwxyz'' ''ABCDEFGHIJKLMNOPQRSTUVWXYZ'') c of
        None \<Rightarrow> c | Some d \<Rightarrow> d)"

definition lower_char :: "char \<Rightarrow> char" where
  "lower_char c =
     (case map_of (zip ''ABCDEFGHIJKLMNOPQRSTUVWXYZ'' ''abcdefghijklmnopqrstuvwxyz'') c of
        None \<Rightarrow> c | Some d \<Rightarrow> d)"

definition upper :: "string \<Rightarrow> string" where
  "upper s = map upper_char s"

definition lower :: "string \<Rightarrow> string" where
  "lower s = map lower_char s"

definition startswith :: "string \<Rightarrow> string \<Rightarrow> bool" where
  "startswith s p = (take (length p) s = p)"

text \<open>\<^verbatim>\<open>sub in s\<close> on strings.\<close>

fun contains :: "string \<Rightarrow> string \<Rightarrow> bool" where
  "contains [] sub = (sub = [])"
| "contains (c # cs) sub = (startswith (c # cs) sub \<or> contains cs sub)"

definition join_space :: "string list \<Rightarrow> string" where
  "join_space ps = (case ps of [] \<Rightarrow> [] | p # qs \<Rightarrow> p @ concat (map (\<lambda>q. CHR '' '' # q) qs))"

text \<open>\<^verbatim>\<open>int(x)\<close> on a float truncates towards zero.\<close>

definition py_trunc :: "real \<Rightarrow> int" where
  "py_trunc r = (if 0 \<le> r then \<lfloor>r\<rfloor> else \<lceil>r\<rceil>)"

subsection \<open>Binary floating point\<close>

text \<open>
  A Python float is an IEEE 754 binary64 number, and \<^verbatim>\<open>*\<close> and \<^verbatim>\<open>+\<close> on floats give
  the binary64 number nearest to the exact result, a tie going to the even significand.

  \<open>fl x\<close> is the binary64 number nearest to the real \<open>x\<close>: the multiple of \<open>2 ^ e\<close>
  nearest to \<open>x\<close>, where \<open>e\<close> is 52 below the binary exponent of \<open>x\<close> and not below
  -1074 (the subnormal numbers). A real number in a float position stands for the
  binary64 number nearest to it: the literal \<^verbatim>\<open>0.06\<close> of the source is \<open>fl 0.06\<close>, and a
  number that is binary64 already is read as itself. Results of magnitude \<open>2 ^ 1024\<close> or
  more, where the source holds an infinity, and not-a-number are not represented.

  \<open>ilog2 n x\<close> is the binary exponent of \<open>x > 0\<close>, found by halving or doubling at most
  \<open>n\<close> times; the exponents of the binary64 numbers lie between -1074 and 1023.
\<close>

definition pow2 :: "int \<Rightarrow> real" where
  "pow2 e = (if 0 \<le> e then 2 ^ nat e else 1 / 2 ^ nat (- e))"

fun ilog2 :: "nat \<Rightarrow> real \<Rightarrow> int" where
  "ilog2 0 x = 0"
| "ilog2 (Suc n) x =
     (if 2 \<le> x then ilog2 n (x / 2) + 1 else if x < 1 then ilog2 n (2 * x) - 1 else 0)"

text \<open>Rounding to the nearest integer, a tie going to the even one.\<close>

definition round_even :: "real \<Rightarrow> int" where
  "round_even x =
     (let n = \<lfloor>x\<rfloor>; r = x - of_int n
      in if r < 1 / 2 then n else if 1 / 2 < r then n + 1 else if even n then n else n + 1)"

text \<open>The exponent of the unit in the last place of the 53-bit significand.\<close>

definition ulp_exp :: "real \<Rightarrow> int" where
  "ulp_exp x = max (ilog2 1100 \<bar>x\<bar>) (- 1022) - 52"

definition fl :: "real \<Rightarrow> real" where
  "fl x = (if x = 0 then 0 else of_int (round_even (x / pow2 (ulp_exp x))) * pow2 (ulp_exp x))"

text \<open>\<^verbatim>\<open>a * b\<close> and \<^verbatim>\<open>a + b\<close> on binary64 numbers.\<close>

definition fmul :: "real \<Rightarrow> real \<Rightarrow> real" where
  "fmul a b = fl (a * b)"

definition fadd :: "real \<Rightarrow> real \<Rightarrow> real" where
  "fadd a b = fl (a + b)"

text \<open>The finite binary64 numbers have a magnitude below \<open>2 ^ 1024\<close>.\<close>

definition finite64 :: "real \<Rightarrow> bool" where
  "finite64 x = (\<bar>fl x\<bar> < pow2 1024)"

section \<open>robot.py: the serial session\<close>

text \<open>
  A command line handed to \<^verbatim>\<open>send_gcode\<close>. \<open>Lit\<close> is a literal string of the
  source (\<^verbatim>\<open>"G28"\<close>, \<^verbatim>\<open>"G90"\<close>, ...). \<open>G1\<close> is the line that \<^verbatim>\<open>move_to\<close> and
  \<^verbatim>\<open>move_relative\<close> join from \<^verbatim>\<open>"G1"\<close> and their formatted parts, in the order in
  which the parts are appended; a part keeps the number that the f-string formats
  (\<^verbatim>\<open>f"X{x:.3f}"\<close> is \<open>PX x\<close>, \<^verbatim>\<open>f"F{feedrate:.0f}"\<close> is \<open>PF feedrate\<close>).
  \<open>G4P\<close> is \<^verbatim>\<open>f"G4 P{ms}"\<close>.
\<close>

datatype part = PX real | PY real | PZ real | PU real | PF real

datatype gcode = Lit string | G1 "part list" | G4P int

datatype status = Returned | Raised error | Hung

record Robot =
  connected :: bool
  current_syringe :: "SyringeType option"
  sent :: "gcode list"
  rx :: "(string \<times> real) list"
  stdout :: "string list"

text \<open>
  \<open>connected\<close> stands for \<^verbatim>\<open>self._ser is not None and self._ser.is_open\<close>.
  An element \<open>(line, elapsed)\<close> of \<open>rx\<close> is one iteration of the loop of
  \<^verbatim>\<open>_drain_until_ok_or_timeout\<close>: \<open>line\<close> is what \<^verbatim>\<open>_read_line\<close> returns (decoded and
  stripped, empty when the read timed out) and \<open>elapsed\<close> is the value of
  \<^verbatim>\<open>time.time() - start\<close> read in that iteration. When \<open>rx\<close> is used up and the loop
  has not ended, the call has not returned: the status is \<open>Hung\<close>.

  An action runs on the robot and ends \<open>Returned\<close>, \<open>Raised e\<close> (an exception
  leaves the method; what was written before stays written) or \<open>Hung\<close>.
\<close>

type_synonym action = "Robot \<Rightarrow> status \<times> Robot"

definition raise :: "error \<Rightarrow> action" where
  "raise e s = (Raised e, s)"

text \<open>Statements in sequence: the first one that does not return ends the run.\<close>

fun steps :: "action list \<Rightarrow> action" where
  "steps [] s = (Returned, s)"
| "steps (a # as) s =
     (case a s of (st, s') \<Rightarrow> (case st of Returned \<Rightarrow> steps as s' | _ \<Rightarrow> (st, s')))"

text \<open>A value that may raise, then the statements that use it.\<close>

definition eval_then :: "error + 'a \<Rightarrow> ('a \<Rightarrow> action) \<Rightarrow> action" where
  "eval_then v f s = (case v of Inl e \<Rightarrow> (Raised e, s) | Inr a \<Rightarrow> f a s)"

definition ensure_connected :: action where
  "ensure_connected s =
     (if connected s then (Returned, s)
      else (Raised (RuntimeError ''Serial not connected.''), s))"

definition write_line :: "gcode \<Rightarrow> action" where
  "write_line c s =
     (case ensure_connected s of
        (Returned, _) \<Rightarrow> (Returned, s\<lparr>sent := sent s @ [c]\<rparr>)
      | (st, _) \<Rightarrow> (st, s))"

datatype drained = Ack | TimedOut | FwError string | NoInput

definition is_error_line :: "string \<Rightarrow> bool" where
  "is_error_line line = (line \<noteq> [] \<and> (startswith line ''Error'' \<or> contains (lower line) ''error''))"

definition is_ok_line :: "string \<Rightarrow> bool" where
  "is_ok_line line = (line \<noteq> [] \<and> lower (strip line) = ''ok'')"

text \<open>\<^verbatim>\<open>overall_timeout is not None and overall_timeout > 0\<close>, then
  \<^verbatim>\<open>time.time() - start > overall_timeout\<close>.\<close>

definition expired :: "real option \<Rightarrow> real \<Rightarrow> bool" where
  "expired tmo elapsed = (case tmo of None \<Rightarrow> False | Some t \<Rightarrow> 0 < t \<and> t < elapsed)"

fun drain_loop :: "real option \<Rightarrow> (string \<times> real) list \<Rightarrow> drained \<times> (string \<times> real) list" where
  "drain_loop tmo [] = (NoInput, [])"
| "drain_loop tmo ((line, elapsed) # rest) =
     (if is_error_line line then (FwError line, rest)
      else if is_ok_line line then (Ack, rest)
      else if expired tmo elapsed then (TimedOut, rest)
      else drain_loop tmo rest)"

definition timeout_warning :: string where
  "timeout_warning = ''[WARN] Timeout waiting for ok from firmware, ignore and continue.''"

definition firmware_error :: "string \<Rightarrow> error" where
  "firmware_error line = RuntimeError (''Firmware error: '' @ line)"

definition drain_until_ok_or_timeout :: "real option \<Rightarrow> action" where
  "drain_until_ok_or_timeout tmo s =
     (case ensure_connected s of
        (Returned, _) \<Rightarrow>
          (case drain_loop tmo (rx s) of
             (Ack, r) \<Rightarrow> (Returned, s\<lparr>rx := r\<rparr>)
           | (TimedOut, r) \<Rightarrow> (Returned, s\<lparr>rx := r, stdout := stdout s @ [timeout_warning]\<rparr>)
           | (FwError line, r) \<Rightarrow> (Raised (firmware_error line), s\<lparr>rx := r\<rparr>)
           | (NoInput, r) \<Rightarrow> (Hung, s\<lparr>rx := r\<rparr>))
      | (st, _) \<Rightarrow> (st, s))"

definition send_gcode :: "gcode \<Rightarrow> bool \<Rightarrow> real option \<Rightarrow> action" where
  "send_gcode c wait_ok overall_timeout =
     steps [write_line c,
            (\<lambda>s. if wait_ok then drain_until_ok_or_timeout overall_timeout s else (Returned, s))]"

text \<open>The default \<^verbatim>\<open>overall_timeout\<close> of \<^verbatim>\<open>send_gcode\<close>.\<close>

definition default_timeout :: "real option" where
  "default_timeout = Some 9999.0"

section \<open>robot.py: motion primitives\<close>

definition dwell :: "real \<Rightarrow> action" where
  "dwell seconds =
     send_gcode (G4P (py_trunc (fmul (fl seconds) 1000))) True (Some (fadd (fl seconds) 5.0))"

definition home_all :: "real option \<Rightarrow> action" where
  "home_all tmo =
     steps [send_gcode (Lit ''G28'') True tmo,
            send_gcode (Lit ''G1 U5 F200'') True default_timeout]"

definition home :: "string \<Rightarrow> real option \<Rightarrow> action" where
  "home axes tmo =
     send_gcode
       (Lit (join_space (''G28'' # map (\<lambda>a. [a]) (filter (\<lambda>a. a \<in> set ''XYZU'') (upper axes)))))
       True tmo"

definition set_absolute_mode :: action where
  "set_absolute_mode = send_gcode (Lit ''G90'') True default_timeout"

definition set_relative_mode :: action where
  "set_relative_mode = send_gcode (Lit ''G91'') True default_timeout"

definition opt_part :: "(real \<Rightarrow> part) \<Rightarrow> real option \<Rightarrow> part list" where
  "opt_part mk v = (case v of None \<Rightarrow> [] | Some r \<Rightarrow> [mk r])"

definition move_to ::
  "real option \<Rightarrow> real option \<Rightarrow> real option \<Rightarrow> real option \<Rightarrow> real option \<Rightarrow> real option \<Rightarrow> action" where
  "move_to x y z u feedrate overall_timeout =
     send_gcode
       (G1 (opt_part PX x @ opt_part PY y @ opt_part PZ z @ opt_part PU u @ opt_part PF feedrate))
       True overall_timeout"

text \<open>The default \<^verbatim>\<open>overall_timeout\<close> of \<^verbatim>\<open>move_to\<close> and \<^verbatim>\<open>move_relative\<close>.\<close>

definition move_timeout :: "real option" where
  "move_timeout = Some 999.0"

definition nonzero_part :: "(real \<Rightarrow> part) \<Rightarrow> real \<Rightarrow> part list" where
  "nonzero_part mk d = (if d \<noteq> 0 then [mk d] else [])"

definition move_relative ::
  "real \<Rightarrow> real \<Rightarrow> real \<Rightarrow> real \<Rightarrow> real option \<Rightarrow> real option \<Rightarrow> action" where
  "move_relative dx dy dz du feedrate overall_timeout =
     steps [set_relative_mode,
            send_gcode
              (G1 (nonzero_part PX dx @ nonzero_part PY dy @ nonzero_part PZ dz @
                   nonzero_part PU du @ opt_part PF feedrate))
              True overall_timeout,
            set_absolute_mode]"

section \<open>labware.py: a labware on a slot and its wells\<close>

record LabwareInstance =
  inst_type :: LabwareType
  inst_slot :: DeckSlot
  inst_label :: string
  inst_deck :: Deck

text \<open>
  \<^verbatim>\<open>int(s)\<close> on an ASCII string: surrounding whitespace is dropped, a sign may come
  first, then decimal digits, with single underscores allowed between digits; anything
  else raises ValueError.
\<close>

definition is_digit :: "char \<Rightarrow> bool" where
  "is_digit c = (c \<in> set ''0123456789'')"

definition digit_val :: "char \<Rightarrow> int" where
  "digit_val c = of_char c - 48"

fun digits_value :: "int \<Rightarrow> string \<Rightarrow> int" where
  "digits_value acc [] = acc"
| "digits_value acc (c # cs) = digits_value (10 * acc + digit_val c) cs"

fun int_body_ok :: "string \<Rightarrow> bool" where
  "int_body_ok [] = False"
| "int_body_ok [c] = is_digit c"
| "int_body_ok (c # d # cs) =
     (is_digit c \<and> (if d = CHR ''_'' then int_body_ok cs else int_body_ok (d # cs)))"

definition py_int :: "string \<Rightarrow> error + int" where
  "py_int s =
     (let t = strip s;
          neg = (case t of c # _ \<Rightarrow> c = CHR ''-'' | [] \<Rightarrow> False);
          body = (case t of c # r \<Rightarrow> if c = CHR ''-'' \<or> c = CHR ''+'' then r else t | [] \<Rightarrow> t)
      in if int_body_ok body
         then Inr ((if neg then -1 else 1) * digits_value 0 (filter (\<lambda>c. c \<noteq> CHR ''_'') body))
         else Inl (ValueError (''invalid literal for int() with base 10: '' @ s)))"

text \<open>\<^verbatim>\<open>_well_rc\<close>: \<^verbatim>\<open>well[0]\<close> raises IndexError on the empty string.\<close>

definition well_rc :: "LabwareInstance \<Rightarrow> string \<Rightarrow> error + int \<times> int" where
  "well_rc inst well0 =
     (let well = upper (strip well0) in
      case well of
        [] \<Rightarrow> Inl (IndexError ''string index out of range'')
      | row_char # rest \<Rightarrow>
          (case py_int rest of
             Inl e \<Rightarrow> Inl e
           | Inr n \<Rightarrow>
               (let col = n - 1;
                    row = of_char row_char - of_char (CHR ''A'')
                in if \<not> (0 \<le> row \<and> row < rows (inst_type inst))
                   then Inl (ValueError (''Row out of range: '' @ well))
                   else if \<not> (0 \<le> col \<and> col < cols (inst_type inst))
                   then Inl (ValueError (''Column out of range: '' @ well))
                   else Inr (row, col))))"

definition well_position_deck :: "LabwareInstance \<Rightarrow> string \<Rightarrow> error + real \<times> real" where
  "well_position_deck inst well =
     (case well_rc inst well of
        Inl e \<Rightarrow> Inl e
      | Inr (r, c) \<Rightarrow>
          Inr (x_deck (inst_slot inst) + offset_x (inst_type inst) + of_int c * pitch_x (inst_type inst),
               y_deck (inst_slot inst) + offset_y (inst_type inst) + of_int r * pitch_y (inst_type inst)))"

definition well_position_machine :: "LabwareInstance \<Rightarrow> string \<Rightarrow> error + real \<times> real" where
  "well_position_machine inst well =
     (case well_position_deck inst well of
        Inl e \<Rightarrow> Inl e
      | Inr (x_d, y_d) \<Rightarrow> Inr (deck_to_machine (inst_deck inst) x_d y_d))"

definition LabwareInstance_init ::
  "LabwareType \<Rightarrow> DeckSlot \<Rightarrow> string \<Rightarrow> Deck \<Rightarrow> LabwareInstance" where
  "LabwareInstance_init t sl lbl dk =
     \<lparr>inst_type = t, inst_slot = sl, inst_label = lbl, inst_deck = dk\<rparr>"

section \<open>robot.py: syringe selection\<close>

text \<open>\<^verbatim>\<open>_get_syringe\<close>; \<open>cur\<close> is \<^verbatim>\<open>self.current_syringe\<close>.\<close>

definition get_syringe ::
  "(string \<rightharpoonup> SyringeType) \<Rightarrow> SyringeType option \<Rightarrow> string option \<Rightarrow> error + SyringeType" where
  "get_syringe tbl cur nm =
     (case nm of
        Some n \<Rightarrow>
          (case tbl n of
             None \<Rightarrow> Inl (KeyError (''Unknown syringe type: '' @ n))
           | Some sy \<Rightarrow> Inr sy)
      | None \<Rightarrow>
          (case cur of
             None \<Rightarrow> Inl (RuntimeError ''No syringe selected.'')
           | Some sy \<Rightarrow> Inr sy))"

definition set_syringe :: "(string \<rightharpoonup> SyringeType) \<Rightarrow> string \<Rightarrow> action" where
  "set_syringe tbl n s =
     (case tbl n of
        None \<Rightarrow> (Raised (KeyError (''Unknown syringe type: '' @ n)), s)
      | Some sy \<Rightarrow> (Returned, s\<lparr>current_syringe := Some sy\<rparr>))"

text \<open>
  Python's \<^verbatim>\<open>a or b\<close> on an optional float \<open>a\<close>: the value of \<open>a\<close> when it is truthy,
  else \<open>b\<close>. Both \<^verbatim>\<open>None\<close> and \<^verbatim>\<open>0.0\<close> are falsy.
\<close>

definition py_or :: "real option \<Rightarrow> real \<Rightarrow> real" where
  "py_or a b = (case a of None \<Rightarrow> b | Some v \<Rightarrow> if v = 0 then b else v)"

section \<open>robot.py: liquid-handling choreography\<close>

text \<open>A move of Z alone, and a move of X and Y, as the choreography calls \<^verbatim>\<open>move_to\<close>.\<close>

definition move_z :: "real \<Rightarrow> real \<Rightarrow> action" where
  "move_z z feedrate = move_to None None (Some z) None (Some feedrate) move_timeout"

definition move_xy :: "real \<times> real \<Rightarrow> real \<Rightarrow> action" where
  "move_xy p feedrate = move_to (Some (fst p)) (Some (snd p)) None None (Some feedrate) move_timeout"

definition move_u :: "real \<Rightarrow> real \<Rightarrow> action" where
  "move_u u feedrate = move_to None None None (Some u) (Some feedrate) move_timeout"

definition pick_up_tip :: "Deck \<Rightarrow> string \<Rightarrow> string \<Rightarrow> int \<Rightarrow> action" where
  "pick_up_tip dk sid well n_cycles =
     eval_then (slot_lookup dk sid) (\<lambda>slot.
       let tiprack = LabwareInstance_init LABWARE_TIPRACK_96 slot (''tiprack_slot'' @ sid) dk;
           t = inst_type tiprack;
           z_safe = safe_z t
       in case (tip_touch_z t, tip_press_z t, tip_full_z t) of
            (Some z_touch, Some z_press, Some z_full) \<Rightarrow>
              steps
                ([set_absolute_mode,
                  move_z z_safe 750,
                  eval_then (well_position_machine tiprack well) (\<lambda>xy. move_xy xy 7500),
                  move_z z_touch 750,
                  dwell 0.2]
                 @ concat (replicate (nat n_cycles)
                     [move_z z_press 600, dwell 0.2, move_z z_touch 600, dwell 0.2])
                 @ [move_z z_full 750,
                    dwell 0.2,
                    move_z z_press 750,
                    move_z z_safe 600])
          | _ \<Rightarrow> raise (RuntimeError ''Tiprack LabwareType missing tip Z settings.''))"

definition drop_tip_scrape :: "Deck \<Rightarrow> string \<Rightarrow> string \<Rightarrow> real \<Rightarrow> real \<Rightarrow> action" where
  "drop_tip_scrape dk sid edge slot_half_width extra_scrape =
     eval_then (slot_lookup dk sid) (\<lambda>slot.
       let waste = LabwareInstance_init LABWARE_TIPWASTE_BOX slot (''tipwaste_slot'' @ sid) dk;
           t = inst_type waste;
           z_safe = safe_z t
       in case scrape_z t of
            None \<Rightarrow> raise (RuntimeError ''Tip waste LabwareType missing scrape_z.'')
          | Some z_scrape \<Rightarrow>
              eval_then (slot_center_machine dk sid) (\<lambda>c.
                steps
                  [set_absolute_mode,
                   move_z z_safe 600,
                   move_xy c 7500,
                   move_z z_scrape 750,
                   eval_then
                     (if edge = ''left'' then Inr (fst c - slot_half_width - extra_scrape)
                      else if edge = ''right'' then Inr (fst c + slot_half_width + extra_scrape)
                      else Inl (ValueError ''edge must be left or right.''))
                     (\<lambda>x_target. move_xy (x_target, snd c) 2000),
                   move_z z_safe 600]))"

text \<open>
  \<^verbatim>\<open>transfer_volume\<close>. The travel \<^verbatim>\<open>volume_ul * syr.u_per_ul\<close> and the target
  \<^verbatim>\<open>u_base + dU\<close> are binary64 results, and the two range tests compare binary64
  numbers. The parameter \<^verbatim>\<open>syringe\<close> is handed to \<^verbatim>\<open>_get_syringe\<close>, which takes
  \<^verbatim>\<open>None\<close> for the selected syringe.
\<close>

definition transfer_volume ::
  "(string \<rightharpoonup> SyringeType) \<Rightarrow> Deck \<Rightarrow> string \<Rightarrow> string \<Rightarrow> string \<Rightarrow> string \<Rightarrow> real \<Rightarrow>
   string option \<Rightarrow> real \<Rightarrow> real \<Rightarrow> real \<Rightarrow> real \<Rightarrow> action" where
  "transfer_volume tbl dk src_slot src_well dst_slot dst_well volume_ul syringe
       feed_xy feed_z_down feed_z_up feed_u s =
     eval_then (get_syringe tbl (current_syringe s) syringe) (\<lambda>syr.
       let dU = fmul (fl volume_ul) (fl (u_per_ul syr));
           ub = fl (u_base syr);
           u_asp = fadd ub dU
       in if (case u_min syr of None \<Rightarrow> False | Some m \<Rightarrow> ub < fl m)
          then raise (ValueError ''u_base below syringe u_min.'')
          else if (case u_max syr of None \<Rightarrow> False | Some m \<Rightarrow> u_asp > fl m)
          then raise (ValueError ''U travel exceeds syringe u_max, check volume.'')
          else
            eval_then (slot_lookup dk src_slot) (\<lambda>sslot.
            eval_then (slot_lookup dk dst_slot) (\<lambda>dslot.
              let src_plate = LabwareInstance_init LABWARE_48WELL_10MM sslot
                                (''plate_src_slot'' @ src_slot) dk;
                  dst_plate = LabwareInstance_init LABWARE_48WELL_10MM dslot
                                (''plate_dst_slot'' @ dst_slot) dk;
                  t_src = inst_type src_plate;
                  t_dst = inst_type dst_plate;
                  z_safe_src = safe_z t_src;
                  z_asp = py_or (aspirate_z t_src) (bottom_z t_src);
                  z_safe_dst = safe_z t_dst;
                  z_disp = py_or (dispense_z t_dst) (bottom_z t_dst)
              in steps
                   [set_absolute_mode,
                    move_u ub feed_u,
                    move_z z_safe_src feed_z_up,
                    eval_then (well_position_machine src_plate src_well) (\<lambda>xy. move_xy xy feed_xy),
                    move_z z_asp feed_z_down,
                    move_u u_asp feed_u,
                    move_z z_safe_src feed_z_up,
                    move_z z_safe_dst feed_z_up,
                    eval_then (well_position_machine dst_plate dst_well) (\<lambda>xy. move_xy xy feed_xy),
                    move_z z_disp feed_z_down,
                    move_u ub feed_u,
                    move_z z_safe_dst feed_z_up]))) s"

text \<open>
  \<^verbatim>\<open>aspirate\<close> and \<^verbatim>\<open>dispense\<close>. The argument \<^verbatim>\<open>labware_type\<close> is a reference to an
  object, and the source tests \<^verbatim>\<open>labware_type is LABWARE_BEAKER_1WELL\<close>: the identity of
  the object, not its value. The argument is therefore either the object
  \<^verbatim>\<open>LABWARE_BEAKER_1WELL\<close> of the module \<^verbatim>\<open>labware\<close> itself (\<open>Beaker_object\<close>) or
  another object (\<open>Other_object\<close>), whose fields may take any values, those of the
  beaker included: a copy of the beaker is another object. The object of the module is
  read with the fields it is created with.
\<close>

datatype labware_ref = Beaker_object | Other_object LabwareType

fun object_value :: "labware_ref \<Rightarrow> LabwareType" where
  "object_value Beaker_object = LABWARE_BEAKER_1WELL"
| "object_value (Other_object t) = t"

text \<open>\<^verbatim>\<open>labware_type is LABWARE_BEAKER_1WELL\<close>.\<close>

definition is_LABWARE_BEAKER_1WELL :: "labware_ref \<Rightarrow> bool" where
  "is_LABWARE_BEAKER_1WELL r = (case r of Beaker_object \<Rightarrow> True | Other_object _ \<Rightarrow> False)"

definition aspirate ::
  "(string \<rightharpoonup> SyringeType) \<Rightarrow> real \<Rightarrow> string option \<Rightarrow> Deck option \<Rightarrow> string option \<Rightarrow>
   labware_ref \<Rightarrow> string option \<Rightarrow> real option \<Rightarrow> real option \<Rightarrow>
   real \<Rightarrow> real \<Rightarrow> real \<Rightarrow> real \<Rightarrow> action" where
  "aspirate tbl volume_ul syringe dk sid labware_type well z_safe z_aspirate
       feed_xy feed_z_down feed_z_up feed_u s =
     eval_then (get_syringe tbl (current_syringe s) syringe) (\<lambda>syr.
       let dU = fmul (fl volume_ul) (fl (u_per_ul syr))
       in steps
            [set_absolute_mode,
             (case (dk, sid, well) of
                (Some d, Some i, Some w) \<Rightarrow>
                  eval_then (slot_lookup d i) (\<lambda>slot.
                    let plate = LabwareInstance_init (object_value labware_type) slot
                                  (''asp_plate_slot'' @ i) d;
                        t = inst_type plate;
                        z_safe_local = safe_z t;
                        z_asp_local = py_or (aspirate_z t) (bottom_z t)
                    in steps
                         [(if is_LABWARE_BEAKER_1WELL labware_type
                           then steps
                                  [move_z z_safe_local feed_z_up,
                                   eval_then (well_position_machine plate w)
                                     (\<lambda>xy. move_xy xy feed_xy)]
                           else eval_then (well_position_machine plate w)
                                  (\<lambda>xy. move_xy xy feed_xy)),
                          move_z z_asp_local feed_z_down,
                          move_relative 0 0 0 dU (Some feed_u) move_timeout,
                          move_z z_safe_local feed_z_up])
              | _ \<Rightarrow>
                  (case (z_safe, z_aspirate) of
                     (Some zs, Some za) \<Rightarrow>
                       steps
                         [move_z zs feed_z_up,
                          move_z za feed_z_down,
                          move_relative 0 0 0 dU (Some feed_u) move_timeout,
                          move_z zs feed_z_up]
                   | _ \<Rightarrow>
                       raise (ValueError
                         ''For current-XY aspirate, z_safe and z_aspirate must be provided.'')))]) s"

definition dispense ::
  "(string \<rightharpoonup> SyringeType) \<Rightarrow> real \<Rightarrow> string option \<Rightarrow> Deck option \<Rightarrow> string option \<Rightarrow>
   labware_ref \<Rightarrow> string option \<Rightarrow> real option \<Rightarrow> real option \<Rightarrow>
   real \<Rightarrow> real \<Rightarrow> real \<Rightarrow> real \<Rightarrow> action" where
  "dispense tbl volume_ul syringe dk sid labware_type well z_safe z_dispense
       feed_xy feed_z_down feed_z_up feed_u s =
     eval_then (get_syringe tbl (current_syringe s) syringe) (\<lambda>syr.
       let dU = fmul (fl volume_ul) (fl (u_per_ul syr))
       in steps
            [set_absolute_mode,
             (case (dk, sid, well) of
                (Some d, Some i, Some w) \<Rightarrow>
                  eval_then (slot_lookup d i) (\<lambda>slot.
                    let plate = LabwareInstance_init (object_value labware_type) slot
                                  (''disp_plate_slot'' @ i) d;
                        t = inst_type plate;
                        z_safe_local = safe_z t;
                        z_disp_local = py_or (dispense_z t) (bottom_z t)
                    in steps
                         [(if is_LABWARE_BEAKER_1WELL labware_type
                           then steps
                                  [move_z z_safe_local feed_z_up,
                                   eval_then (well_position_machine plate w)
                                     (\<lambda>xy. move_xy xy feed_xy)]
                           else eval_then (well_position_machine plate w)
                                  (\<lambda>xy. move_xy xy feed_xy)),
                          move_z z_disp_local feed_z_down,
                          move_relative 0 0 0 (- dU) (Some feed_u) move_timeout,
                          move_z z_safe_local feed_z_up])
              | _ \<Rightarrow>
                  (case (z_safe, z_dispense) of
                     (Some zs, Some zd) \<Rightarrow>
                       steps
                         [move_z zs feed_z_up,
                          move_z zd feed_z_down,
                          move_relative 0 0 0 (- dU) (Some feed_u) move_timeout,
                          move_z zs feed_z_up]
                   | _ \<Rightarrow>
                       raise (ValueError
                         ''For current-XY dispense, z_safe and z_dispense must be provided.'')))]) s"

definition dispense_to_beaker ::
  "(string \<rightharpoonup> SyringeType) \<Rightarrow> Deck \<Rightarrow> string \<Rightarrow> real \<Rightarrow> string option \<Rightarrow>
   real \<Rightarrow> real \<Rightarrow> real \<Rightarrow> real \<Rightarrow> action" where
  "dispense_to_beaker tbl dk sid volume_ul syringe feed_xy feed_z_down feed_z_up feed_u =
     dispense tbl volume_ul syringe (Some dk) (Some sid) Beaker_object (Some ''A1'')
       None None feed_xy feed_z_down feed_z_up feed_u"

definition aspirate_from_beaker ::
  "(string \<rightharpoonup> SyringeType) \<Rightarrow> Deck \<Rightarrow> string \<Rightarrow> real \<Rightarrow> string option \<Rightarrow>
   real \<Rightarrow> real \<Rightarrow> real \<Rightarrow> real \<Rightarrow> action" where
  "aspirate_from_beaker tbl dk sid volume_ul syringe feed_xy feed_z_down feed_z_up feed_u =
     aspirate tbl volume_ul syringe (Some dk) (Some sid) Beaker_object (Some ''A1'')
       None None feed_xy feed_z_down feed_z_up feed_u"

section \<open>gui.py: the protocol step executor\<close>

text \<open>
  A step is \<^verbatim>\<open>{"type": ..., "params": {...}}\<close>; the values of the parameters come from
  JSON: numbers, strings and \<^verbatim>\<open>null\<close> (Python's \<^verbatim>\<open>None\<close>). \<^verbatim>\<open>float(s)\<close> on a string is
  the argument \<open>pf\<close> of the executor (\<open>None\<close> when Python raises ValueError).

  The parameters that \<^verbatim>\<open>robot.py\<close> declares as strings (slot, well, edge, syringe) are
  modelled for string values, and the syringe for \<^verbatim>\<open>null\<close> as well. A step that holds a
  number or \<^verbatim>\<open>null\<close> in another of these positions is outside the model: the model stops
  with TypeError at the call, whereas the source makes the call and fails inside it (a
  number as slot raises KeyError at the lookup of the slot, which \<^verbatim>\<open>aspirate\<close> and
  \<^verbatim>\<open>dispense\<close> make after the mode command is written).
\<close>

datatype pyval = PNum real | PStr string | PNull

record ProtocolStep =
  step_type :: string
  params :: "string \<rightharpoonup> pyval"

record PipetteGUI =
  gui_robot :: "Robot option"
  gui_deck :: "Deck option"
  var_syringe :: string

definition bind_e :: "error + 'a \<Rightarrow> ('a \<Rightarrow> error + 'b) \<Rightarrow> error + 'b" where
  "bind_e v f = (case v of Inl e \<Rightarrow> Inl e | Inr a \<Rightarrow> f a)"

text \<open>\<^verbatim>\<open>p[k]\<close> and \<^verbatim>\<open>p.get(k, default)\<close>.\<close>

definition param_item :: "(string \<rightharpoonup> pyval) \<Rightarrow> string \<Rightarrow> error + pyval" where
  "param_item p k = (case p k of None \<Rightarrow> Inl (KeyError k) | Some v \<Rightarrow> Inr v)"

definition param_get :: "(string \<rightharpoonup> pyval) \<Rightarrow> string \<Rightarrow> pyval \<Rightarrow> pyval" where
  "param_get p k dflt = (case p k of None \<Rightarrow> dflt | Some v \<Rightarrow> v)"

definition py_float :: "(string \<Rightarrow> real option) \<Rightarrow> pyval \<Rightarrow> error + real" where
  "py_float pf v =
     (case v of
        PNum r \<Rightarrow> Inr r
      | PStr s \<Rightarrow>
          (case pf s of
             None \<Rightarrow> Inl (ValueError (''could not convert string to float: '' @ s))
           | Some r \<Rightarrow> Inr r)
      | PNull \<Rightarrow> Inl (TypeError ''float() argument must be a string or a real number''))"

definition str_arg :: "pyval \<Rightarrow> error + string" where
  "str_arg v = (case v of PStr s \<Rightarrow> Inr s | _ \<Rightarrow> Inl (TypeError ''expected a string''))"

definition opt_str_arg :: "pyval \<Rightarrow> error + string option" where
  "opt_str_arg v =
     (case v of
        PStr s \<Rightarrow> Inr (Some s)
      | PNull \<Rightarrow> Inr None
      | PNum _ \<Rightarrow> Inl (TypeError ''expected a string or None''))"

definition require_robot :: "PipetteGUI \<Rightarrow> error + Robot \<times> Deck" where
  "require_robot gui =
     (case (gui_robot gui, gui_deck gui) of
        (Some r, Some d) \<Rightarrow> Inr (r, d)
      | _ \<Rightarrow> Inl (RuntimeError ''Robot not connected.''))"

text \<open>
  The branch of \<^verbatim>\<open>_run_single_step\<close> for a step: the parameters are read in the order of
  the source, then the call on the robot is made. \<open>dflt\<close> is \<^verbatim>\<open>self.var_syringe.get()\<close>.
\<close>

definition step_call ::
  "(string \<rightharpoonup> SyringeType) \<Rightarrow> (string \<Rightarrow> real option) \<Rightarrow> Deck \<Rightarrow> string \<Rightarrow> ProtocolStep \<Rightarrow>
   error + action" where
  "step_call tbl pf dk dflt step =
     (let p = params step; ty = step_type step in
      if ty = ''home_xyz'' then Inr (home ''XYZ'' (Some 9999.0))
      else if ty = ''pick_tip'' then
        bind_e (param_item p ''slot'') (\<lambda>slot.
        bind_e (param_item p ''well'') (\<lambda>well.
        bind_e (str_arg slot) (\<lambda>i.
        bind_e (str_arg well) (\<lambda>w.
          Inr (pick_up_tip dk i w 2)))))
      else if ty = ''drop_tip'' then
        bind_e (param_item p ''slot'') (\<lambda>slot.
        bind_e (str_arg slot) (\<lambda>i.
        bind_e (str_arg (param_get p ''edge'' (PStr ''left''))) (\<lambda>edge.
          Inr (drop_tip_scrape dk i edge 64.0 20.0))))
      else if ty = ''transfer'' then
        bind_e (param_item p ''src_slot'') (\<lambda>src_slot.
        bind_e (param_item p ''src_well'') (\<lambda>src_well.
        bind_e (param_item p ''dst_slot'') (\<lambda>dst_slot.
        bind_e (param_item p ''dst_well'') (\<lambda>dst_well.
        bind_e (param_item p ''volume_ul'') (\<lambda>v.
        bind_e (py_float pf v) (\<lambda>volume_ul.
        bind_e (str_arg src_slot) (\<lambda>ss.
        bind_e (str_arg src_well) (\<lambda>sw.
        bind_e (str_arg dst_slot) (\<lambda>ds.
        bind_e (str_arg dst_well) (\<lambda>dw.
        bind_e (opt_str_arg (param_get p ''syringe'' (PStr dflt))) (\<lambda>syr.
          Inr (transfer_volume tbl dk ss sw ds dw volume_ul syr 3000.0 200.0 300.0 200.0))))))))))))
      else if ty = ''aspirate'' then
        bind_e (param_item p ''volume_ul'') (\<lambda>v.
        bind_e (py_float pf v) (\<lambda>volume_ul.
          let slot = param_get p ''slot'' PNull;
              well = param_get p ''well'' PNull
          in if slot = PNull then Inl (ValueError ''aspirate step requires slot.'')
             else
               bind_e (opt_str_arg (param_get p ''syringe'' (PStr dflt))) (\<lambda>syr.
               bind_e (str_arg slot) (\<lambda>i.
                 if well \<noteq> PNull
                 then bind_e (str_arg well) (\<lambda>w.
                        Inr (aspirate tbl volume_ul syr (Some dk) (Some i)
                               (Other_object LABWARE_48WELL_10MM)
                               (Some w) None None 7500.0 600.0 750.0 200.0))
                 else Inr (aspirate_from_beaker tbl dk i volume_ul syr
                             7500.0 600.0 750.0 200.0)))))
      else if ty = ''dispense'' then
        bind_e (param_item p ''volume_ul'') (\<lambda>v.
        bind_e (py_float pf v) (\<lambda>volume_ul.
          let slot = param_get p ''slot'' PNull;
              well = param_get p ''well'' PNull
          in if slot = PNull then Inl (ValueError ''dispense step requires slot.'')
             else
               bind_e (opt_str_arg (param_get p ''syringe'' (PStr dflt))) (\<lambda>syr.
               bind_e (str_arg slot) (\<lambda>i.
                 if well \<noteq> PNull
                 then bind_e (str_arg well) (\<lambda>w.
                        Inr (dispense tbl volume_ul syr (Some dk) (Some i)
                               (Other_object LABWARE_48WELL_10MM)
                               (Some w) None None 7500.0 600.0 750.0 200.0))
                 else Inr (dispense_to_beaker tbl dk i volume_ul syr
                             7500.0 600.0 750.0 200.0)))))
      else if ty = ''dwell'' then
        bind_e (py_float pf (param_get p ''seconds'' (PNum 1.0))) (\<lambda>seconds. Inr (dwell seconds))
      else Inl (ValueError (''Unknown step type: '' @ ty)))"

definition run_single_step ::
  "(string \<rightharpoonup> SyringeType) \<Rightarrow> (string \<Rightarrow> real option) \<Rightarrow> PipetteGUI \<Rightarrow> ProtocolStep \<Rightarrow>
   status \<times> PipetteGUI" where
  "run_single_step tbl pf gui step =
     (case require_robot gui of
        Inl e \<Rightarrow> (Raised e, gui)
      | Inr (r, d) \<Rightarrow>
          (case step_call tbl pf d (var_syringe gui) step of
             Inl e \<Rightarrow> (Raised e, gui)
           | Inr a \<Rightarrow> (case a r of (st, r') \<Rightarrow> (st, gui\<lparr>gui_robot := Some r'\<rparr>))))"

text \<open>An action of the robot, run from the control panel.\<close>

definition on_robot :: "PipetteGUI \<Rightarrow> action \<Rightarrow> status \<times> PipetteGUI" where
  "on_robot gui a =
     (case gui_robot gui of
        None \<Rightarrow> (Raised (RuntimeError ''Robot not connected.''), gui)
      | Some r \<Rightarrow> (case a r of (st, r') \<Rightarrow> (st, gui\<lparr>gui_robot := Some r'\<rparr>)))"

subsection \<open>The safety ordering of a command trace\<close>

text \<open>
  The Z axis of the machine grows downwards: the heights to which the source says it
  goes down (touch 170, press 172, full insertion 176, well bottom 170) are larger
  than the safe heights (100, 158). A commanded Z is at or above the safe height \<open>zs\<close>
  when it is \<open>\<le> zs\<close>.

  \<open>ordering_ok zs zc xy cs\<close> scans the trace \<open>cs\<close>. \<open>zc\<close> is the Z commanded last
  (\<open>None\<close> when none is known) and \<open>xy\<close> tells whether the XY target of the running
  phase has been commanded; a phase ends when Z is commanded back to the safe height
  or above. A move of X or Y is accepted only when the Z commanded last is at or above
  \<open>zs\<close>; a move of Z below \<open>zs\<close> is accepted only when the XY target of the phase has
  been commanded before it. The moves are read as absolute targets: in the operations
  below a relative move carries the plunger axis alone.
\<close>

definition is_lateral :: "part list \<Rightarrow> bool" where
  "is_lateral ps = list_ex (\<lambda>p. case p of PX _ \<Rightarrow> True | PY _ \<Rightarrow> True | _ \<Rightarrow> False) ps"

fun z_target :: "part list \<Rightarrow> real option" where
  "z_target [] = None"
| "z_target (PZ z # ps) = Some z"
| "z_target (p # ps) = z_target ps"

fun ordering_ok :: "real \<Rightarrow> real option \<Rightarrow> bool \<Rightarrow> gcode list \<Rightarrow> bool" where
  "ordering_ok zs zc xy [] = True"
| "ordering_ok zs zc xy (G1 ps # cs) =
     ((if is_lateral ps then (case zc of None \<Rightarrow> False | Some z \<Rightarrow> z \<le> zs) else True) \<and>
      (case z_target ps of
         None \<Rightarrow> ordering_ok zs zc (xy \<or> is_lateral ps) cs
       | Some z' \<Rightarrow>
           if z' \<le> zs then ordering_ok zs (Some z') False cs
           else xy \<and> ordering_ok zs (Some z') xy cs))"
| "ordering_ok zs zc xy (c # cs) = ordering_ok zs zc xy cs"

text \<open>The scrape stroke of \<^verbatim>\<open>drop_tip_scrape\<close> is its only move at feedrate 2000.\<close>

fun is_scrape_stroke :: "gcode \<Rightarrow> bool" where
  "is_scrape_stroke (G1 [PX x, PY y, PF f]) = (f = 2000)"
| "is_scrape_stroke c = False"

fun no_lateral :: "gcode \<Rightarrow> bool" where
  "no_lateral (G1 ps) = (\<not> is_lateral ps)"
| "no_lateral c = True"

subsection \<open>Observers of the command trace\<close>

text \<open>
  The class keeps no field for the positioning mode: the mode is the firmware's, and the
  session selects it by writing \<^verbatim>\<open>G90\<close> (absolute) or \<^verbatim>\<open>G91\<close> (relative). The
  mode in force after a trace is therefore the one of the last mode command written, or
  the prior mode when there is none.
\<close>

datatype pos_mode = Absolute | Relative

fun mode_after :: "pos_mode \<Rightarrow> gcode list \<Rightarrow> pos_mode" where
  "mode_after m [] = m"
| "mode_after m (c # cs) =
     mode_after (if c = Lit ''G90'' then Absolute else if c = Lit ''G91'' then Relative else m) cs"

text \<open>What an action writes when it is run from state \<open>s\<close>.\<close>

definition emitted :: "action \<Rightarrow> Robot \<Rightarrow> gcode list" where
  "emitted a s = drop (length (sent s)) (sent (snd (a s)))"

text \<open>
  \<open>emits a L\<close>: from every state, action \<open>a\<close> writes the commands of \<open>L\<close> in order;
  all of them when it returns, and a prefix of them when it raises or hangs.
\<close>

definition emits :: "action \<Rightarrow> gcode list \<Rightarrow> bool" where
  "emits a L =
     (\<forall>s. case a s of (st, s') \<Rightarrow>
        (if st = Returned then sent s' = sent s @ L
         else \<exists>n. n \<le> length L \<and> sent s' = sent s @ take n L))"

fun part_value :: "part \<Rightarrow> real" where
  "part_value (PX v) = v"
| "part_value (PY v) = v"
| "part_value (PZ v) = v"
| "part_value (PU v) = v"
| "part_value (PF v) = v"

text \<open>A connected robot that has written nothing yet, with the given reads to come.\<close>

definition fresh_robot :: "(string \<times> real) list \<Rightarrow> Robot" where
  "fresh_robot evs =
     \<lparr>connected = True, current_syringe = None, sent = [], rx = evs, stdout = []\<rparr>"

subsection \<open>Reading the acknowledgement: the statement of the protocol\<close>

text \<open>
  The error marker of the protocol: the line contains \<^verbatim>\<open>error\<close>, in any case.
  An iteration is quiet when its line is neither a success line nor an error line and
  the timeout has not expired in it: the loop goes on to the next read.
  \<open>error_read_first tmo l evs\<close>: line \<open>l\<close> carries the error marker and is read after
  quiet iterations only. \<open>timeout_first tmo evs post\<close>: after quiet iterations only, the
  timeout expires in an iteration whose line is neither a success nor an error line;
  \<open>post\<close> is what is left to read.
\<close>

definition error_marker :: "string \<Rightarrow> bool" where
  "error_marker line = contains (lower line) ''error''"

definition quiet :: "real option \<Rightarrow> string \<times> real \<Rightarrow> bool" where
  "quiet tmo ev = (\<not> is_ok_line (fst ev) \<and> \<not> error_marker (fst ev) \<and> \<not> expired tmo (snd ev))"

definition error_read_first :: "real option \<Rightarrow> string \<Rightarrow> (string \<times> real) list \<Rightarrow> bool" where
  "error_read_first tmo l evs =
     (\<exists>pre e post. evs = pre @ (l, e) # post \<and> list_all (quiet tmo) pre \<and> error_marker l)"

definition timeout_first ::
  "real option \<Rightarrow> (string \<times> real) list \<Rightarrow> (string \<times> real) list \<Rightarrow> bool" where
  "timeout_first tmo evs post =
     (\<exists>pre l e. evs = pre @ (l, e) # post \<and> list_all (quiet tmo) pre \<and>
        \<not> is_ok_line l \<and> \<not> error_marker l \<and> expired tmo e)"

subsection \<open>Waits that end\<close>

text \<open>
  \<open>answered_all ts evs\<close>: the waits of successive commands, with the timeouts \<open>ts\<close>,
  each end with an acknowledgement or with a timeout when they read \<open>evs\<close> one after the
  other. \<open>sends\<close> is a sequence of commands, each sent and waited for.
\<close>

fun answered_all :: "real option list \<Rightarrow> (string \<times> real) list \<Rightarrow> bool" where
  "answered_all [] evs = True"
| "answered_all (t # ts) evs =
     (case drain_loop t evs of
        (Ack, r) \<Rightarrow> answered_all ts r
      | (TimedOut, r) \<Rightarrow> answered_all ts r
      | _ \<Rightarrow> False)"

definition sends :: "(gcode \<times> real option) list \<Rightarrow> action list" where
  "sends cts = map (\<lambda>ct. send_gcode (fst ct) True (snd ct)) cts"

subsection \<open>Well names\<close>


section \<open>Properties\<close>

subsection \<open>Binary floating point\<close>

lemma pow2_powi: "pow2 e = 2 powi e"
  by (simp add: pow2_def power_int_def field_simps)

lemma pow2_pos: "0 < pow2 e"
  by (simp add: pow2_powi)

lemma pow2_Suc: "pow2 (e + 1) = 2 * pow2 e"
  by (simp add: pow2_powi power_int_add)

lemma pow2_pred: "pow2 (e - 1) = pow2 e / 2"
  by (simp add: pow2_powi power_int_diff)

lemma pow2_mono: "a \<le> b \<Longrightarrow> pow2 a \<le> pow2 b"
  by (simp add: pow2_powi power_int_increasing)

lemma pow2_less_cancel: "pow2 a < pow2 b \<Longrightarrow> a < b"
  using pow2_mono[of b a] by (cases "a < b") simp_all

lemma pow2_le_one: "pow2 (- int n) \<le> 1"
  by (simp add: pow2_def)

lemma pow2_ge_two: "2 \<le> pow2 (int n + 1)"
proof -
  have "(1::real) \<le> 2 ^ n" by simp
  then show ?thesis using pow2_Suc[of "int n"] by (simp add: pow2_def)
qed

text \<open>
  \<open>ilog2 n x\<close> is the binary exponent of \<open>x\<close> when \<open>x\<close> lies between \<open>2 ^ - n\<close> and
  \<open>2 ^ (n + 1)\<close>, and it is at most \<open>- k\<close> when \<open>x\<close> is below \<open>2 ^ - k\<close>.
\<close>

lemma ilog2_bounds:
  "pow2 (- int n) \<le> x \<Longrightarrow> x < pow2 (int n + 1) \<Longrightarrow>
   pow2 (ilog2 n x) \<le> x \<and> x < pow2 (ilog2 n x + 1)"
proof (induction n arbitrary: x)
  case 0
  then show ?case by (simp add: pow2_def)
next
  case (Suc n)
  show ?case
  proof (cases "2 \<le> x")
    case True
    have 1: "pow2 (- int n) \<le> x / 2"
      using True pow2_le_one[of n] by simp
    have "pow2 (int (Suc n) + 1) = 2 * pow2 (int n + 1)"
      using pow2_Suc[of "int n + 1"] by (simp add: add.commute add.left_commute)
    then have 2: "x / 2 < pow2 (int n + 1)"
      using Suc.prems(2) by simp
    from Suc.IH[OF 1 2] have
      "pow2 (ilog2 n (x / 2)) \<le> x / 2" "x / 2 < pow2 (ilog2 n (x / 2) + 1)"
      by simp_all
    moreover have "pow2 (ilog2 n (x / 2) + 1 + 1) = 2 * pow2 (ilog2 n (x / 2) + 1)"
      by (rule pow2_Suc)
    moreover have "pow2 (ilog2 n (x / 2) + 1) = 2 * pow2 (ilog2 n (x / 2))"
      by (rule pow2_Suc)
    ultimately show ?thesis using True by simp
  next
    case nt: False
    show ?thesis
    proof (cases "x < 1")
      case True
      have "pow2 (- int n) = 2 * pow2 (- int (Suc n))"
        using pow2_Suc[of "- int (Suc n)"] by simp
      then have 1: "pow2 (- int n) \<le> 2 * x"
        using Suc.prems(1) by simp
      have 2: "2 * x < pow2 (int n + 1)"
        using True pow2_ge_two[of n] by simp
      from Suc.IH[OF 1 2] have
        "pow2 (ilog2 n (2 * x)) \<le> 2 * x" "2 * x < pow2 (ilog2 n (2 * x) + 1)"
        by simp_all
      moreover have "pow2 (ilog2 n (2 * x) - 1) = pow2 (ilog2 n (2 * x)) / 2"
        by (rule pow2_pred)
      moreover have "pow2 (ilog2 n (2 * x) + 1) = 2 * pow2 (ilog2 n (2 * x))"
        by (rule pow2_Suc)
      ultimately show ?thesis using True nt by simp
    next
      case False
      then show ?thesis using nt by (simp add: pow2_def)
    qed
  qed
qed

lemma ilog2_nonpos: "x < 2 \<Longrightarrow> ilog2 n x \<le> 0"
proof (induction n arbitrary: x)
  case 0
  show ?case by simp
next
  case (Suc n)
  show ?case
  proof (cases "x < 1")
    case True
    then have "ilog2 n (2 * x) \<le> 0" by (intro Suc.IH) simp
    with True Suc.prems show ?thesis by simp
  next
    case False
    with Suc.prems show ?thesis by simp
  qed
qed

lemma ilog2_small: "x < pow2 (- int k) \<Longrightarrow> k \<le> n \<Longrightarrow> ilog2 n x \<le> - int k"
proof (induction k arbitrary: n x)
  case 0
  then have "x < 2" by (simp add: pow2_def)
  then show ?case using ilog2_nonpos[of x n] by simp
next
  case (Suc k)
  then obtain m where n: "n = Suc m" and km: "k \<le> m" by (cases n) simp_all
  have "pow2 (- int k) = 2 * pow2 (- int (Suc k))"
    using pow2_Suc[of "- int (Suc k)"] by simp
  then have 1: "2 * x < pow2 (- int k)" using Suc.prems(1) by simp
  have "pow2 (- int (Suc k)) \<le> 1" by (rule pow2_le_one)
  then have 2: "x < 1" using Suc.prems(1) by simp
  from Suc.IH[OF 1 km] 2 show ?case by (simp add: n)
qed

text \<open>
  In the normal range the unit in the last place leaves a significand of 53 bits: the
  magnitude of \<open>x\<close> lies between \<open>2 ^ 52\<close> and \<open>2 ^ 53\<close> units. Below the normal range
  the unit is \<open>2 ^ - 1074\<close>.
\<close>

lemma ulp_exp_normal:
  assumes "pow2 (- 1022) \<le> \<bar>x\<bar>" and "\<bar>x\<bar> < pow2 1024"
  shows "pow2 (ulp_exp x + 52) \<le> \<bar>x\<bar> \<and> \<bar>x\<bar> < pow2 (ulp_exp x + 53)"
proof -
  have 1: "pow2 (- int 1100) \<le> \<bar>x\<bar>"
    using assms(1) pow2_mono[of "- int 1100" "- 1022"] by simp
  have 2: "\<bar>x\<bar> < pow2 (int 1100 + 1)"
    using assms(2) pow2_mono[of 1024 "int 1100 + 1"] by simp
  from ilog2_bounds[OF 1 2] have
    b: "pow2 (ilog2 1100 \<bar>x\<bar>) \<le> \<bar>x\<bar>" "\<bar>x\<bar> < pow2 (ilog2 1100 \<bar>x\<bar> + 1)"
    by simp_all
  from assms(1) b(2) have "pow2 (- 1022) < pow2 (ilog2 1100 \<bar>x\<bar> + 1)" by simp
  then have "- 1022 < ilog2 1100 \<bar>x\<bar> + 1" by (rule pow2_less_cancel)
  then have "ulp_exp x = ilog2 1100 \<bar>x\<bar> - 52" by (simp add: ulp_exp_def)
  with b show ?thesis by (simp add: add.commute)
qed

lemma ulp_exp_subnormal:
  assumes "\<bar>x\<bar> < pow2 (- 1022)"
  shows "ulp_exp x = - 1074"
proof -
  have "\<bar>x\<bar> < pow2 (- int 1022)" using assms by simp
  then have "ilog2 1100 \<bar>x\<bar> \<le> - int 1022" by (rule ilog2_small) simp
  then show ?thesis by (simp add: ulp_exp_def)
qed

text \<open>\<open>fl x\<close> is a multiple of the unit in the last place, within half a unit of \<open>x\<close>.\<close>

lemma round_even_near: "\<bar>of_int (round_even y) - y\<bar> \<le> 1 / 2"
  unfolding round_even_def Let_def by (auto simp: abs_if) linarith+

lemma fl_nearest: "\<bar>fl x - x\<bar> \<le> pow2 (ulp_exp x) / 2"
proof (cases "x = 0")
  case True
  then show ?thesis using pow2_pos[of "ulp_exp 0"] by (simp add: fl_def)
next
  case False
  let ?p = "pow2 (ulp_exp x)"
  have p: "0 < ?p" by (rule pow2_pos)
  have "fl x - x = (of_int (round_even (x / ?p)) - x / ?p) * ?p"
    using False p by (simp add: fl_def field_simps)
  then have "\<bar>fl x - x\<bar> = \<bar>of_int (round_even (x / ?p)) - x / ?p\<bar> * ?p"
    using p by (simp add: abs_mult)
  also have "\<dots> \<le> 1 / 2 * ?p"
    using round_even_near[of "x / ?p"] p by (intro mult_right_mono) simp_all
  finally show ?thesis by simp
qed

lemma pow2_add: "pow2 (a + b) = pow2 a * pow2 b"
  by (simp add: pow2_powi power_int_add)

lemma pow2_nonneg_int: "0 \<le> k \<Longrightarrow> pow2 k = of_int (2 ^ nat k)"
  by (simp add: pow2_def)

lemma round_even_int: "round_even (of_int n) = n"
  by (simp add: round_even_def)

text \<open>
  A finite binary64 number, a significand of at most 53 bits times a power of two not
  below \<open>2 ^ - 1074\<close>, is read as itself.
\<close>

lemma fl_exact_number:
  assumes y: "y = of_int N * pow2 e" and N: "\<bar>N\<bar> < 2 ^ 53" and e: "- 1074 \<le> e"
    and r: "\<bar>y\<bar> < pow2 1024"
  shows "fl y = y"
proof (cases "y = 0")
  case True
  then show ?thesis by (simp add: fl_def)
next
  case False
  let ?u = "ulp_exp y"
  have ue: "?u \<le> e"
  proof (cases "pow2 (- 1022) \<le> \<bar>y\<bar>")
    case True
    from ulp_exp_normal[OF True r] have "pow2 (?u + 52) \<le> \<bar>y\<bar>" by simp
    moreover have "\<bar>y\<bar> < pow2 (e + 53)"
    proof -
      have "\<bar>y\<bar> = of_int \<bar>N\<bar> * pow2 e"
        using pow2_pos[of e] by (simp add: y abs_mult)
      also have "\<dots> < 2 ^ 53 * pow2 e"
      proof -
        have "(of_int \<bar>N\<bar> :: real) < of_int (2 ^ 53)" using N by (simp only: of_int_less_iff)
        then show ?thesis using pow2_pos[of e] by simp
      qed
      also have "\<dots> = pow2 (e + 53)"
      proof -
        have "pow2 53 = 2 ^ 53" by (simp add: pow2_def)
        then show ?thesis unfolding pow2_add[of e 53] by simp
      qed
      finally show ?thesis .
    qed
    ultimately have "pow2 (?u + 52) < pow2 (e + 53)" by simp
    then have "?u + 52 < e + 53" by (rule pow2_less_cancel)
    then show ?thesis by simp
  next
    case False
    then have "?u = - 1074" by (intro ulp_exp_subnormal) simp
    with e show ?thesis by simp
  qed
  define k where "k = nat (e - ?u)"
  define p where "p = pow2 ?u"
  have p: "0 < p" unfolding p_def by (rule pow2_pos)
  have "pow2 e = pow2 (e - ?u) * p"
    unfolding p_def using pow2_add[of "e - ?u" ?u] by simp
  also have "pow2 (e - ?u) = of_int (2 ^ k)"
    unfolding k_def using ue by (intro pow2_nonneg_int) simp
  finally have pe: "pow2 e = of_int (2 ^ k) * p" .
  have q: "y = of_int (N * 2 ^ k) * p"
    unfolding y pe by simp
  then have d: "y / p = of_int (N * 2 ^ k)"
    using p by simp
  have "fl y = of_int (round_even (y / p)) * p"
    using False by (simp add: fl_def p_def)
  also have "\<dots> = of_int (N * 2 ^ k) * p"
    unfolding d round_even_int ..
  also have "\<dots> = y" using q ..
  finally show ?thesis .
qed

text \<open>The significand of \<open>fl x\<close> has at most 53 bits, or is \<open>2 ^ 53\<close>.\<close>

lemma round_even_bound:
  assumes "\<bar>y\<bar> < of_int M"
  shows "\<bar>round_even y\<bar> \<le> M"
proof -
  have "y < of_int M" "- of_int M < y" using assms by simp_all
  then have "\<lfloor>y\<rfloor> < M" "- M \<le> \<lfloor>y\<rfloor>" by (simp_all add: floor_less_iff le_floor_iff)
  then show ?thesis by (auto simp: round_even_def Let_def)
qed

lemma fl_significand:
  assumes "\<bar>x\<bar> < pow2 1024"
  shows "- 1074 \<le> ulp_exp x \<and> \<bar>round_even (x / pow2 (ulp_exp x))\<bar> \<le> 2 ^ 53"
proof -
  let ?u = "ulp_exp x"
  have u: "- 1074 \<le> ?u" by (simp add: ulp_exp_def)
  have p: "0 < pow2 ?u" by (rule pow2_pos)
  have "\<bar>x\<bar> < pow2 (?u + 53)"
  proof (cases "pow2 (- 1022) \<le> \<bar>x\<bar>")
    case True
    from ulp_exp_normal[OF True assms] show ?thesis by simp
  next
    case False
    then have "?u = - 1074" by (intro ulp_exp_subnormal) simp
    moreover have "pow2 (- 1022) \<le> pow2 (- 1021)" by (rule pow2_mono) simp
    ultimately show ?thesis using False by simp
  qed
  also have "pow2 (?u + 53) = pow2 ?u * 2 ^ 53"
  proof -
    have "pow2 53 = 2 ^ 53" by (simp add: pow2_def)
    then show ?thesis unfolding pow2_add[of ?u 53] by simp
  qed
  finally have "\<bar>x\<bar> / pow2 ?u < 2 ^ 53"
    using p by (simp add: field_simps)
  then have "\<bar>x / pow2 ?u\<bar> < of_int (2 ^ 53)"
    using p by (simp add: abs_divide)
  then have "\<bar>round_even (x / pow2 ?u)\<bar> \<le> 2 ^ 53" by (rule round_even_bound)
  with u show ?thesis by simp
qed

paragraph \<open>The numbers of the program\<close>

lemma ilog2_numeral:
  "ilog2 (numeral k) x =
     (if 2 \<le> x then ilog2 (pred_numeral k) (x / 2) + 1
      else if x < 1 then ilog2 (pred_numeral k) (2 * x) - 1 else 0)"
  by (simp add: numeral_eq_Suc)

lemmas fl_eval =
  fl_def ulp_exp_def round_even_def pow2_def Let_def ilog2_numeral fmul_def fadd_def
  finite64_def

text \<open>The coefficient 0.06 of the syringe is not a binary64 number; 5, 50 and 65 are.\<close>

lemma fl_coefficient: "fl 0.06 = 1080863910568919 / 2 ^ 54"
  by (simp add: fl_eval)

lemma fl_exact: "fl 5 = 5" "fl 50 = 50" "fl 65 = 65" "fl 0 = 0"
  by (simp_all add: fl_eval)

lemma travel_50: "fmul (fl 50) (fl 0.06) = 3"
  by (simp add: fl_eval)

lemma target_50: "fadd (fl 5) (fmul (fl 50) (fl 0.06)) = 8"
  by (simp add: fl_eval)

lemma travel_1001: "fmul (fl 1001) (fl 0.06) = 8452693550620999 / 2 ^ 47"
  by (simp add: fl_eval)

text \<open>
  \<^verbatim>\<open>int(seconds * 1000)\<close>: 200 for 0.2 seconds; for 1.001 seconds the product is the
  binary64 number just below 1001, and the integer is 1000.
\<close>

lemma dwell_ms: "py_trunc (fmul (fl 0.2) 1000) = 200" "py_trunc (fmul (fl 1.001) 1000) = 1000"
  by (simp_all add: fl_eval py_trunc_def)

subsection \<open>Traces of sequences of commands\<close>

lemma emitsI:
  assumes "\<And>s s'. a s = (Returned, s') \<Longrightarrow> sent s' = sent s @ L"
    and "\<And>s st s'. a s = (st, s') \<Longrightarrow> st \<noteq> Returned \<Longrightarrow>
           \<exists>n. n \<le> length L \<and> sent s' = sent s @ take n L"
  shows "emits a L"
  unfolding emits_def using assms by (auto split: prod.splits)

lemma emits_returned: "emits a L \<Longrightarrow> a s = (Returned, s') \<Longrightarrow> sent s' = sent s @ L"
  unfolding emits_def by (auto split: prod.splits dest!: spec[of _ s])

lemma emits_prefix: "emits a L \<Longrightarrow> \<exists>n. n \<le> length L \<and> sent (snd (a s)) = sent s @ take n L"
  unfolding emits_def
  apply (drule spec[of _ s])
  apply (cases "a s")
  apply (auto split: if_splits)
  done

lemma emits_emitted: "emits a L \<Longrightarrow> \<exists>n. n \<le> length L \<and> emitted a s = take n L"
  using emits_prefix[of a L s] by (auto simp: emitted_def)

lemma emits_emitted_returned: "emits a L \<Longrightarrow> fst (a s) = Returned \<Longrightarrow> emitted a s = L"
  using emits_returned[of a L s "snd (a s)"] by (cases "a s") (simp add: emitted_def)

lemma emits_raise: "emits (raise e) L"
  unfolding emits_def raise_def by (auto intro: exI[of _ 0])

lemma emits_nil: "emits (steps []) []"
  unfolding emits_def by simp

lemma emits_cons:
  assumes a: "emits a L1" and b: "emits (steps as) L2"
  shows "emits (steps (a # as)) (L1 @ L2)"
proof (rule emitsI)
  fix s s' assume r: "steps (a # as) s = (Returned, s')"
  then obtain s1 where 1: "a s = (Returned, s1)" and 2: "steps as s1 = (Returned, s')"
    by (auto split: prod.splits status.splits)
  from emits_returned[OF a 1] emits_returned[OF b 2] show "sent s' = sent s @ L1 @ L2" by simp
next
  fix s st s' assume r: "steps (a # as) s = (st, s')" and n: "st \<noteq> Returned"
  obtain st1 s1 where 1: "a s = (st1, s1)" by (cases "a s")
  show "\<exists>n. n \<le> length (L1 @ L2) \<and> sent s' = sent s @ take n (L1 @ L2)"
  proof (cases "st1 = Returned")
    case True
    with 1 r have 2: "steps as s1 = (st, s')" by simp
    from emits_prefix[OF b, of s1] 2 obtain k where
      k: "k \<le> length L2" "sent s' = sent s1 @ take k L2"
      by auto
    from emits_returned[OF a] 1 True have "sent s1 = sent s @ L1" by simp
    with k show ?thesis by (intro exI[of _ "length L1 + k"]) simp
  next
    case False
    with 1 r have e: "s' = s1" by (cases st1) auto
    from emits_prefix[OF a, of s] 1 obtain k where
      k: "k \<le> length L1" "sent s1 = sent s @ take k L1"
      by auto
    with e show ?thesis by (intro exI[of _ k]) simp
  qed
qed

lemma emits_send: "emits (send_gcode c w tmo) [c]"
proof (rule emitsI)
  fix s s' assume "send_gcode c w tmo s = (Returned, s')"
  then show "sent s' = sent s @ [c]"
    by (auto simp: send_gcode_def write_line_def ensure_connected_def
        drain_until_ok_or_timeout_def
        split: if_splits prod.splits status.splits drained.splits)
next
  fix s st s' assume "send_gcode c w tmo s = (st, s')" "st \<noteq> Returned"
  then have "sent s' = sent s \<or> sent s' = sent s @ [c]"
    by (auto simp: send_gcode_def write_line_def ensure_connected_def
        drain_until_ok_or_timeout_def
        split: if_splits prod.splits status.splits drained.splits)
  then show "\<exists>n. n \<le> length [c] \<and> sent s' = sent s @ take n [c]"
    by (auto intro: exI[of _ 0] exI[of _ 1])
qed

lemma mode_after_append: "mode_after m (xs @ ys) = mode_after (mode_after m xs) ys"
  by (induction xs arbitrary: m) auto

subsection \<open>One command and its acknowledgement\<close>

lemma ok_line [simp]:
  "is_ok_line ''ok''" "\<not> is_error_line ''ok''" "\<not> is_ok_line []" "\<not> is_error_line []"
  by (simp_all add: is_ok_line_def is_error_line_def lower_def lower_char_def strip_def
      is_space_def startswith_def)

lemma send_gcode_acked:
  "connected s \<Longrightarrow> rx s = (l, e) # r \<Longrightarrow> is_ok_line l \<Longrightarrow> \<not> is_error_line l \<Longrightarrow>
   send_gcode c True tmo s = (Returned, s\<lparr>sent := sent s @ [c], rx := r\<rparr>)"
  by (simp add: send_gcode_def write_line_def ensure_connected_def
      drain_until_ok_or_timeout_def)

lemma send_gcode_timed_out:
  "connected s \<Longrightarrow> rx s = (l, e) # r \<Longrightarrow> \<not> is_ok_line l \<Longrightarrow> \<not> is_error_line l \<Longrightarrow>
   expired tmo e \<Longrightarrow>
   send_gcode c True tmo s =
     (Returned, s\<lparr>sent := sent s @ [c], rx := r, stdout := stdout s @ [timeout_warning]\<rparr>)"
  by (simp add: send_gcode_def write_line_def ensure_connected_def
      drain_until_ok_or_timeout_def)

lemma send_gcode_answered:
  assumes "connected s" and "drain_loop t (rx s) = (Ack, r) \<or> drain_loop t (rx s) = (TimedOut, r)"
  shows "\<exists>s'. send_gcode c True t s = (Returned, s') \<and> connected s' \<and> rx s' = r \<and>
              sent s' = sent s @ [c]"
  using assms
  by (auto simp: send_gcode_def write_line_def ensure_connected_def drain_until_ok_or_timeout_def
      steps.simps)

lemma steps_sends_returned:
  "connected s \<Longrightarrow> answered_all (map snd cts) (rx s) \<Longrightarrow>
   \<exists>s'. steps (sends cts) s = (Returned, s') \<and> connected s' \<and> sent s' = sent s @ map fst cts"
proof (induction cts arbitrary: s)
  case Nil
  then show ?case by (simp add: sends_def steps.simps)
next
  case (Cons ct cts)
  obtain c t where ct: "ct = (c, t)" by (cases ct)
  from Cons.prems(2) obtain r where
    r: "drain_loop t (rx s) = (Ack, r) \<or> drain_loop t (rx s) = (TimedOut, r)"
    and a: "answered_all (map snd cts) r"
    by (auto simp: ct split: prod.splits drained.splits)
  from send_gcode_answered[OF Cons.prems(1) r, of c] obtain s1 where
    s1: "send_gcode c True t s = (Returned, s1)" "connected s1" "rx s1 = r"
        "sent s1 = sent s @ [c]"
    by blast
  from Cons.IH[OF s1(2)] a s1(3) obtain s' where
    "steps (sends cts) s1 = (Returned, s')" "connected s'" "sent s' = sent s1 @ map fst cts"
    by auto
  with s1 show ?case by (simp add: sends_def steps.simps ct)
qed

lemma contains_startswith: "startswith s sub \<Longrightarrow> contains s sub"
  by (cases s) (auto simp: startswith_def)

lemma startswith_lower: "startswith s p \<Longrightarrow> startswith (lower s) (lower p)"
  by (auto simp: startswith_def lower_def take_map)

lemma lower_Error: "lower ''Error'' = ''error''"
  by (simp add: lower_def lower_char_def)

text \<open>The test of the source, \<^verbatim>\<open>line.startswith("Error") or "error" in line.lower()\<close>
  on a non-empty line, is the case-insensitive substring test.\<close>

lemma is_error_line_marker: "is_error_line l = error_marker l"
proof -
  have "startswith l ''Error'' \<Longrightarrow> contains (lower l) ''error''"
    using startswith_lower[of l "''Error''"] contains_startswith by (simp add: lower_Error)
  moreover have "\<not> contains (lower []) ''error''" by (simp add: lower_def)
  ultimately show ?thesis unfolding is_error_line_def error_marker_def by auto
qed

lemma drain_loop_error_iff:
  "fst (drain_loop tmo evs) = FwError l \<longleftrightarrow> error_read_first tmo l evs"
proof (induction evs)
  case Nil
  show ?case by (simp add: error_read_first_def)
next
  case (Cons ev evs)
  obtain l0 e0 where ev: "ev = (l0, e0)" by (cases ev)
  show ?case
  proof (cases "quiet tmo ev")
    case True
    then have "fst (drain_loop tmo (ev # evs)) = fst (drain_loop tmo evs)"
      by (simp add: ev quiet_def is_error_line_marker)
    moreover have "error_read_first tmo l (ev # evs) = error_read_first tmo l evs"
    proof
      assume "error_read_first tmo l (ev # evs)"
      then obtain pre e post where
        d: "ev # evs = pre @ (l, e) # post" "list_all (quiet tmo) pre" "error_marker l"
        unfolding error_read_first_def by blast
      show "error_read_first tmo l evs"
      proof (cases pre)
        case Nil
        with d True show ?thesis by (simp add: quiet_def)
      next
        case (Cons p pre')
        with d have "evs = pre' @ (l, e) # post \<and> list_all (quiet tmo) pre' \<and> error_marker l"
          by simp
        then show ?thesis unfolding error_read_first_def by blast
      qed
    next
      assume "error_read_first tmo l evs"
      then obtain pre e post where
        "evs = pre @ (l, e) # post" "list_all (quiet tmo) pre" "error_marker l"
        unfolding error_read_first_def by blast
      with True have
        "ev # evs = (ev # pre) @ (l, e) # post \<and> list_all (quiet tmo) (ev # pre) \<and> error_marker l"
        by simp
      then show "error_read_first tmo l (ev # evs)"
        unfolding error_read_first_def by blast
    qed
    ultimately show ?thesis using Cons.IH by simp
  next
    case False
    have a: "error_read_first tmo l (ev # evs) \<longleftrightarrow> (l0 = l \<and> error_marker l)"
    proof
      assume "error_read_first tmo l (ev # evs)"
      then obtain pre e post where
        d: "ev # evs = pre @ (l, e) # post" "list_all (quiet tmo) pre" "error_marker l"
        unfolding error_read_first_def by blast
      with False show "l0 = l \<and> error_marker l"
        by (cases pre) (auto simp: ev)
    next
      assume "l0 = l \<and> error_marker l"
      then have "ev # evs = [] @ (l, e0) # evs \<and> list_all (quiet tmo) [] \<and> error_marker l"
        by (simp add: ev)
      then show "error_read_first tmo l (ev # evs)"
        unfolding error_read_first_def by blast
    qed
    have b: "fst (drain_loop tmo (ev # evs)) = FwError l \<longleftrightarrow> (l0 = l \<and> error_marker l)"
      using False by (auto simp: ev quiet_def is_error_line_marker)
    show ?thesis using a b by simp
  qed
qed

lemma drain_loop_timeout:
  "timeout_first tmo evs post \<Longrightarrow> drain_loop tmo evs = (TimedOut, post)"
proof (induction evs)
  case Nil
  then show ?case by (simp add: timeout_first_def)
next
  case (Cons ev evs)
  obtain l0 e0 where ev: "ev = (l0, e0)" by (cases ev)
  from Cons.prems obtain pre l e where
    d: "ev # evs = pre @ (l, e) # post" "list_all (quiet tmo) pre"
       "\<not> is_ok_line l" "\<not> error_marker l" "expired tmo e"
    unfolding timeout_first_def by blast
  show ?case
  proof (cases pre)
    case Nil
    with d show ?thesis by (simp add: is_error_line_marker)
  next
    case (Cons p pre')
    with d have q: "quiet tmo ev" and t: "timeout_first tmo evs post"
      unfolding timeout_first_def by auto
    from q have "drain_loop tmo (ev # evs) = drain_loop tmo evs"
      by (simp add: ev quiet_def is_error_line_marker)
    with Cons.IH[OF t] show ?thesis by simp
  qed
qed

subsection \<open>Claim C7: outcomes of a send that waits for the acknowledgement\<close>

text \<open>
  C7. For every command sent with acknowledgement waiting enabled on a connected session:
  the send raises the firmware error of line \<open>l\<close> exactly when \<open>l\<close>, a line that contains
  the error marker (case-insensitive substring), is read by the loop before any success
  line and before the timeout has ended the loop; no other exception is raised; and when
  the timeout expires in an iteration with neither a success nor an error line seen so
  far, the send prints the warning and returns normally, the command written: a timeout
  never raises. (A timeout that is \<^verbatim>\<open>None\<close> or not positive is no timeout: the source
  waits without bound, and \<open>expired\<close> is false for it.)
\<close>

theorem send_gcode_wait_outcomes:
  assumes "connected s"
  shows "(fst (send_gcode c True tmo s) = Raised (firmware_error l) \<longleftrightarrow>
            error_read_first tmo l (rx s))
       \<and> (\<forall>e. fst (send_gcode c True tmo s) = Raised e \<longrightarrow>
            (\<exists>l'. e = firmware_error l' \<and> error_read_first tmo l' (rx s)))
       \<and> (timeout_first tmo (rx s) post \<longrightarrow>
            send_gcode c True tmo s =
              (Returned,
               s\<lparr>sent := sent s @ [c], rx := post, stdout := stdout s @ [timeout_warning]\<rparr>))"
proof -
  have 1: "fst (send_gcode c True tmo s) = Raised (firmware_error l') \<longleftrightarrow>
        fst (drain_loop tmo (rx s)) = FwError l'" for l'
    using assms
    by (auto simp: send_gcode_def write_line_def ensure_connected_def steps.simps
        drain_until_ok_or_timeout_def firmware_error_def split: prod.splits drained.splits)
  have 2: "\<exists>l'. e = firmware_error l' \<and> fst (drain_loop tmo (rx s)) = FwError l'"
    if "fst (send_gcode c True tmo s) = Raised e" for e
    using assms that
    by (auto simp: send_gcode_def write_line_def ensure_connected_def steps.simps
        drain_until_ok_or_timeout_def split: prod.splits drained.splits)
  have 3: "timeout_first tmo (rx s) post \<Longrightarrow>
            send_gcode c True tmo s =
              (Returned,
               s\<lparr>sent := sent s @ [c], rx := post, stdout := stdout s @ [timeout_warning]\<rparr>)"
    using assms drain_loop_timeout[of tmo "rx s" post]
    by (simp add: send_gcode_def write_line_def ensure_connected_def steps.simps
        drain_until_ok_or_timeout_def)
  from 1[of l] 2 3 show ?thesis by (auto simp: drain_loop_error_iff)
qed

lemma quiet_echo: "quiet (Some 5) (''echo:busy'', 1)"
  by (simp add: quiet_def is_ok_line_def error_marker_def expired_def lower_def lower_char_def
      strip_def is_space_def startswith_def)

lemma marker_ex: "error_marker ''ERROR:Printer halted''"
  by (simp add: error_marker_def lower_def lower_char_def startswith_def)

theorem send_gcode_wait_outcomes_witness:
  "fst (send_gcode (Lit ''G28'') True (Some 5)
          (fresh_robot [(''echo:busy'', 1), (''ERROR:Printer halted'', 2), (''ok'', 3)]))
     = Raised (firmware_error ''ERROR:Printer halted'')
   \<and> send_gcode (Lit ''G28'') True (Some 5) (fresh_robot [(''echo:busy'', 1), ([], 6), (''ok'', 7)])
     = (Returned,
        \<lparr>connected = True, current_syringe = None, sent = [Lit ''G28''], rx = [(''ok'', 7)],
         stdout = [timeout_warning]\<rparr>)"
proof -
  have c: "connected (fresh_robot evs)" for evs by (simp add: fresh_robot_def)
  have e: "error_read_first (Some 5) ''ERROR:Printer halted''
             (rx (fresh_robot [(''echo:busy'', 1), (''ERROR:Printer halted'', 2), (''ok'', 3)]))"
    unfolding error_read_first_def
    apply (rule exI[of _ "[(''echo:busy'', 1)]"])
    apply (rule exI[of _ 2])
    apply (rule exI[of _ "[(''ok'', 3)]"])
    apply (simp add: fresh_robot_def quiet_echo marker_ex)
    done
  have t: "timeout_first (Some 5) (rx (fresh_robot [(''echo:busy'', 1), ([], 6), (''ok'', 7)]))
             [(''ok'', 7)]"
    unfolding timeout_first_def
    apply (rule exI[of _ "[(''echo:busy'', 1)]"])
    apply (rule exI[of _ "[]"])
    apply (rule exI[of _ 6])
    apply (simp add: fresh_robot_def quiet_echo error_marker_def lower_def expired_def)
    done
  from send_gcode_wait_outcomes[OF c, where c = "Lit ''G28''" and tmo = "Some 5"
      and l = "''ERROR:Printer halted''"] e
    send_gcode_wait_outcomes[OF c, where c = "Lit ''G28''" and tmo = "Some 5"
      and post = "[(''ok'', 7)]"] t
  show ?thesis by (simp add: fresh_robot_def)
qed

subsection \<open>Claim C5: a relative move leaves the session in absolute mode\<close>

lemma send_ok:
  "send_gcode c True tmo
     \<lparr>connected = True, current_syringe = cs, sent = xs, rx = (''ok'', e) # r, stdout = so\<rparr> =
   (Returned, \<lparr>connected = True, current_syringe = cs, sent = xs @ [c], rx = r, stdout = so\<rparr>)"
  by (simp add: send_gcode_acked)

lemma send_silent:
  "expired tmo e \<Longrightarrow>
   send_gcode c True tmo
     \<lparr>connected = True, current_syringe = cs, sent = xs, rx = ([], e) # r, stdout = so\<rparr> =
   (Returned, \<lparr>connected = True, current_syringe = cs, sent = xs @ [c], rx = r,
              stdout = so @ [timeout_warning]\<rparr>)"
  by (simp add: send_gcode_timed_out)

lemma emits_move_relative:
  "emits (move_relative dx dy dz du fr tmo)
     [Lit ''G91'',
      G1 (nonzero_part PX dx @ nonzero_part PY dy @ nonzero_part PZ dz @ nonzero_part PU du @
          opt_part PF fr),
      Lit ''G90'']"
  unfolding move_relative_def set_relative_mode_def set_absolute_mode_def
  using emits_cons[OF emits_send emits_cons[OF emits_send emits_cons[OF emits_send emits_nil]]]
  by simp

lemma move_relative_sends:
  "move_relative dx dy dz du fr tmo =
   steps (sends [(Lit ''G91'', default_timeout),
                 (G1 (nonzero_part PX dx @ nonzero_part PY dy @ nonzero_part PZ dz @
                      nonzero_part PU du @ opt_part PF fr), tmo),
                 (Lit ''G90'', default_timeout)])"
  by (simp add: move_relative_def sends_def set_relative_mode_def set_absolute_mode_def)

lemma move_relative_returns:
  assumes "connected s" and "answered_all [default_timeout, tmo, default_timeout] (rx s)"
  shows "fst (move_relative dx dy dz du fr tmo s) = Returned"
  using steps_sends_returned[OF assms(1), of "[(Lit ''G91'', default_timeout),
                 (G1 (nonzero_part PX dx @ nonzero_part PY dy @ nonzero_part PZ dz @
                      nonzero_part PU du @ opt_part PF fr), tmo),
                 (Lit ''G90'', default_timeout)]"] assms(2)
  by (auto simp: move_relative_sends)

text \<open>
  C5. For every prior positioning mode \<open>m\<close> and every delta vector: \<^verbatim>\<open>move_relative\<close>
  returns on a connected session whenever each of its three waits ends with an
  acknowledgement or with a timeout; and whenever it returns it has written exactly the
  relative-mode command, one combined move holding only the non-zero deltas (and the
  feedrate when one is given) and the absolute-mode command, so that the mode in force
  afterwards is absolute. In the instance that follows, the first command is
  acknowledged and the waits of the other two time out.
\<close>

theorem move_relative_leaves_absolute:
  "(connected s \<and> answered_all [default_timeout, tmo, default_timeout] (rx s) \<longrightarrow>
      fst (move_relative dx dy dz du fr tmo s) = Returned)
   \<and> (\<forall>s'. move_relative dx dy dz du fr tmo s = (Returned, s') \<longrightarrow>
         sent s' = sent s @
           [Lit ''G91'',
            G1 (filter (\<lambda>p. part_value p \<noteq> 0) [PX dx, PY dy, PZ dz, PU du] @
                (case fr of None \<Rightarrow> [] | Some f \<Rightarrow> [PF f])),
            Lit ''G90'']
         \<and> mode_after m (sent s') = Absolute)"
proof -
  have "sent s' = sent s @
           [Lit ''G91'',
            G1 (filter (\<lambda>p. part_value p \<noteq> 0) [PX dx, PY dy, PZ dz, PU du] @
                (case fr of None \<Rightarrow> [] | Some f \<Rightarrow> [PF f])),
            Lit ''G90'']
         \<and> mode_after m (sent s') = Absolute"
    if "move_relative dx dy dz du fr tmo s = (Returned, s')" for s'
    using emits_returned[OF emits_move_relative that]
    by (simp add: mode_after_append nonzero_part_def opt_part_def split: option.splits)
  then show ?thesis using move_relative_returns by blast
qed

lemma answered_ex:
  "answered_all [default_timeout, move_timeout, default_timeout] [(''ok'', 1), ([], 1000), ([], 10000)]"
  by (simp add: expired_def default_timeout_def move_timeout_def)


theorem move_relative_leaves_absolute_witness:
  "fst (move_relative 0 0 0 3 (Some 200) move_timeout
          (fresh_robot [(''ok'', 1), ([], 1000), ([], 10000)])) = Returned
   \<and> mode_after Relative
        (sent (snd (move_relative 0 0 0 3 (Some 200) move_timeout
                      (fresh_robot [(''ok'', 1), ([], 1000), ([], 10000)])))) = Absolute
   \<and> sent (snd (move_relative 0 0 0 3 (Some 200) move_timeout
                      (fresh_robot [(''ok'', 1), ([], 1000), ([], 10000)])))
       = [Lit ''G91'', G1 [PU 3, PF 200], Lit ''G90'']"
proof -
  let ?s = "fresh_robot [(''ok'', 1), ([], 1000), ([], 10000)]"
  have c: "connected ?s \<and> answered_all [default_timeout, move_timeout, default_timeout] (rx ?s)"
    using answered_ex by (simp add: fresh_robot_def)
  note t = move_relative_leaves_absolute[of ?s move_timeout 0 0 0 3 "Some 200" Relative]
  from t c have r: "fst (move_relative 0 0 0 3 (Some 200) move_timeout ?s) = Returned"
    by blast
  then have e: "move_relative 0 0 0 3 (Some 200) move_timeout ?s =
                (Returned, snd (move_relative 0 0 0 3 (Some 200) move_timeout ?s))"
    by (cases "move_relative 0 0 0 3 (Some 200) move_timeout ?s") simp
  from t e have "sent (snd (move_relative 0 0 0 3 (Some 200) move_timeout ?s)) = sent ?s @
           [Lit ''G91'',
            G1 (filter (\<lambda>p. part_value p \<noteq> 0) [PX 0, PY 0, PZ 0, PU 3] @
                (case Some 200 of None \<Rightarrow> [] | Some f \<Rightarrow> [PF f])),
            Lit ''G90'']
         \<and> mode_after Relative (sent (snd (move_relative 0 0 0 3 (Some 200) move_timeout ?s)))
             = Absolute"
    by blast
  with r show ?thesis by (simp add: fresh_robot_def)
qed

subsection \<open>Claim C9: homing all axes\<close>

lemma emits_home_all: "emits (home_all tmo) [Lit ''G28'', Lit ''G1 U5 F200'']"
  unfolding home_all_def
  using emits_cons[OF emits_send emits_cons[OF emits_send emits_nil]] by simp

lemma home_all_acked:
  "home_all default_timeout (fresh_robot [(''ok'', 12), (''ok'', 1)]) =
   (Returned,
    \<lparr>connected = True, current_syringe = None,
     sent = [Lit ''G28'', Lit ''G1 U5 F200''], rx = [], stdout = []\<rparr>)"
  by (simp add: home_all_def send_ok fresh_robot_def)

text \<open>
  C9, as stated, says that the command after the homing command is a relative move. It
  is not: \<^verbatim>\<open>home_all\<close> writes no mode command, so in a session whose mode is absolute the
  plunger command \<^verbatim>\<open>G1 U5 F200\<close> is issued in absolute mode.
\<close>

theorem home_all_plunger_move_in_prior_mode:
  "fst (home_all default_timeout (fresh_robot [(''ok'', 12), (''ok'', 1)])) = Returned
   \<and> emitted (home_all default_timeout) (fresh_robot [(''ok'', 12), (''ok'', 1)])
       = [Lit ''G28'', Lit ''G1 U5 F200'']
   \<and> mode_after Absolute
       (take 1 (emitted (home_all default_timeout) (fresh_robot [(''ok'', 12), (''ok'', 1)])))
       = Absolute"
  by (simp add: emitted_def home_all_acked) (simp add: fresh_robot_def)

lemma home_all_returns:
  assumes "connected s" and "answered_all [tmo, default_timeout] (rx s)"
  shows "fst (home_all tmo s) = Returned"
proof -
  have "home_all tmo = steps (sends [(Lit ''G28'', tmo), (Lit ''G1 U5 F200'', default_timeout)])"
    by (simp add: home_all_def sends_def)
  then show ?thesis
    using steps_sends_returned[OF assms(1),
        of "[(Lit ''G28'', tmo), (Lit ''G1 U5 F200'', default_timeout)]"] assms(2)
    by auto
qed


text \<open>
  C9, amended. \<^verbatim>\<open>home_all\<close> writes the homing command of all axes \<^verbatim>\<open>G28\<close> and then
  exactly one more command, the plunger move \<^verbatim>\<open>G1 U5 F200\<close>, and nothing else (a prefix
  of the two when a send raises or hangs); it returns on a connected session whenever
  both waits end with an acknowledgement or a timeout. It writes no mode command: the
  plunger move is issued in the positioning mode that was in force before the call.
\<close>

theorem home_all_trace:
  "(connected s \<and> answered_all [tmo, default_timeout] (rx s) \<longrightarrow>
      fst (home_all tmo s) = Returned)
   \<and> (\<exists>n. emitted (home_all tmo) s = take n [Lit ''G28'', Lit ''G1 U5 F200''])
   \<and> (fst (home_all tmo s) = Returned \<longrightarrow>
        emitted (home_all tmo) s = [Lit ''G28'', Lit ''G1 U5 F200''])
   \<and> mode_after m (sent s @ take 1 [Lit ''G28'', Lit ''G1 U5 F200'']) = mode_after m (sent s)"
proof -
  from emits_emitted[OF emits_home_all, of tmo s]
  have "\<exists>n. emitted (home_all tmo) s = take n [Lit ''G28'', Lit ''G1 U5 F200'']"
    by auto
  moreover have "fst (home_all tmo s) = Returned \<longrightarrow>
        emitted (home_all tmo) s = [Lit ''G28'', Lit ''G1 U5 F200'']"
    using emits_emitted_returned[OF emits_home_all, of tmo s] by simp
  moreover have
    "mode_after m (sent s @ take 1 [Lit ''G28'', Lit ''G1 U5 F200'']) = mode_after m (sent s)"
    by (simp add: mode_after_append)
  ultimately show ?thesis using home_all_returns[of s tmo] by blast
qed

theorem home_all_trace_witness:
  "fst (home_all default_timeout (fresh_robot [(''ok'', 12), (''ok'', 1)])) = Returned
   \<and> emitted (home_all default_timeout) (fresh_robot [(''ok'', 12), (''ok'', 1)])
     = [Lit ''G28'', Lit ''G1 U5 F200'']"
proof -
  let ?s = "fresh_robot [(''ok'', 12), (''ok'', 1)]"
  have c: "connected ?s \<and> answered_all [default_timeout, default_timeout] (rx ?s)"
    by (simp add: fresh_robot_def)
  note t = home_all_trace[of ?s default_timeout]
  from t c have r: "fst (home_all default_timeout ?s) = Returned" by blast
  with t show ?thesis by blast
qed

subsection \<open>Traces of the choreography\<close>

declare steps.simps [simp del]

lemma emits_steps: "list_all2 emits as Ls \<Longrightarrow> emits (steps as) (concat Ls)"
proof (induction as Ls rule: list_all2_induct)
  case Nil
  show ?case by (simp add: emits_nil)
next
  case (Cons a as L Ls)
  then show ?case using emits_cons[of a L as "concat Ls"] by simp
qed

lemma eval_then_Inr [simp]: "eval_then (Inr a) f = f a"
  by (rule ext) (simp add: eval_then_def)

lemma eval_then_Inl [simp]: "eval_then (Inl e) f = raise e"
  by (rule ext) (simp add: eval_then_def raise_def)

lemma emits_set_absolute_mode: "emits set_absolute_mode [Lit ''G90'']"
  unfolding set_absolute_mode_def by (rule emits_send)

lemma emits_move_z: "emits (move_z z f) [G1 [PZ z, PF f]]"
  unfolding move_z_def move_to_def using emits_send[of "G1 [PZ z, PF f]"]
  by (simp add: opt_part_def)

lemma emits_move_u: "emits (move_u u f) [G1 [PU u, PF f]]"
  unfolding move_u_def move_to_def using emits_send[of "G1 [PU u, PF f]"]
  by (simp add: opt_part_def)

lemma emits_move_xy: "emits (move_xy (x, y) f) [G1 [PX x, PY y, PF f]]"
  unfolding move_xy_def move_to_def using emits_send[of "G1 [PX x, PY y, PF f]"]
  by (simp add: opt_part_def)

lemma emits_dwell: "emits (dwell t) [G4P (py_trunc (fmul (fl t) 1000))]"
  unfolding dwell_def by (rule emits_send)

lemmas emits_basic =
  emits_set_absolute_mode emits_move_z emits_move_u emits_move_xy emits_dwell

lemmas run_defs =
  set_absolute_mode_def move_z_def move_u_def move_xy_def move_to_def opt_part_def
  send_ok fresh_robot_def steps.simps

lemma get_syringe_named:
  "get_syringe tbl cur (Some n) =
     (case tbl n of None \<Rightarrow> Inl (KeyError (''Unknown syringe type: '' @ n)) | Some sy \<Rightarrow> Inr sy)"
  by (simp add: get_syringe_def)

lemma inst_type_init: "inst_type (LabwareInstance_init t sl l d) = t"
  by (simp add: LabwareInstance_init_def)

lemma plate_heights:
  "safe_z LABWARE_48WELL_10MM = 158"
  "py_or (aspirate_z LABWARE_48WELL_10MM) (bottom_z LABWARE_48WELL_10MM) = 170"
  "py_or (dispense_z LABWARE_48WELL_10MM) (bottom_z LABWARE_48WELL_10MM) = 170"
  by (simp_all add: LABWARE_48WELL_10MM_def py_or_def)

lemmas well_defs =
  well_position_machine_def well_position_deck_def well_rc_def LabwareInstance_init_def
  mk_slot_def Deck_init_def deck_to_machine_def py_int_def strip_def is_space_def
  upper_def upper_char_def is_digit_def digit_val_def

subsection \<open>Claim C4: the transfer scenario\<close>

lemma slot4: "slot_lookup Deck_init ''4'' = Inr (mk_slot ''4'' 242.1 170)"
  by (simp add: slot_lookup_def Deck_init_def)

lemma wpm_A1:
  "well_position_machine
     (LabwareInstance_init LABWARE_48WELL_10MM (mk_slot ''4'' 242.1 170) lbl Deck_init) ''A1''
   = Inr (190.22, 132.96)"
  by (simp add: well_defs LABWARE_48WELL_10MM_def)

lemma wpm_B3:
  "well_position_machine
     (LabwareInstance_init LABWARE_48WELL_10MM (mk_slot ''4'' 242.1 170) lbl Deck_init) ''B3''
   = Inr (215.16, 145.43)"
  by (simp add: well_defs LABWARE_48WELL_10MM_def)

lemma transfer_scenario_steps:
  "transfer_volume SYRINGES Deck_init ''4'' ''A1'' ''4'' ''B3'' 50 (Some ''1ml'') 3000 200 300 200 =
   steps [set_absolute_mode, move_u 5 200, move_z 158 300, move_xy (190.22, 132.96) 3000,
          move_z 170 200, move_u 8 200, move_z 158 300, move_z 158 300,
          move_xy (215.16, 145.43) 3000, move_z 170 200, move_u 5 200, move_z 158 300]"
  apply (rule ext)
  apply (simp add: transfer_volume_def get_syringe_named SYRINGES_def Syringe_1ml_def slot4
      Let_def wpm_A1 wpm_B3 inst_type_init plate_heights)
  apply (simp add: fl_eval)
  done

lemma emits_transfer_scenario:
  "emits (transfer_volume SYRINGES Deck_init ''4'' ''A1'' ''4'' ''B3'' 50 (Some ''1ml'') 3000 200 300 200)
     [Lit ''G90'', G1 [PU 5, PF 200], G1 [PZ 158, PF 300], G1 [PX 190.22, PY 132.96, PF 3000],
      G1 [PZ 170, PF 200], G1 [PU 8, PF 200], G1 [PZ 158, PF 300], G1 [PZ 158, PF 300],
      G1 [PX 215.16, PY 145.43, PF 3000], G1 [PZ 170, PF 200], G1 [PU 5, PF 200],
      G1 [PZ 158, PF 300]]"
proof -
  have "list_all2 emits
     [set_absolute_mode, move_u 5 200, move_z 158 300, move_xy (190.22, 132.96) 3000,
      move_z 170 200, move_u 8 200, move_z 158 300, move_z 158 300,
      move_xy (215.16, 145.43) 3000, move_z 170 200, move_u 5 200, move_z 158 300]
     [[Lit ''G90''], [G1 [PU 5, PF 200]], [G1 [PZ 158, PF 300]],
      [G1 [PX 190.22, PY 132.96, PF 3000]],
      [G1 [PZ 170, PF 200]], [G1 [PU 8, PF 200]], [G1 [PZ 158, PF 300]], [G1 [PZ 158, PF 300]],
      [G1 [PX 215.16, PY 145.43, PF 3000]], [G1 [PZ 170, PF 200]], [G1 [PU 5, PF 200]],
      [G1 [PZ 158, PF 300]]]"
    by (simp add: emits_basic)
  from emits_steps[OF this] show ?thesis
    by (simp add: transfer_scenario_steps)
qed

lemma transfer_scenario_sends:
  "transfer_volume SYRINGES Deck_init ''4'' ''A1'' ''4'' ''B3'' 50 (Some ''1ml'') 3000 200 300 200 =
   steps (sends
     [(Lit ''G90'', default_timeout), (G1 [PU 5, PF 200], move_timeout),
      (G1 [PZ 158, PF 300], move_timeout), (G1 [PX 190.22, PY 132.96, PF 3000], move_timeout),
      (G1 [PZ 170, PF 200], move_timeout), (G1 [PU 8, PF 200], move_timeout),
      (G1 [PZ 158, PF 300], move_timeout), (G1 [PZ 158, PF 300], move_timeout),
      (G1 [PX 215.16, PY 145.43, PF 3000], move_timeout), (G1 [PZ 170, PF 200], move_timeout),
      (G1 [PU 5, PF 200], move_timeout), (G1 [PZ 158, PF 300], move_timeout)])"
  by (simp add: transfer_scenario_steps sends_def set_absolute_mode_def move_u_def move_z_def
      move_xy_def move_to_def opt_part_def)

lemma transfer_scenario_returns:
  assumes "connected s"
    and "answered_all
           [default_timeout, move_timeout, move_timeout, move_timeout, move_timeout, move_timeout,
            move_timeout, move_timeout, move_timeout, move_timeout, move_timeout, move_timeout]
           (rx s)"
  shows "fst (transfer_volume SYRINGES Deck_init ''4'' ''A1'' ''4'' ''B3'' 50 (Some ''1ml'')
                3000 200 300 200 s) = Returned"
  using steps_sends_returned[OF assms(1), of
     "[(Lit ''G90'', default_timeout), (G1 [PU 5, PF 200], move_timeout),
      (G1 [PZ 158, PF 300], move_timeout), (G1 [PX 190.22, PY 132.96, PF 3000], move_timeout),
      (G1 [PZ 170, PF 200], move_timeout), (G1 [PU 8, PF 200], move_timeout),
      (G1 [PZ 158, PF 300], move_timeout), (G1 [PZ 158, PF 300], move_timeout),
      (G1 [PX 215.16, PY 145.43, PF 3000], move_timeout), (G1 [PZ 170, PF 200], move_timeout),
      (G1 [PU 5, PF 200], move_timeout), (G1 [PZ 158, PF 300], move_timeout)]"] assms(2)
  unfolding transfer_scenario_sends by auto

text \<open>
  C4. The transfer from slot 4 well A1 to slot 4 well B3 of 50 microlitres with syringe
  1ml (coefficient 0.06, baseline 5.0) computes the plunger travel 3 and the aspirate
  target 8, in exact arithmetic and in the binary64 arithmetic of the program alike.
  On a connected session it returns whenever each of its twelve waits ends
  with an acknowledgement or with a timeout, and whenever it returns it has written,
  after the absolute-mode command, exactly these moves in this order: plunger to 5,
  source safe Z (158), source well XY (190.22, 132.96), source aspirate Z (170), plunger
  to 8, source safe Z, destination safe Z, destination well XY (215.16, 145.43),
  destination dispense Z (170), plunger to 5, destination safe Z.
\<close>

theorem transfer_scenario:
  "50 * u_per_ul Syringe_1ml = 3 \<and> u_base Syringe_1ml + 50 * u_per_ul Syringe_1ml = 8
   \<and> fmul (fl 50) (fl (u_per_ul Syringe_1ml)) = 3
   \<and> fadd (fl (u_base Syringe_1ml)) (fmul (fl 50) (fl (u_per_ul Syringe_1ml))) = 8
   \<and> (connected s \<and> answered_all
           [default_timeout, move_timeout, move_timeout, move_timeout, move_timeout, move_timeout,
            move_timeout, move_timeout, move_timeout, move_timeout, move_timeout, move_timeout]
           (rx s) \<longrightarrow>
        fst (transfer_volume SYRINGES Deck_init ''4'' ''A1'' ''4'' ''B3'' 50 (Some ''1ml'') 3000 200 300 200 s)
          = Returned)
   \<and> (\<forall>s'. transfer_volume SYRINGES Deck_init ''4'' ''A1'' ''4'' ''B3'' 50 (Some ''1ml'') 3000 200 300 200 s
             = (Returned, s') \<longrightarrow>
          sent s' = sent s @
     [Lit ''G90'', G1 [PU 5, PF 200], G1 [PZ 158, PF 300], G1 [PX 190.22, PY 132.96, PF 3000],
      G1 [PZ 170, PF 200], G1 [PU 8, PF 200], G1 [PZ 158, PF 300], G1 [PZ 158, PF 300],
      G1 [PX 215.16, PY 145.43, PF 3000], G1 [PZ 170, PF 200], G1 [PU 5, PF 200],
      G1 [PZ 158, PF 300]])"
proof -
  have "sent s' = sent s @
     [Lit ''G90'', G1 [PU 5, PF 200], G1 [PZ 158, PF 300], G1 [PX 190.22, PY 132.96, PF 3000],
      G1 [PZ 170, PF 200], G1 [PU 8, PF 200], G1 [PZ 158, PF 300], G1 [PZ 158, PF 300],
      G1 [PX 215.16, PY 145.43, PF 3000], G1 [PZ 170, PF 200], G1 [PU 5, PF 200],
      G1 [PZ 158, PF 300]]"
    if "transfer_volume SYRINGES Deck_init ''4'' ''A1'' ''4'' ''B3'' 50 (Some ''1ml'') 3000 200 300 200 s
             = (Returned, s')" for s'
    using emits_returned[OF emits_transfer_scenario that] by simp
  then show ?thesis
    using transfer_scenario_returns[of s] travel_50 target_50 by (simp add: Syringe_1ml_def)
qed

lemma answered_oks:
  "answered_all
           [default_timeout, move_timeout, move_timeout, move_timeout, move_timeout, move_timeout,
            move_timeout, move_timeout, move_timeout, move_timeout, move_timeout, move_timeout]
     [(''ok'', 0), (''ok'', 0), (''ok'', 0), (''ok'', 0), (''ok'', 0), (''ok'', 0),
                   (''ok'', 0), (''ok'', 0), (''ok'', 0), (''ok'', 0), (''ok'', 0), (''ok'', 0)]"
  by simp

theorem transfer_scenario_witness:
  "fst (transfer_volume SYRINGES Deck_init ''4'' ''A1'' ''4'' ''B3'' 50 (Some ''1ml'') 3000 200 300 200
          (fresh_robot [(''ok'', 0), (''ok'', 0), (''ok'', 0), (''ok'', 0), (''ok'', 0), (''ok'', 0),
                   (''ok'', 0), (''ok'', 0), (''ok'', 0), (''ok'', 0), (''ok'', 0), (''ok'', 0)]))
     = Returned
   \<and> sent (snd (transfer_volume SYRINGES Deck_init ''4'' ''A1'' ''4'' ''B3'' 50 (Some ''1ml'') 3000 200 300 200
          (fresh_robot [(''ok'', 0), (''ok'', 0), (''ok'', 0), (''ok'', 0), (''ok'', 0), (''ok'', 0),
                   (''ok'', 0), (''ok'', 0), (''ok'', 0), (''ok'', 0), (''ok'', 0), (''ok'', 0)])))
     = [Lit ''G90'', G1 [PU 5, PF 200], G1 [PZ 158, PF 300], G1 [PX 190.22, PY 132.96, PF 3000],
      G1 [PZ 170, PF 200], G1 [PU 8, PF 200], G1 [PZ 158, PF 300], G1 [PZ 158, PF 300],
      G1 [PX 215.16, PY 145.43, PF 3000], G1 [PZ 170, PF 200], G1 [PU 5, PF 200],
      G1 [PZ 158, PF 300]]"
proof -
  let ?s = "fresh_robot [(''ok'', 0), (''ok'', 0), (''ok'', 0), (''ok'', 0), (''ok'', 0), (''ok'', 0),
                   (''ok'', 0), (''ok'', 0), (''ok'', 0), (''ok'', 0), (''ok'', 0), (''ok'', 0)]"
  have c: "connected ?s \<and> answered_all
           [default_timeout, move_timeout, move_timeout, move_timeout, move_timeout, move_timeout,
            move_timeout, move_timeout, move_timeout, move_timeout, move_timeout, move_timeout]
           (rx ?s)"
    using answered_oks by (simp add: fresh_robot_def)
  note t = transfer_scenario[of ?s]
  from t c have r: "fst (transfer_volume SYRINGES Deck_init ''4'' ''A1'' ''4'' ''B3'' 50 (Some ''1ml'') 3000 200 300 200 ?s) = Returned"
    by blast
  then have e: "transfer_volume SYRINGES Deck_init ''4'' ''A1'' ''4'' ''B3'' 50 (Some ''1ml'') 3000 200 300 200 ?s =
      (Returned, snd (transfer_volume SYRINGES Deck_init ''4'' ''A1'' ''4'' ''B3'' 50 (Some ''1ml'') 3000 200 300 200 ?s))"
    by (cases "transfer_volume SYRINGES Deck_init ''4'' ''A1'' ''4'' ''B3'' 50 (Some ''1ml'') 3000 200 300 200 ?s") simp
  from t e have "sent (snd (transfer_volume SYRINGES Deck_init ''4'' ''A1'' ''4'' ''B3'' 50 (Some ''1ml'') 3000 200 300 200 ?s)) = sent ?s @
     [Lit ''G90'', G1 [PU 5, PF 200], G1 [PZ 158, PF 300], G1 [PX 190.22, PY 132.96, PF 3000],
      G1 [PZ 170, PF 200], G1 [PU 8, PF 200], G1 [PZ 158, PF 300], G1 [PZ 158, PF 300],
      G1 [PX 215.16, PY 145.43, PF 3000], G1 [PZ 170, PF 200], G1 [PU 5, PF 200],
      G1 [PZ 158, PF 300]]"
    by blast
  with r show ?thesis by (simp add: fresh_robot_def)
qed

subsection \<open>Claim C3: an invalid edge in \<^verbatim>\<open>drop_tip_scrape\<close>\<close>

lemma slot2: "slot_lookup Deck_init ''2'' = Inr (mk_slot ''2'' 242.1 70)"
  by (simp add: slot_lookup_def Deck_init_def)

lemma center2: "slot_center_machine Deck_init ''2'' = Inr (234.1, 65)"
  by (simp add: slot_center_machine_def slot2)
     (simp add: mk_slot_def deck_to_machine_def Deck_init_def)

lemma waste_heights:
  "safe_z LABWARE_TIPWASTE_BOX = 100" "scrape_z LABWARE_TIPWASTE_BOX = Some 170"
  by (simp_all add: LABWARE_TIPWASTE_BOX_def)

text \<open>
  C3 says that an edge other than \<^verbatim>\<open>left\<close> and \<^verbatim>\<open>right\<close> makes \<^verbatim>\<open>drop_tip_scrape\<close>
  fail before any motion command is sent. The code tests the edge where it computes the
  target of the scrape stroke: on slot 2 with the edge \<^verbatim>\<open>middle\<close> and every command
  acknowledged, the mode command and three moves (rise to the safe height, travel to the
  slot centre, descent to the scrape height) are written before ValueError is raised.
\<close>

theorem drop_tip_scrape_invalid_edge_after_motion:
  "drop_tip_scrape Deck_init ''2'' ''middle'' 64 20
     (fresh_robot [(''ok'', 0), (''ok'', 0), (''ok'', 0), (''ok'', 0), (''ok'', 0), (''ok'', 0)])
   = (Raised (ValueError ''edge must be left or right.''),
      \<lparr>connected = True, current_syringe = None,
       sent = [Lit ''G90'', G1 [PZ 100, PF 600], G1 [PX 234.1, PY 65, PF 7500],
               G1 [PZ 170, PF 750]],
       rx = [(''ok'', 0), (''ok'', 0)], stdout = []\<rparr>)"
  by (simp add: drop_tip_scrape_def slot2 center2 inst_type_init waste_heights Let_def run_defs
      raise_def)

subsection \<open>Claim C8: the working height and its fallback\<close>

lemma py_or_cases:
  "py_or None b = b" "v \<noteq> 0 \<Longrightarrow> py_or (Some v) b = v" "py_or (Some 0) b = b"
  by (simp_all add: py_or_def)

lemma wpm_beaker_like:
  "well_position_machine
     (LabwareInstance_init (LABWARE_BEAKER_1WELL\<lparr>aspirate_z := Some 0\<rparr>)
        (mk_slot ''2'' 242.1 70) lbl Deck_init) ''A1''
   = Inr (234.1, 65)"
  by (simp add: well_defs LABWARE_BEAKER_1WELL_def)

lemma send_ok_rel:
  "move_relative 0 0 0 du (Some f) tmo
     \<lparr>connected = True, current_syringe = cs, sent = xs,
      rx = (''ok'', e1) # (''ok'', e2) # (''ok'', e3) # r, stdout = so\<rparr> =
   (Returned,
    \<lparr>connected = True, current_syringe = cs,
     sent = xs @ [Lit ''G91'', G1 (nonzero_part PU du @ [PF f]), Lit ''G90''],
     rx = r, stdout = so\<rparr>)"
  by (simp add: move_relative_def set_relative_mode_def set_absolute_mode_def send_ok
      steps.simps nonzero_part_def opt_part_def)

text \<open>
  C8 says that the working height is the field \<^verbatim>\<open>aspirate_z\<close> whenever the field is set.
  The code computes \<^verbatim>\<open>t.aspirate_z or t.bottom_z\<close>, and \<^verbatim>\<open>0.0\<close> is falsy: for a labware
  type whose \<^verbatim>\<open>aspirate_z\<close> is set to 0.0 and whose \<^verbatim>\<open>bottom_z\<close> is 150, \<^verbatim>\<open>aspirate\<close>
  descends to 150, the bottom height, not to 0.
\<close>

theorem aspirate_zero_height_falls_back:
  "aspirate SYRINGES 50 (Some ''1ml'') (Some Deck_init) (Some ''2'')
     (Other_object (LABWARE_BEAKER_1WELL\<lparr>aspirate_z := Some 0\<rparr>)) (Some ''A1'') None None
     7500 600 750 200
     (fresh_robot [(''ok'', 0), (''ok'', 0), (''ok'', 0), (''ok'', 0), (''ok'', 0), (''ok'', 0),
                   (''ok'', 0)])
   = (Returned,
      \<lparr>connected = True, current_syringe = None,
       sent = [Lit ''G90'', G1 [PX 234.1, PY 65, PF 7500], G1 [PZ 150, PF 600],
               Lit ''G91'', G1 [PU 3, PF 200], Lit ''G90'', G1 [PZ 100, PF 750]],
       rx = [], stdout = []\<rparr>)"
  apply (simp add: aspirate_def get_syringe_named SYRINGES_def Syringe_1ml_def slot2 Let_def
      inst_type_init wpm_beaker_like is_LABWARE_BEAKER_1WELL_def)
  apply (simp add: LABWARE_BEAKER_1WELL_def py_or_def run_defs send_ok_rel nonzero_part_def
      fl_eval)
  done

subsection \<open>Claim C1: the calibration range\<close>






text \<open>
  The test is made on the computed target, not on the exact sum. With syringe 1ml and
  a volume of 1000.0000000000001 microlitres the exact sum exceeds 65, the computed
  product is the binary64 number next above 60 and the computed target is 65, which
  does not exceed the bound: the transfer is made, with the plunger pulled to 65.
\<close>

lemma transfer_volume_rounded_target:
  "u_base Syringe_1ml + 1000.0000000000001 * u_per_ul Syringe_1ml > 65"
  "fmul (fl 1000.0000000000001) (fl (u_per_ul Syringe_1ml)) = 60 + 1 / 2 ^ 47"
  "fadd (fl (u_base Syringe_1ml)) (fmul (fl 1000.0000000000001) (fl (u_per_ul Syringe_1ml))) = 65"
  by (simp_all add: Syringe_1ml_def fl_eval)

lemma transfer_volume_rounded_target_run:
  "transfer_volume SYRINGES Deck_init ''4'' ''A1'' ''4'' ''B3'' 1000.0000000000001 (Some ''1ml'')
     3000 200 300 200
     (fresh_robot [(''ok'', 0), (''ok'', 0), (''ok'', 0), (''ok'', 0), (''ok'', 0), (''ok'', 0),
                   (''ok'', 0), (''ok'', 0), (''ok'', 0), (''ok'', 0), (''ok'', 0), (''ok'', 0)])
   = (Returned,
      \<lparr>connected = True, current_syringe = None,
       sent = [Lit ''G90'', G1 [PU 5, PF 200], G1 [PZ 158, PF 300],
               G1 [PX 190.22, PY 132.96, PF 3000], G1 [PZ 170, PF 200], G1 [PU 65, PF 200],
               G1 [PZ 158, PF 300], G1 [PZ 158, PF 300], G1 [PX 215.16, PY 145.43, PF 3000],
               G1 [PZ 170, PF 200], G1 [PU 5, PF 200], G1 [PZ 158, PF 300]],
       rx = [], stdout = []\<rparr>)"
  apply (simp add: transfer_volume_def get_syringe_named SYRINGES_def Syringe_1ml_def slot4
      Let_def wpm_A1 wpm_B3 inst_type_init plate_heights)
  apply (simp add: fl_eval run_defs)
  done

subsection \<open>Claim C6: the position of a well\<close>















subsection \<open>Claim C10: reservoir mode of the step executor\<close>

lemma run_single_step_call:
  "gui_robot gui = Some r \<Longrightarrow> gui_deck gui = Some dk \<Longrightarrow>
   step_call tbl pf dk (var_syringe gui) step = Inr a \<Longrightarrow>
   run_single_step tbl pf gui step = on_robot gui a"
  by (simp add: run_single_step_def require_robot_def on_robot_def)

text \<open>
  C10. For a step whose parameters hold a volume that converts to a float, a slot and a
  syringe (or none, then the selected one), run from a control panel with a robot and a
  deck: when the step is of kind aspirate (dispense) and has no well (the key is absent or
  null), the executor runs \<^verbatim>\<open>aspirate\<close> (\<^verbatim>\<open>dispense\<close>) on the well A1 of the beaker
  geometry, handing it the object \<^verbatim>\<open>LABWARE_BEAKER_1WELL\<close> of the module; when the well
  is given, it runs it on that well of the default 48-well plate. The two geometries
  differ.
\<close>

theorem step_reservoir_mode:
  assumes "gui_robot gui = Some r" and "gui_deck gui = Some dk"
    and "params step ''volume_ul'' = Some pv" and "py_float pf pv = Inr v"
    and "params step ''slot'' = Some (PStr sl)"
    and "opt_str_arg (param_get (params step) ''syringe'' (PStr (var_syringe gui))) = Inr syr"
  shows
    "(step_type step = ''aspirate'' \<and> param_get (params step) ''well'' PNull = PNull \<longrightarrow>
        run_single_step tbl pf gui step =
          on_robot gui (aspirate tbl v syr (Some dk) (Some sl) Beaker_object (Some ''A1'')
                          None None 7500 600 750 200))
   \<and> (step_type step = ''aspirate'' \<and> params step ''well'' = Some (PStr w) \<longrightarrow>
        run_single_step tbl pf gui step =
          on_robot gui (aspirate tbl v syr (Some dk) (Some sl) (Other_object LABWARE_48WELL_10MM)
                          (Some w) None None 7500 600 750 200))
   \<and> (step_type step = ''dispense'' \<and> param_get (params step) ''well'' PNull = PNull \<longrightarrow>
        run_single_step tbl pf gui step =
          on_robot gui (dispense tbl v syr (Some dk) (Some sl) Beaker_object (Some ''A1'')
                          None None 7500 600 750 200))
   \<and> (step_type step = ''dispense'' \<and> params step ''well'' = Some (PStr w) \<longrightarrow>
        run_single_step tbl pf gui step =
          on_robot gui (dispense tbl v syr (Some dk) (Some sl) (Other_object LABWARE_48WELL_10MM)
                          (Some w) None None 7500 600 750 200))
   \<and> object_value Beaker_object = LABWARE_BEAKER_1WELL
   \<and> LABWARE_BEAKER_1WELL \<noteq> LABWARE_48WELL_10MM"
proof -
  have s: "param_get (params step) ''slot'' PNull = PStr sl"
    using assms(5) by (simp add: param_get_def)
  have v: "param_item (params step) ''volume_ul'' = Inr pv"
    using assms(3) by (simp add: param_item_def)
  have 1: "step_type step = ''aspirate'' \<Longrightarrow> param_get (params step) ''well'' PNull = PNull \<Longrightarrow>
     step_call tbl pf dk (var_syringe gui) step =
       Inr (aspirate tbl v syr (Some dk) (Some sl) Beaker_object (Some ''A1'')
                          None None 7500 600 750 200)"
    using assms(4,6) s v
    by (simp add: step_call_def Let_def bind_e_def str_arg_def aspirate_from_beaker_def)
  have 2: "step_type step = ''aspirate'' \<Longrightarrow> params step ''well'' = Some (PStr w) \<Longrightarrow>
     step_call tbl pf dk (var_syringe gui) step =
       Inr (aspirate tbl v syr (Some dk) (Some sl) (Other_object LABWARE_48WELL_10MM)
                          (Some w) None None 7500 600 750 200)"
    using assms(4,6) s v
    by (simp add: step_call_def Let_def bind_e_def str_arg_def param_get_def)
  have 3: "step_type step = ''dispense'' \<Longrightarrow> param_get (params step) ''well'' PNull = PNull \<Longrightarrow>
     step_call tbl pf dk (var_syringe gui) step =
       Inr (dispense tbl v syr (Some dk) (Some sl) Beaker_object (Some ''A1'')
                          None None 7500 600 750 200)"
    using assms(4,6) s v
    by (simp add: step_call_def Let_def bind_e_def str_arg_def dispense_to_beaker_def)
  have 4: "step_type step = ''dispense'' \<Longrightarrow> params step ''well'' = Some (PStr w) \<Longrightarrow>
     step_call tbl pf dk (var_syringe gui) step =
       Inr (dispense tbl v syr (Some dk) (Some sl) (Other_object LABWARE_48WELL_10MM)
                          (Some w) None None 7500 600 750 200)"
    using assms(4,6) s v
    by (simp add: step_call_def Let_def bind_e_def str_arg_def param_get_def)
  have 5: "LABWARE_BEAKER_1WELL \<noteq> LABWARE_48WELL_10MM"
    by (simp add: LABWARE_BEAKER_1WELL_def LABWARE_48WELL_10MM_def)
  from 1 2 3 4 5 run_single_step_call[OF assms(1,2)] show ?thesis by simp
qed

theorem step_reservoir_mode_witness:
  "run_single_step SYRINGES (\<lambda>s. None)
     \<lparr>gui_robot = Some (fresh_robot []), gui_deck = Some Deck_init, var_syringe = ''1ml''\<rparr>
     \<lparr>step_type = ''aspirate'', params = [''volume_ul'' \<mapsto> PNum 50, ''slot'' \<mapsto> PStr ''2'']\<rparr>
   = on_robot \<lparr>gui_robot = Some (fresh_robot []), gui_deck = Some Deck_init, var_syringe = ''1ml''\<rparr>
       (aspirate SYRINGES 50 (Some ''1ml'') (Some Deck_init) (Some ''2'') Beaker_object
          (Some ''A1'') None None 7500 600 750 200)
   \<and> run_single_step SYRINGES (\<lambda>s. None)
     \<lparr>gui_robot = Some (fresh_robot []), gui_deck = Some Deck_init, var_syringe = ''1ml''\<rparr>
     \<lparr>step_type = ''dispense'',
      params = [''volume_ul'' \<mapsto> PNum 50, ''slot'' \<mapsto> PStr ''2'', ''well'' \<mapsto> PStr ''B3'']\<rparr>
   = on_robot \<lparr>gui_robot = Some (fresh_robot []), gui_deck = Some Deck_init, var_syringe = ''1ml''\<rparr>
       (dispense SYRINGES 50 (Some ''1ml'') (Some Deck_init) (Some ''2'')
          (Other_object LABWARE_48WELL_10MM) (Some ''B3'') None None 7500 600 750 200)"
proof -
  let ?gui = "\<lparr>gui_robot = Some (fresh_robot []), gui_deck = Some Deck_init, var_syringe = ''1ml''\<rparr>"
  let ?s1 = "\<lparr>step_type = ''aspirate'', params = [''volume_ul'' \<mapsto> PNum 50, ''slot'' \<mapsto> PStr ''2'']\<rparr>"
  let ?s2 = "\<lparr>step_type = ''dispense'',
      params = [''volume_ul'' \<mapsto> PNum 50, ''slot'' \<mapsto> PStr ''2'', ''well'' \<mapsto> PStr ''B3'']\<rparr>"
  have a: "gui_robot ?gui = Some (fresh_robot [])" "gui_deck ?gui = Some Deck_init" by simp_all
  have f: "py_float (\<lambda>s. None) (PNum 50) = Inr 50" by (simp add: py_float_def)
  have y1: "opt_str_arg (param_get (params ?s1) ''syringe'' (PStr (var_syringe ?gui))) = Inr (Some ''1ml'')"
    by (simp add: opt_str_arg_def param_get_def)
  have y2: "opt_str_arg (param_get (params ?s2) ''syringe'' (PStr (var_syringe ?gui))) = Inr (Some ''1ml'')"
    by (simp add: opt_str_arg_def param_get_def)
  have v1: "params ?s1 ''volume_ul'' = Some (PNum 50)" "params ?s1 ''slot'' = Some (PStr ''2'')"
    by simp_all
  have v2: "params ?s2 ''volume_ul'' = Some (PNum 50)" "params ?s2 ''slot'' = Some (PStr ''2'')"
    by simp_all
  from step_reservoir_mode[OF a v1(1) f v1(2) y1, of SYRINGES]
    step_reservoir_mode[OF a v2(1) f v2(2) y2, of SYRINGES "''B3''"]
  show ?thesis by (simp add: param_get_def)
qed

subsection \<open>Claim C2: the safety ordering of the choreography\<close>

lemma ordering_ok_take: "ordering_ok zs zc xy L \<Longrightarrow> ordering_ok zs zc xy (take n L)"
proof (induction L arbitrary: n zc xy)
  case Nil
  then show ?case by simp
next
  case (Cons c cs)
  show ?case
  proof (cases n)
    case 0
    then show ?thesis by simp
  next
    case (Suc m)
    show ?thesis
    proof (cases c)
      case (G1 ps)
      with Cons Suc show ?thesis by (auto split: option.splits if_splits)
    next
      case (Lit l)
      with Cons Suc show ?thesis by auto
    next
      case (G4P k)
      with Cons Suc show ?thesis by auto
    qed
  qed
qed

lemma emits_ordering:
  "emits a L \<Longrightarrow> ordering_ok zs zc xy L \<Longrightarrow> ordering_ok zs zc xy (emitted a s)"
  using emits_emitted[of a L s] ordering_ok_take by auto

lemma emits_eval_xy: "\<exists>x y. emits (eval_then v (\<lambda>xy. move_xy xy f)) [G1 [PX x, PY y, PF f]]"
proof (cases v)
  case (Inl e)
  then show ?thesis by (simp add: emits_raise)
next
  case (Inr p)
  obtain x y where "p = (x, y)" by (cases p)
  with Inr show ?thesis using emits_move_xy[of x y f] by auto
qed

lemma emits_move_relative_u:
  "emits (move_relative 0 0 0 du (Some f) tmo) [Lit ''G91'', G1 (nonzero_part PU du @ [PF f]), Lit ''G90'']"
  using emits_move_relative[of 0 0 0 du "Some f" tmo] by (simp add: nonzero_part_def opt_part_def)

lemma z_target_rel [simp]: "z_target (nonzero_part PU du @ [PF f]) = None"
  by (simp add: nonzero_part_def)

lemma is_lateral_rel [simp]: "\<not> is_lateral (nonzero_part PU du @ [PF f])"
  by (simp add: nonzero_part_def is_lateral_def)

lemma is_lateral_simps [simp]:
  "is_lateral [PZ z, PF f] = False" "is_lateral [PU u, PF f] = False"
  "is_lateral [PX x, PY y, PF f] = True"
  by (simp_all add: is_lateral_def)

paragraph \<open>pick_up_tip\<close>

lemma tiprack_heights:
  "safe_z LABWARE_TIPRACK_96 = 100" "tip_touch_z LABWARE_TIPRACK_96 = Some 170"
  "tip_press_z LABWARE_TIPRACK_96 = Some 172" "tip_full_z LABWARE_TIPRACK_96 = Some 176"
  by (simp_all add: LABWARE_TIPRACK_96_def)

lemma emits_dwell_02: "emits (dwell 0.2) [G4P 200]"
  using emits_dwell[of "0.2"] dwell_ms(1) by simp

lemma emits_cycles:
  "list_all2 emits
     (concat (replicate k [move_z 172 600, dwell 0.2, move_z 170 600, dwell 0.2]))
     (concat (replicate k [[G1 [PZ 172, PF 600]], [G4P 200], [G1 [PZ 170, PF 600]], [G4P 200]]))"
proof (induction k)
  case 0
  show ?case by simp
next
  case (Suc k)
  then show ?case using emits_dwell_02 by (simp add: emits_basic)
qed

lemma concat_concat_replicate: "concat (concat (replicate k Ls)) = concat (replicate k (concat Ls))"
  by (induction k) auto

lemma ordering_cycles:
  "ordering_ok 100 (Some 170) True
     (concat (replicate k [G1 [PZ 172, PF 600], G4P 200, G1 [PZ 170, PF 600], G4P 200]) @ rest)
   = ordering_ok 100 (Some 170) True rest"
  by (induction k) auto

lemma emits_pick_up_tip:
  "\<exists>x y. emits (pick_up_tip dk sid well n)
     ([Lit ''G90'', G1 [PZ 100, PF 750], G1 [PX x, PY y, PF 7500], G1 [PZ 170, PF 750], G4P 200]
      @ concat (replicate (nat n) [G1 [PZ 172, PF 600], G4P 200, G1 [PZ 170, PF 600], G4P 200])
      @ [G1 [PZ 176, PF 750], G4P 200, G1 [PZ 172, PF 750], G1 [PZ 100, PF 600]])"
proof (cases "slot_lookup dk sid")
  case (Inl e)
  then show ?thesis by (simp add: pick_up_tip_def emits_raise)
next
  case (Inr slot)
  let ?rack = "LabwareInstance_init LABWARE_TIPRACK_96 slot (''tiprack_slot'' @ sid) dk"
  obtain x y where xy: "emits (eval_then (well_position_machine ?rack well) (\<lambda>xy. move_xy xy 7500))
                          [G1 [PX x, PY y, PF 7500]]"
    using emits_eval_xy by blast
  note d = emits_dwell_02
  have "list_all2 emits
     ([set_absolute_mode, move_z 100 750,
       eval_then (well_position_machine ?rack well) (\<lambda>xy. move_xy xy 7500),
       move_z 170 750, dwell 0.2]
      @ concat (replicate (nat n) [move_z 172 600, dwell 0.2, move_z 170 600, dwell 0.2])
      @ [move_z 176 750, dwell 0.2, move_z 172 750, move_z 100 600])
     ([[Lit ''G90''], [G1 [PZ 100, PF 750]], [G1 [PX x, PY y, PF 7500]], [G1 [PZ 170, PF 750]],
       [G4P 200]]
      @ concat (replicate (nat n) [[G1 [PZ 172, PF 600]], [G4P 200], [G1 [PZ 170, PF 600]], [G4P 200]])
      @ [[G1 [PZ 176, PF 750]], [G4P 200], [G1 [PZ 172, PF 750]], [G1 [PZ 100, PF 600]]])"
    using xy d by (intro list_all2_appendI emits_cycles) (simp_all add: emits_basic)
  from emits_steps[OF this] have
    "emits (pick_up_tip dk sid well n)
     ([Lit ''G90'', G1 [PZ 100, PF 750], G1 [PX x, PY y, PF 7500], G1 [PZ 170, PF 750], G4P 200]
      @ concat (replicate (nat n) [G1 [PZ 172, PF 600], G4P 200, G1 [PZ 170, PF 600], G4P 200])
      @ [G1 [PZ 176, PF 750], G4P 200, G1 [PZ 172, PF 750], G1 [PZ 100, PF 600]])"
    by (simp add: pick_up_tip_def Inr Let_def inst_type_init tiprack_heights concat_concat_replicate)
  then show ?thesis by blast
qed

lemma pick_up_tip_ordering:
  "ordering_ok (safe_z LABWARE_TIPRACK_96) zc False (emitted (pick_up_tip dk sid well n) s)"
proof -
  obtain x y where e: "emits (pick_up_tip dk sid well n)
     ([Lit ''G90'', G1 [PZ 100, PF 750], G1 [PX x, PY y, PF 7500], G1 [PZ 170, PF 750], G4P 200]
      @ concat (replicate (nat n) [G1 [PZ 172, PF 600], G4P 200, G1 [PZ 170, PF 600], G4P 200])
      @ [G1 [PZ 176, PF 750], G4P 200, G1 [PZ 172, PF 750], G1 [PZ 100, PF 600]])"
    using emits_pick_up_tip by blast
  show ?thesis
    by (rule emits_ordering[OF e]) (simp add: tiprack_heights ordering_cycles)
qed


paragraph \<open>transfer_volume\<close>

lemma emits_transfer_volume_body:
  "\<exists>ub ua xs ys xd yd. emits
     (eval_then g (\<lambda>sy.
       if (case u_min sy of None \<Rightarrow> False | Some m \<Rightarrow> fl (u_base sy) < fl m)
       then raise (ValueError ''u_base below syringe u_min.'')
       else if (case u_max sy of None \<Rightarrow> False
                | Some m \<Rightarrow> fadd (fl (u_base sy)) (fmul (fl v) (fl (u_per_ul sy))) > fl m)
       then raise (ValueError ''U travel exceeds syringe u_max, check volume.'')
       else
         eval_then (slot_lookup dk ss) (\<lambda>sslot.
         eval_then (slot_lookup dk ds) (\<lambda>dslot.
           steps
             [set_absolute_mode,
              move_u (fl (u_base sy)) fu,
              move_z 158 fzu,
              eval_then (well_position_machine
                 (LabwareInstance_init LABWARE_48WELL_10MM sslot (''plate_src_slot'' @ ss) dk) sw)
                (\<lambda>xy. move_xy xy fxy),
              move_z 170 fzd,
              move_u (fadd (fl (u_base sy)) (fmul (fl v) (fl (u_per_ul sy)))) fu,
              move_z 158 fzu,
              move_z 158 fzu,
              eval_then (well_position_machine
                 (LabwareInstance_init LABWARE_48WELL_10MM dslot (''plate_dst_slot'' @ ds) dk) dw)
                (\<lambda>xy. move_xy xy fxy),
              move_z 170 fzd,
              move_u (fl (u_base sy)) fu,
              move_z 158 fzu]))))
     [Lit ''G90'', G1 [PU ub, PF fu], G1 [PZ 158, PF fzu], G1 [PX xs, PY ys, PF fxy],
      G1 [PZ 170, PF fzd], G1 [PU ua, PF fu], G1 [PZ 158, PF fzu], G1 [PZ 158, PF fzu],
      G1 [PX xd, PY yd, PF fxy], G1 [PZ 170, PF fzd], G1 [PU ub, PF fu], G1 [PZ 158, PF fzu]]"
proof -
  let ?P = "\<lambda>a. \<exists>ub ua xs ys xd yd. emits a
     [Lit ''G90'', G1 [PU ub, PF fu], G1 [PZ 158, PF fzu], G1 [PX xs, PY ys, PF fxy],
      G1 [PZ 170, PF fzd], G1 [PU ua, PF fu], G1 [PZ 158, PF fzu], G1 [PZ 158, PF fzu],
      G1 [PX xd, PY yd, PF fxy], G1 [PZ 170, PF fzd], G1 [PU ub, PF fu], G1 [PZ 158, PF fzu]]"
  have r: "?P (raise e)" for e by (simp add: emits_raise)
  show ?thesis
  proof (cases g)
    case (Inl e)
    then show ?thesis using r by simp
  next
    case sy: (Inr sy)
    show ?thesis
    proof (cases "(case u_min sy of None \<Rightarrow> False | Some m \<Rightarrow> fl (u_base sy) < fl m) \<or>
                  (case u_max sy of None \<Rightarrow> False
                   | Some m \<Rightarrow> fadd (fl (u_base sy)) (fmul (fl v) (fl (u_per_ul sy))) > fl m)")
      case True
      then show ?thesis unfolding sy using r by auto
    next
      case ok: False
      show ?thesis
      proof (cases "slot_lookup dk ss")
        case (Inl e)
        then show ?thesis unfolding sy using r ok by simp
      next
        case s1: (Inr sslot)
        show ?thesis
        proof (cases "slot_lookup dk ds")
          case (Inl e)
          then show ?thesis unfolding sy s1 using r ok by simp
        next
          case s2: (Inr dslot)
          obtain xs ys where a: "emits (eval_then (well_position_machine
                 (LabwareInstance_init LABWARE_48WELL_10MM sslot (''plate_src_slot'' @ ss) dk) sw)
                (\<lambda>xy. move_xy xy fxy)) [G1 [PX xs, PY ys, PF fxy]]"
            using emits_eval_xy by blast
          obtain xd yd where b: "emits (eval_then (well_position_machine
                 (LabwareInstance_init LABWARE_48WELL_10MM dslot (''plate_dst_slot'' @ ds) dk) dw)
                (\<lambda>xy. move_xy xy fxy)) [G1 [PX xd, PY yd, PF fxy]]"
            using emits_eval_xy by blast
          let ?ub = "fl (u_base sy)"
          let ?ua = "fadd (fl (u_base sy)) (fmul (fl v) (fl (u_per_ul sy)))"
          have "list_all2 emits
             [set_absolute_mode,
              move_u ?ub fu,
              move_z 158 fzu,
              eval_then (well_position_machine
                 (LabwareInstance_init LABWARE_48WELL_10MM sslot (''plate_src_slot'' @ ss) dk) sw)
                (\<lambda>xy. move_xy xy fxy),
              move_z 170 fzd,
              move_u ?ua fu,
              move_z 158 fzu,
              move_z 158 fzu,
              eval_then (well_position_machine
                 (LabwareInstance_init LABWARE_48WELL_10MM dslot (''plate_dst_slot'' @ ds) dk) dw)
                (\<lambda>xy. move_xy xy fxy),
              move_z 170 fzd,
              move_u ?ub fu,
              move_z 158 fzu]
             [[Lit ''G90''], [G1 [PU ?ub, PF fu]], [G1 [PZ 158, PF fzu]],
              [G1 [PX xs, PY ys, PF fxy]], [G1 [PZ 170, PF fzd]],
              [G1 [PU ?ua, PF fu]], [G1 [PZ 158, PF fzu]],
              [G1 [PZ 158, PF fzu]], [G1 [PX xd, PY yd, PF fxy]], [G1 [PZ 170, PF fzd]],
              [G1 [PU ?ub, PF fu]], [G1 [PZ 158, PF fzu]]]"
            using a b by (simp add: emits_basic)
          from emits_steps[OF this] have "emits
             (eval_then g (\<lambda>sy.
       if (case u_min sy of None \<Rightarrow> False | Some m \<Rightarrow> fl (u_base sy) < fl m)
       then raise (ValueError ''u_base below syringe u_min.'')
       else if (case u_max sy of None \<Rightarrow> False
                | Some m \<Rightarrow> fadd (fl (u_base sy)) (fmul (fl v) (fl (u_per_ul sy))) > fl m)
       then raise (ValueError ''U travel exceeds syringe u_max, check volume.'')
       else
         eval_then (slot_lookup dk ss) (\<lambda>sslot.
         eval_then (slot_lookup dk ds) (\<lambda>dslot.
           steps
             [set_absolute_mode,
              move_u (fl (u_base sy)) fu,
              move_z 158 fzu,
              eval_then (well_position_machine
                 (LabwareInstance_init LABWARE_48WELL_10MM sslot (''plate_src_slot'' @ ss) dk) sw)
                (\<lambda>xy. move_xy xy fxy),
              move_z 170 fzd,
              move_u (fadd (fl (u_base sy)) (fmul (fl v) (fl (u_per_ul sy)))) fu,
              move_z 158 fzu,
              move_z 158 fzu,
              eval_then (well_position_machine
                 (LabwareInstance_init LABWARE_48WELL_10MM dslot (''plate_dst_slot'' @ ds) dk) dw)
                (\<lambda>xy. move_xy xy fxy),
              move_z 170 fzd,
              move_u (fl (u_base sy)) fu,
              move_z 158 fzu]))))
             [Lit ''G90'', G1 [PU ?ub, PF fu], G1 [PZ 158, PF fzu],
              G1 [PX xs, PY ys, PF fxy], G1 [PZ 170, PF fzd],
              G1 [PU ?ua, PF fu], G1 [PZ 158, PF fzu],
              G1 [PZ 158, PF fzu], G1 [PX xd, PY yd, PF fxy], G1 [PZ 170, PF fzd],
              G1 [PU ?ub, PF fu], G1 [PZ 158, PF fzu]]"
            unfolding sy s1 s2 using ok by simp
          then show ?thesis by blast
        qed
      qed
    qed
  qed
qed

lemma transfer_volume_trace:
  "\<exists>n ub ua xs ys xd yd.
     emitted (transfer_volume tbl dk ss sw ds dw v syr fxy fzd fzu fu) s = take n
     [Lit ''G90'', G1 [PU ub, PF fu], G1 [PZ 158, PF fzu], G1 [PX xs, PY ys, PF fxy],
      G1 [PZ 170, PF fzd], G1 [PU ua, PF fu], G1 [PZ 158, PF fzu], G1 [PZ 158, PF fzu],
      G1 [PX xd, PY yd, PF fxy], G1 [PZ 170, PF fzd], G1 [PU ub, PF fu], G1 [PZ 158, PF fzu]]"
proof -
  let ?B = "eval_then (get_syringe tbl (current_syringe s) syr) (\<lambda>sy.
       if (case u_min sy of None \<Rightarrow> False | Some m \<Rightarrow> fl (u_base sy) < fl m)
       then raise (ValueError ''u_base below syringe u_min.'')
       else if (case u_max sy of None \<Rightarrow> False
                | Some m \<Rightarrow> fadd (fl (u_base sy)) (fmul (fl v) (fl (u_per_ul sy))) > fl m)
       then raise (ValueError ''U travel exceeds syringe u_max, check volume.'')
       else
         eval_then (slot_lookup dk ss) (\<lambda>sslot.
         eval_then (slot_lookup dk ds) (\<lambda>dslot.
           steps
             [set_absolute_mode,
              move_u (fl (u_base sy)) fu,
              move_z 158 fzu,
              eval_then (well_position_machine
                 (LabwareInstance_init LABWARE_48WELL_10MM sslot (''plate_src_slot'' @ ss) dk) sw)
                (\<lambda>xy. move_xy xy fxy),
              move_z 170 fzd,
              move_u (fadd (fl (u_base sy)) (fmul (fl v) (fl (u_per_ul sy)))) fu,
              move_z 158 fzu,
              move_z 158 fzu,
              eval_then (well_position_machine
                 (LabwareInstance_init LABWARE_48WELL_10MM dslot (''plate_dst_slot'' @ ds) dk) dw)
                (\<lambda>xy. move_xy xy fxy),
              move_z 170 fzd,
              move_u (fl (u_base sy)) fu,
              move_z 158 fzu])))"
  have b: "transfer_volume tbl dk ss sw ds dw v syr fxy fzd fzu fu s = ?B s"
    by (simp add: transfer_volume_def Let_def inst_type_init plate_heights cong: if_cong)
  obtain ub ua xs ys xd yd where "emits ?B
     [Lit ''G90'', G1 [PU ub, PF fu], G1 [PZ 158, PF fzu], G1 [PX xs, PY ys, PF fxy],
      G1 [PZ 170, PF fzd], G1 [PU ua, PF fu], G1 [PZ 158, PF fzu], G1 [PZ 158, PF fzu],
      G1 [PX xd, PY yd, PF fxy], G1 [PZ 170, PF fzd], G1 [PU ub, PF fu], G1 [PZ 158, PF fzu]]"
    using emits_transfer_volume_body[where g = "get_syringe tbl (current_syringe s) syr"
        and v = v and dk = dk and ss = ss and sw = sw and ds = ds and dw = dw and fxy = fxy
        and fzd = fzd and fzu = fzu and fu = fu]
    by blast
  from emits_emitted[OF this, of s] obtain n where
    "emitted ?B s = take n
     [Lit ''G90'', G1 [PU ub, PF fu], G1 [PZ 158, PF fzu], G1 [PX xs, PY ys, PF fxy],
      G1 [PZ 170, PF fzd], G1 [PU ua, PF fu], G1 [PZ 158, PF fzu], G1 [PZ 158, PF fzu],
      G1 [PX xd, PY yd, PF fxy], G1 [PZ 170, PF fzd], G1 [PU ub, PF fu], G1 [PZ 158, PF fzu]]"
    by blast
  with b show ?thesis
    unfolding emitted_def
    by (intro exI[of _ n] exI[of _ ub] exI[of _ ua] exI[of _ xs] exI[of _ ys] exI[of _ xd]
        exI[of _ yd]) simp
qed

lemma transfer_volume_ordering:
  "ordering_ok (safe_z LABWARE_48WELL_10MM) zc False
     (emitted (transfer_volume tbl dk ss sw ds dw v syr fxy fzd fzu fu) s)"
proof -
  obtain n ub ua xs ys xd yd where
    e: "emitted (transfer_volume tbl dk ss sw ds dw v syr fxy fzd fzu fu) s = take n
     [Lit ''G90'', G1 [PU ub, PF fu], G1 [PZ 158, PF fzu], G1 [PX xs, PY ys, PF fxy],
      G1 [PZ 170, PF fzd], G1 [PU ua, PF fu], G1 [PZ 158, PF fzu], G1 [PZ 158, PF fzu],
      G1 [PX xd, PY yd, PF fxy], G1 [PZ 170, PF fzd], G1 [PU ub, PF fu], G1 [PZ 158, PF fzu]]"
    using transfer_volume_trace[where tbl = tbl and dk = dk and ss = ss and sw = sw and ds = ds
        and dw = dw and v = v and syr = syr and fxy = fxy and fzd = fzd and fzu = fzu and fu = fu
        and s = s]
    by blast
  have "ordering_ok 158 zc False
     [Lit ''G90'', G1 [PU ub, PF fu], G1 [PZ 158, PF fzu], G1 [PX xs, PY ys, PF fxy],
      G1 [PZ 170, PF fzd], G1 [PU ua, PF fu], G1 [PZ 158, PF fzu], G1 [PZ 158, PF fzu],
      G1 [PX xd, PY yd, PF fxy], G1 [PZ 170, PF fzd], G1 [PU ub, PF fu], G1 [PZ 158, PF fzu]]"
    by simp
  from ordering_ok_take[OF this, of n] show ?thesis
    unfolding e by (simp add: plate_heights)
qed


paragraph \<open>aspirate and dispense\<close>

lemma emits_pair: "emits a La \<Longrightarrow> emits b Lb \<Longrightarrow> emits (steps [a, b]) (La @ Lb)"
  using emits_steps[of "[a, b]" "[La, Lb]"] by simp

lemma emits_addressed:
  "\<exists>x y. emits
     (steps
        [(if beaker
          then steps [move_z zsafe fzu, eval_then pos (\<lambda>xy. move_xy xy fxy)]
          else eval_then pos (\<lambda>xy. move_xy xy fxy)),
         move_z zw fzd,
         move_relative 0 0 0 du (Some fu) move_timeout,
         move_z zsafe fzu])
     ((if beaker then [G1 [PZ zsafe, PF fzu]] else []) @
      [G1 [PX x, PY y, PF fxy], G1 [PZ zw, PF fzd],
       Lit ''G91'', G1 (nonzero_part PU du @ [PF fu]), Lit ''G90'', G1 [PZ zsafe, PF fzu]])"
proof -
  obtain x y where a: "emits (eval_then pos (\<lambda>xy. move_xy xy fxy)) [G1 [PX x, PY y, PF fxy]]"
    using emits_eval_xy by blast
  have f: "emits (if beaker
          then steps [move_z zsafe fzu, eval_then pos (\<lambda>xy. move_xy xy fxy)]
          else eval_then pos (\<lambda>xy. move_xy xy fxy))
        ((if beaker then [G1 [PZ zsafe, PF fzu]] else []) @ [G1 [PX x, PY y, PF fxy]])"
    using a emits_pair[OF emits_move_z a] by simp
  have "list_all2 emits
     [(if beaker
          then steps [move_z zsafe fzu, eval_then pos (\<lambda>xy. move_xy xy fxy)]
          else eval_then pos (\<lambda>xy. move_xy xy fxy)),
         move_z zw fzd,
         move_relative 0 0 0 du (Some fu) move_timeout,
         move_z zsafe fzu]
     [(if beaker then [G1 [PZ zsafe, PF fzu]] else []) @ [G1 [PX x, PY y, PF fxy]],
      [G1 [PZ zw, PF fzd]],
      [Lit ''G91'', G1 (nonzero_part PU du @ [PF fu]), Lit ''G90''],
      [G1 [PZ zsafe, PF fzu]]]"
    using f by (simp add: emits_basic emits_move_relative_u)
  from emits_steps[OF this] have "emits
     (steps
        [(if beaker
          then steps [move_z zsafe fzu, eval_then pos (\<lambda>xy. move_xy xy fxy)]
          else eval_then pos (\<lambda>xy. move_xy xy fxy)),
         move_z zw fzd,
         move_relative 0 0 0 du (Some fu) move_timeout,
         move_z zsafe fzu])
     ((if beaker then [G1 [PZ zsafe, PF fzu]] else []) @
      [G1 [PX x, PY y, PF fxy], G1 [PZ zw, PF fzd],
       Lit ''G91'', G1 (nonzero_part PU du @ [PF fu]), Lit ''G90'', G1 [PZ zsafe, PF fzu]])"
    by simp
  then show ?thesis by blast
qed

lemma emits_addressed_slot:
  "\<exists>x y. emits
     (steps
        [set_absolute_mode,
         eval_then sl (\<lambda>slot.
           steps
             [(if beaker
               then steps [move_z zsafe fzu, eval_then (pos slot) (\<lambda>xy. move_xy xy fxy)]
               else eval_then (pos slot) (\<lambda>xy. move_xy xy fxy)),
              move_z zw fzd,
              move_relative 0 0 0 du (Some fu) move_timeout,
              move_z zsafe fzu])])
     (Lit ''G90'' # (if beaker then [G1 [PZ zsafe, PF fzu]] else []) @
      [G1 [PX x, PY y, PF fxy], G1 [PZ zw, PF fzd],
       Lit ''G91'', G1 (nonzero_part PU du @ [PF fu]), Lit ''G90'', G1 [PZ zsafe, PF fzu]])"
proof (cases sl)
  case (Inl e)
  have "emits (steps [set_absolute_mode, raise e])
     ([Lit ''G90''] @ (if beaker then [G1 [PZ zsafe, PF fzu]] else []) @
      [G1 [PX 0, PY 0, PF fxy], G1 [PZ zw, PF fzd],
       Lit ''G91'', G1 (nonzero_part PU du @ [PF fu]), Lit ''G90'', G1 [PZ zsafe, PF fzu]])"
    by (intro emits_pair emits_set_absolute_mode emits_raise)
  with Inl have "emits
     (steps
        [set_absolute_mode,
         eval_then sl (\<lambda>slot.
           steps
             [(if beaker
               then steps [move_z zsafe fzu, eval_then (pos slot) (\<lambda>xy. move_xy xy fxy)]
               else eval_then (pos slot) (\<lambda>xy. move_xy xy fxy)),
              move_z zw fzd,
              move_relative 0 0 0 du (Some fu) move_timeout,
              move_z zsafe fzu])])
     (Lit ''G90'' # (if beaker then [G1 [PZ zsafe, PF fzu]] else []) @
      [G1 [PX 0, PY 0, PF fxy], G1 [PZ zw, PF fzd],
       Lit ''G91'', G1 (nonzero_part PU du @ [PF fu]), Lit ''G90'', G1 [PZ zsafe, PF fzu]])"
    by simp
  then show ?thesis by blast
next
  case (Inr slot)
  obtain x y where "emits
     (steps
        [(if beaker
          then steps [move_z zsafe fzu, eval_then (pos slot) (\<lambda>xy. move_xy xy fxy)]
          else eval_then (pos slot) (\<lambda>xy. move_xy xy fxy)),
         move_z zw fzd,
         move_relative 0 0 0 du (Some fu) move_timeout,
         move_z zsafe fzu])
     ((if beaker then [G1 [PZ zsafe, PF fzu]] else []) @
      [G1 [PX x, PY y, PF fxy], G1 [PZ zw, PF fzd],
       Lit ''G91'', G1 (nonzero_part PU du @ [PF fu]), Lit ''G90'', G1 [PZ zsafe, PF fzu]])"
    using emits_addressed[where beaker = beaker and zsafe = zsafe and fzu = fzu and pos = "pos slot"
        and fxy = fxy and zw = zw and fzd = fzd and du = du and fu = fu]
    by blast
  from emits_pair[OF emits_set_absolute_mode this] Inr have "emits
     (steps
        [set_absolute_mode,
         eval_then sl (\<lambda>slot.
           steps
             [(if beaker
               then steps [move_z zsafe fzu, eval_then (pos slot) (\<lambda>xy. move_xy xy fxy)]
               else eval_then (pos slot) (\<lambda>xy. move_xy xy fxy)),
              move_z zw fzd,
              move_relative 0 0 0 du (Some fu) move_timeout,
              move_z zsafe fzu])])
     (Lit ''G90'' # (if beaker then [G1 [PZ zsafe, PF fzu]] else []) @
      [G1 [PX x, PY y, PF fxy], G1 [PZ zw, PF fzd],
       Lit ''G91'', G1 (nonzero_part PU du @ [PF fu]), Lit ''G90'', G1 [PZ zsafe, PF fzu]])"
    by simp
  then show ?thesis by blast
qed

lemma emits_current_xy:
  "\<exists>z1 z2. emits
     (steps
        [set_absolute_mode,
         (case (zs, zw) of
            (Some a, Some b) \<Rightarrow>
              steps [move_z a fzu, move_z b fzd,
                     move_relative 0 0 0 du (Some fu) move_timeout, move_z a fzu]
          | _ \<Rightarrow> raise e)])
     [Lit ''G90'', G1 [PZ z1, PF fzu], G1 [PZ z2, PF fzd],
      Lit ''G91'', G1 (nonzero_part PU du @ [PF fu]), Lit ''G90'', G1 [PZ z1, PF fzu]]"
proof (cases "\<exists>a b. zs = Some a \<and> zw = Some b")
  case True
  then obtain a b where ab: "zs = Some a" "zw = Some b" by blast
  have "list_all2 emits
      [move_z a fzu, move_z b fzd, move_relative 0 0 0 du (Some fu) move_timeout, move_z a fzu]
      [[G1 [PZ a, PF fzu]], [G1 [PZ b, PF fzd]],
       [Lit ''G91'', G1 (nonzero_part PU du @ [PF fu]), Lit ''G90''], [G1 [PZ a, PF fzu]]]"
    by (simp add: emits_basic emits_move_relative_u)
  from emits_pair[OF emits_set_absolute_mode emits_steps[OF this]] ab have "emits
     (steps
        [set_absolute_mode,
         (case (zs, zw) of
            (Some a, Some b) \<Rightarrow>
              steps [move_z a fzu, move_z b fzd,
                     move_relative 0 0 0 du (Some fu) move_timeout, move_z a fzu]
          | _ \<Rightarrow> raise e)])
     [Lit ''G90'', G1 [PZ a, PF fzu], G1 [PZ b, PF fzd],
      Lit ''G91'', G1 (nonzero_part PU du @ [PF fu]), Lit ''G90'', G1 [PZ a, PF fzu]]"
    by simp
  then show ?thesis by blast
next
  case False
  then have "(case (zs, zw) of
            (Some a, Some b) \<Rightarrow>
              steps [move_z a fzu, move_z b fzd,
                     move_relative 0 0 0 du (Some fu) move_timeout, move_z a fzu]
          | _ \<Rightarrow> raise e) = raise e"
    by (auto split: option.splits)
  moreover have "emits (steps [set_absolute_mode, raise e])
     ([Lit ''G90''] @ [G1 [PZ 0, PF fzu], G1 [PZ 0, PF fzd],
      Lit ''G91'', G1 (nonzero_part PU du @ [PF fu]), Lit ''G90'', G1 [PZ 0, PF fzu]])"
    by (intro emits_pair emits_set_absolute_mode emits_raise)
  ultimately have "emits
     (steps
        [set_absolute_mode,
         (case (zs, zw) of
            (Some a, Some b) \<Rightarrow>
              steps [move_z a fzu, move_z b fzd,
                     move_relative 0 0 0 du (Some fu) move_timeout, move_z a fzu]
          | _ \<Rightarrow> raise e)])
     [Lit ''G90'', G1 [PZ 0, PF fzu], G1 [PZ 0, PF fzd],
      Lit ''G91'', G1 (nonzero_part PU du @ [PF fu]), Lit ''G90'', G1 [PZ 0, PF fzu]]"
    by simp
  then show ?thesis by blast
qed

lemma aspirate_addressed_trace:
  "\<exists>n x y du. emitted (aspirate tbl v sy (Some d) (Some i) lt (Some w) zs za fxy fzd fzu fu) s =
     take n (Lit ''G90'' # (if is_LABWARE_BEAKER_1WELL lt then [G1 [PZ (safe_z (object_value lt)), PF fzu]] else []) @
       [G1 [PX x, PY y, PF fxy], G1 [PZ (py_or (aspirate_z (object_value lt)) (bottom_z (object_value lt))), PF fzd],
        Lit ''G91'', G1 (nonzero_part PU du @ [PF fu]), Lit ''G90'', G1 [PZ (safe_z (object_value lt)), PF fzu]])"
proof (cases "get_syringe tbl (current_syringe s) sy")
  case (Inl e)
  then have "emitted (aspirate tbl v sy (Some d) (Some i) lt (Some w) zs za fxy fzd fzu fu) s = []"
    by (simp add: aspirate_def emitted_def raise_def)
  then show ?thesis by (auto intro: exI[of _ 0])
next
  case (Inr syr)
  let ?B = "steps
        [set_absolute_mode,
         eval_then (slot_lookup d i) (\<lambda>slot.
           steps
             [(if is_LABWARE_BEAKER_1WELL lt
               then steps [move_z (safe_z (object_value lt)) fzu,
                           eval_then (well_position_machine
                               (LabwareInstance_init (object_value lt) slot (''asp_plate_slot'' @ i) d) w)
                             (\<lambda>xy. move_xy xy fxy)]
               else eval_then (well_position_machine
                               (LabwareInstance_init (object_value lt) slot (''asp_plate_slot'' @ i) d) w)
                             (\<lambda>xy. move_xy xy fxy)),
              move_z (py_or (aspirate_z (object_value lt)) (bottom_z (object_value lt))) fzd,
              move_relative 0 0 0 (fmul (fl v) (fl (u_per_ul syr))) (Some fu) move_timeout,
              move_z (safe_z (object_value lt)) fzu])]"
  have b: "aspirate tbl v sy (Some d) (Some i) lt (Some w) zs za fxy fzd fzu fu s = ?B s"
    by (simp add: aspirate_def Inr Let_def inst_type_init cong: if_cong)
  obtain x y where "emits ?B
     (Lit ''G90'' # (if is_LABWARE_BEAKER_1WELL lt then [G1 [PZ (safe_z (object_value lt)), PF fzu]] else []) @
      [G1 [PX x, PY y, PF fxy], G1 [PZ (py_or (aspirate_z (object_value lt)) (bottom_z (object_value lt))), PF fzd],
       Lit ''G91'', G1 (nonzero_part PU (fmul (fl v) (fl (u_per_ul syr))) @ [PF fu]), Lit ''G90'',
       G1 [PZ (safe_z (object_value lt)), PF fzu]])"
    using emits_addressed_slot[where beaker = "is_LABWARE_BEAKER_1WELL lt" and zsafe = "safe_z (object_value lt)"
        and fzu = fzu and sl = "slot_lookup d i"
        and pos = "\<lambda>slot. well_position_machine
                               (LabwareInstance_init (object_value lt) slot (''asp_plate_slot'' @ i) d) w"
        and fxy = fxy and zw = "py_or (aspirate_z (object_value lt)) (bottom_z (object_value lt))" and fzd = fzd
        and du = "fmul (fl v) (fl (u_per_ul syr))" and fu = fu]
    by blast
  from emits_emitted[OF this, of s] obtain n where
    "emitted ?B s = take n
     (Lit ''G90'' # (if is_LABWARE_BEAKER_1WELL lt then [G1 [PZ (safe_z (object_value lt)), PF fzu]] else []) @
      [G1 [PX x, PY y, PF fxy], G1 [PZ (py_or (aspirate_z (object_value lt)) (bottom_z (object_value lt))), PF fzd],
       Lit ''G91'', G1 (nonzero_part PU (fmul (fl v) (fl (u_per_ul syr))) @ [PF fu]), Lit ''G90'',
       G1 [PZ (safe_z (object_value lt)), PF fzu]])"
    by blast
  with b show ?thesis
    unfolding emitted_def
    by (intro exI[of _ n] exI[of _ x] exI[of _ y] exI[of _ "fmul (fl v) (fl (u_per_ul syr))"]) simp
qed

lemma aspirate_current_xy_trace:
  assumes "adk = None \<or> asid = None \<or> awell = None"
  shows "\<exists>n z1 z2 du. emitted (aspirate tbl v sy adk asid lt awell zs za fxy fzd fzu fu) s =
     take n [Lit ''G90'', G1 [PZ z1, PF fzu], G1 [PZ z2, PF fzd],
             Lit ''G91'', G1 (nonzero_part PU du @ [PF fu]), Lit ''G90'', G1 [PZ z1, PF fzu]]"
proof (cases "get_syringe tbl (current_syringe s) sy")
  case (Inl e)
  then have "emitted (aspirate tbl v sy adk asid lt awell zs za fxy fzd fzu fu) s = []"
    by (simp add: aspirate_def emitted_def raise_def)
  then show ?thesis by (auto intro: exI[of _ 0])
next
  case (Inr syr)
  let ?B = "steps
        [set_absolute_mode,
         (case (zs, za) of
            (Some a, Some b) \<Rightarrow>
              steps [move_z a fzu, move_z b fzd,
                     move_relative 0 0 0 (fmul (fl v) (fl (u_per_ul syr))) (Some fu) move_timeout, move_z a fzu]
          | _ \<Rightarrow> raise (ValueError
                         ''For current-XY aspirate, z_safe and z_aspirate must be provided.''))]"
  have b: "aspirate tbl v sy adk asid lt awell zs za fxy fzd fzu fu s = ?B s"
    using assms by (auto simp: aspirate_def Inr Let_def split: option.splits)
  obtain z1 z2 where "emits ?B
     [Lit ''G90'', G1 [PZ z1, PF fzu], G1 [PZ z2, PF fzd],
      Lit ''G91'', G1 (nonzero_part PU (fmul (fl v) (fl (u_per_ul syr))) @ [PF fu]), Lit ''G90'',
      G1 [PZ z1, PF fzu]]"
    using emits_current_xy[where zs = zs and zw = za and fzu = fzu and fzd = fzd
        and du = "fmul (fl v) (fl (u_per_ul syr))" and fu = fu]
    by blast
  from emits_emitted[OF this, of s] obtain n where
    "emitted ?B s = take n
     [Lit ''G90'', G1 [PZ z1, PF fzu], G1 [PZ z2, PF fzd],
      Lit ''G91'', G1 (nonzero_part PU (fmul (fl v) (fl (u_per_ul syr))) @ [PF fu]), Lit ''G90'',
      G1 [PZ z1, PF fzu]]"
    by blast
  with b show ?thesis
    unfolding emitted_def
    by (intro exI[of _ n] exI[of _ z1] exI[of _ z2] exI[of _ "fmul (fl v) (fl (u_per_ul syr))"]) simp
qed

lemma dispense_addressed_trace:
  "\<exists>n x y du. emitted (dispense tbl v sy (Some d) (Some i) lt (Some w) zs za fxy fzd fzu fu) s =
     take n (Lit ''G90'' # (if is_LABWARE_BEAKER_1WELL lt then [G1 [PZ (safe_z (object_value lt)), PF fzu]] else []) @
       [G1 [PX x, PY y, PF fxy], G1 [PZ (py_or (dispense_z (object_value lt)) (bottom_z (object_value lt))), PF fzd],
        Lit ''G91'', G1 (nonzero_part PU du @ [PF fu]), Lit ''G90'', G1 [PZ (safe_z (object_value lt)), PF fzu]])"
proof (cases "get_syringe tbl (current_syringe s) sy")
  case (Inl e)
  then have "emitted (dispense tbl v sy (Some d) (Some i) lt (Some w) zs za fxy fzd fzu fu) s = []"
    by (simp add: dispense_def emitted_def raise_def)
  then show ?thesis by (auto intro: exI[of _ 0])
next
  case (Inr syr)
  let ?B = "steps
        [set_absolute_mode,
         eval_then (slot_lookup d i) (\<lambda>slot.
           steps
             [(if is_LABWARE_BEAKER_1WELL lt
               then steps [move_z (safe_z (object_value lt)) fzu,
                           eval_then (well_position_machine
                               (LabwareInstance_init (object_value lt) slot (''disp_plate_slot'' @ i) d) w)
                             (\<lambda>xy. move_xy xy fxy)]
               else eval_then (well_position_machine
                               (LabwareInstance_init (object_value lt) slot (''disp_plate_slot'' @ i) d) w)
                             (\<lambda>xy. move_xy xy fxy)),
              move_z (py_or (dispense_z (object_value lt)) (bottom_z (object_value lt))) fzd,
              move_relative 0 0 0 (- fmul (fl v) (fl (u_per_ul syr))) (Some fu) move_timeout,
              move_z (safe_z (object_value lt)) fzu])]"
  have b: "dispense tbl v sy (Some d) (Some i) lt (Some w) zs za fxy fzd fzu fu s = ?B s"
    by (simp add: dispense_def Inr Let_def inst_type_init cong: if_cong)
  obtain x y where "emits ?B
     (Lit ''G90'' # (if is_LABWARE_BEAKER_1WELL lt then [G1 [PZ (safe_z (object_value lt)), PF fzu]] else []) @
      [G1 [PX x, PY y, PF fxy], G1 [PZ (py_or (dispense_z (object_value lt)) (bottom_z (object_value lt))), PF fzd],
       Lit ''G91'', G1 (nonzero_part PU (- fmul (fl v) (fl (u_per_ul syr))) @ [PF fu]), Lit ''G90'',
       G1 [PZ (safe_z (object_value lt)), PF fzu]])"
    using emits_addressed_slot[where beaker = "is_LABWARE_BEAKER_1WELL lt" and zsafe = "safe_z (object_value lt)"
        and fzu = fzu and sl = "slot_lookup d i"
        and pos = "\<lambda>slot. well_position_machine
                               (LabwareInstance_init (object_value lt) slot (''disp_plate_slot'' @ i) d) w"
        and fxy = fxy and zw = "py_or (dispense_z (object_value lt)) (bottom_z (object_value lt))" and fzd = fzd
        and du = "- fmul (fl v) (fl (u_per_ul syr))" and fu = fu]
    by blast
  from emits_emitted[OF this, of s] obtain n where
    "emitted ?B s = take n
     (Lit ''G90'' # (if is_LABWARE_BEAKER_1WELL lt then [G1 [PZ (safe_z (object_value lt)), PF fzu]] else []) @
      [G1 [PX x, PY y, PF fxy], G1 [PZ (py_or (dispense_z (object_value lt)) (bottom_z (object_value lt))), PF fzd],
       Lit ''G91'', G1 (nonzero_part PU (- fmul (fl v) (fl (u_per_ul syr))) @ [PF fu]), Lit ''G90'',
       G1 [PZ (safe_z (object_value lt)), PF fzu]])"
    by blast
  with b show ?thesis
    unfolding emitted_def
    by (intro exI[of _ n] exI[of _ x] exI[of _ y] exI[of _ "- fmul (fl v) (fl (u_per_ul syr))"]) simp
qed

lemma dispense_current_xy_trace:
  assumes "adk = None \<or> asid = None \<or> awell = None"
  shows "\<exists>n z1 z2 du. emitted (dispense tbl v sy adk asid lt awell zs za fxy fzd fzu fu) s =
     take n [Lit ''G90'', G1 [PZ z1, PF fzu], G1 [PZ z2, PF fzd],
             Lit ''G91'', G1 (nonzero_part PU du @ [PF fu]), Lit ''G90'', G1 [PZ z1, PF fzu]]"
proof (cases "get_syringe tbl (current_syringe s) sy")
  case (Inl e)
  then have "emitted (dispense tbl v sy adk asid lt awell zs za fxy fzd fzu fu) s = []"
    by (simp add: dispense_def emitted_def raise_def)
  then show ?thesis by (auto intro: exI[of _ 0])
next
  case (Inr syr)
  let ?B = "steps
        [set_absolute_mode,
         (case (zs, za) of
            (Some a, Some b) \<Rightarrow>
              steps [move_z a fzu, move_z b fzd,
                     move_relative 0 0 0 (- fmul (fl v) (fl (u_per_ul syr))) (Some fu) move_timeout, move_z a fzu]
          | _ \<Rightarrow> raise (ValueError
                         ''For current-XY dispense, z_safe and z_dispense must be provided.''))]"
  have b: "dispense tbl v sy adk asid lt awell zs za fxy fzd fzu fu s = ?B s"
    using assms by (auto simp: dispense_def Inr Let_def split: option.splits)
  obtain z1 z2 where "emits ?B
     [Lit ''G90'', G1 [PZ z1, PF fzu], G1 [PZ z2, PF fzd],
      Lit ''G91'', G1 (nonzero_part PU (- fmul (fl v) (fl (u_per_ul syr))) @ [PF fu]), Lit ''G90'',
      G1 [PZ z1, PF fzu]]"
    using emits_current_xy[where zs = zs and zw = za and fzu = fzu and fzd = fzd
        and du = "- fmul (fl v) (fl (u_per_ul syr))" and fu = fu]
    by blast
  from emits_emitted[OF this, of s] obtain n where
    "emitted ?B s = take n
     [Lit ''G90'', G1 [PZ z1, PF fzu], G1 [PZ z2, PF fzd],
      Lit ''G91'', G1 (nonzero_part PU (- fmul (fl v) (fl (u_per_ul syr))) @ [PF fu]), Lit ''G90'',
      G1 [PZ z1, PF fzu]]"
    by blast
  with b show ?thesis
    unfolding emitted_def
    by (intro exI[of _ n] exI[of _ z1] exI[of _ z2] exI[of _ "- fmul (fl v) (fl (u_per_ul syr))"]) simp
qed


paragraph \<open>drop_tip_scrape\<close>

lemma emits_drop_tip_scrape:
  "\<exists>cx cy xt. emits (drop_tip_scrape dk sid edge hw ex)
     [Lit ''G90'', G1 [PZ 100, PF 600], G1 [PX cx, PY cy, PF 7500], G1 [PZ 170, PF 750],
      G1 [PX xt, PY cy, PF 2000], G1 [PZ 100, PF 600]]"
proof (cases "slot_lookup dk sid")
  case (Inl e)
  then show ?thesis by (simp add: drop_tip_scrape_def emits_raise)
next
  case (Inr slot)
  obtain cx cy where c: "slot_center_machine dk sid = Inr (cx, cy)"
    using Inr by (cases "deck_to_machine dk (x_deck slot) (y_deck slot)")
      (simp add: slot_center_machine_def)
  let ?edge = "if edge = ''left'' then Inr (cx - hw - ex)
               else if edge = ''right'' then Inr (cx + hw + ex)
               else Inl (ValueError ''edge must be left or right.'')"
  have "\<exists>xt. emits (eval_then ?edge (\<lambda>x_target. move_xy (x_target, cy) 2000))
                 [G1 [PX xt, PY cy, PF 2000]]"
  proof (cases "edge = ''left''")
    case True
    then show ?thesis using emits_move_xy[of "cx - hw - ex" cy 2000] by auto
  next
    case nl: False
    show ?thesis
    proof (cases "edge = ''right''")
      case True
      then show ?thesis using nl emits_move_xy[of "cx + hw + ex" cy 2000] by auto
    next
      case False
      then show ?thesis using nl by (simp add: emits_raise)
    qed
  qed
  then obtain xt where e: "emits (eval_then ?edge (\<lambda>x_target. move_xy (x_target, cy) 2000))
                 [G1 [PX xt, PY cy, PF 2000]]"
    by blast
  have "list_all2 emits
     [set_absolute_mode, move_z 100 600, move_xy (cx, cy) 7500, move_z 170 750,
      eval_then ?edge (\<lambda>x_target. move_xy (x_target, cy) 2000), move_z 100 600]
     [[Lit ''G90''], [G1 [PZ 100, PF 600]], [G1 [PX cx, PY cy, PF 7500]], [G1 [PZ 170, PF 750]],
      [G1 [PX xt, PY cy, PF 2000]], [G1 [PZ 100, PF 600]]]"
    using e by (simp add: emits_basic)
  from emits_steps[OF this] have "emits (drop_tip_scrape dk sid edge hw ex)
     [Lit ''G90'', G1 [PZ 100, PF 600], G1 [PX cx, PY cy, PF 7500], G1 [PZ 170, PF 750],
      G1 [PX xt, PY cy, PF 2000], G1 [PZ 100, PF 600]]"
    by (simp add: drop_tip_scrape_def Inr c Let_def inst_type_init waste_heights
        split del: if_split cong: if_cong)
  then show ?thesis by blast
qed

lemma filter_take: "\<exists>m. filter P (take n L) = take m (filter P L)"
proof -
  have "filter P L = filter P (take n L) @ filter P (drop n L)"
    by (metis append_take_drop_id filter_append)
  then have "take (length (filter P (take n L))) (filter P L) = filter P (take n L)"
    by simp
  then show ?thesis by metis
qed

lemma drop_tip_scrape_ordering:
  "ordering_ok (safe_z LABWARE_TIPWASTE_BOX) zc False
     (filter (\<lambda>c. \<not> is_scrape_stroke c) (emitted (drop_tip_scrape dk sid edge hw ex) s))"
proof -
  obtain cx cy xt where e: "emits (drop_tip_scrape dk sid edge hw ex)
     [Lit ''G90'', G1 [PZ 100, PF 600], G1 [PX cx, PY cy, PF 7500], G1 [PZ 170, PF 750],
      G1 [PX xt, PY cy, PF 2000], G1 [PZ 100, PF 600]]"
    using emits_drop_tip_scrape[where dk = dk and sid = sid and edge = edge and hw = hw and ex = ex]
    by blast
  from emits_emitted[OF e, of s] obtain n where
    n: "emitted (drop_tip_scrape dk sid edge hw ex) s = take n
     [Lit ''G90'', G1 [PZ 100, PF 600], G1 [PX cx, PY cy, PF 7500], G1 [PZ 170, PF 750],
      G1 [PX xt, PY cy, PF 2000], G1 [PZ 100, PF 600]]"
    by blast
  obtain m where m: "filter (\<lambda>c. \<not> is_scrape_stroke c) (take n
     [Lit ''G90'', G1 [PZ 100, PF 600], G1 [PX cx, PY cy, PF 7500], G1 [PZ 170, PF 750],
      G1 [PX xt, PY cy, PF 2000], G1 [PZ 100, PF 600]]) =
     take m (filter (\<lambda>c. \<not> is_scrape_stroke c)
     [Lit ''G90'', G1 [PZ 100, PF 600], G1 [PX cx, PY cy, PF 7500], G1 [PZ 170, PF 750],
      G1 [PX xt, PY cy, PF 2000], G1 [PZ 100, PF 600]])"
    using filter_take by blast
  have "ordering_ok 100 zc False (filter (\<lambda>c. \<not> is_scrape_stroke c)
     [Lit ''G90'', G1 [PZ 100, PF 600], G1 [PX cx, PY cy, PF 7500], G1 [PZ 170, PF 750],
      G1 [PX xt, PY cy, PF 2000], G1 [PZ 100, PF 600]])"
    by simp
  from ordering_ok_take[OF this, of m] show ?thesis
    unfolding n m by (simp add: waste_heights)
qed

paragraph \<open>The operations together\<close>

lemma beaker_heights:
  "safe_z LABWARE_BEAKER_1WELL = 100"
  "py_or (aspirate_z LABWARE_BEAKER_1WELL) (bottom_z LABWARE_BEAKER_1WELL) = 150"
  "py_or (dispense_z LABWARE_BEAKER_1WELL) (bottom_z LABWARE_BEAKER_1WELL) = 150"
  by (simp_all add: LABWARE_BEAKER_1WELL_def py_or_def)

lemma addressed_ordering:
  assumes "em = take n (Lit ''G90'' # (if b then [G1 [PZ zsafe, PF fzu]] else []) @
       [G1 [PX x, PY y, PF fxy], G1 [PZ zw, PF fzd],
        Lit ''G91'', G1 (nonzero_part PU du @ [PF fu]), Lit ''G90'', G1 [PZ zsafe, PF fzu]])"
    and "b \<or> (\<exists>z0. zc = Some z0 \<and> z0 \<le> zsafe)"
  shows "ordering_ok zsafe zc False em"
proof -
  have "ordering_ok zsafe zc False (Lit ''G90'' # (if b then [G1 [PZ zsafe, PF fzu]] else []) @
       [G1 [PX x, PY y, PF fxy], G1 [PZ zw, PF fzd],
        Lit ''G91'', G1 (nonzero_part PU du @ [PF fu]), Lit ''G90'', G1 [PZ zsafe, PF fzu]])"
    using assms(2) by auto
  then show ?thesis unfolding assms(1) by (rule ordering_ok_take)
qed

lemma current_xy_no_lateral:
  assumes "em = take n [Lit ''G90'', G1 [PZ z1, PF fzu], G1 [PZ z2, PF fzd],
             Lit ''G91'', G1 (nonzero_part PU du @ [PF fu]), Lit ''G90'', G1 [PZ z1, PF fzu]]"
  shows "list_all no_lateral em"
proof -
  have "list_all no_lateral [Lit ''G90'', G1 [PZ z1, PF fzu], G1 [PZ z2, PF fzd],
             Lit ''G91'', G1 (nonzero_part PU du @ [PF fu]), Lit ''G90'', G1 [PZ z1, PF fzu]]"
    by simp
  then show ?thesis unfolding assms list_all_iff using in_set_takeD by fast
qed

text \<open>
  C2, amended. For every input and every answer of the firmware, the commands written
  (all of them, or the prefix written before a failure) obey the safety ordering in the
  following cases, the safe height being the one of the labware of the operation:
  \<^item> \<^verbatim>\<open>pick_up_tip\<close> and \<^verbatim>\<open>transfer_volume\<close>, whatever Z was commanded before;
  \<^item> \<^verbatim>\<open>aspirate\<close> and \<^verbatim>\<open>dispense\<close> addressed to a well and handed the object
    \<^verbatim>\<open>LABWARE_BEAKER_1WELL\<close> of the module itself, whatever Z was commanded before;
  \<^item> \<^verbatim>\<open>aspirate\<close> and \<^verbatim>\<open>dispense\<close> addressed to a well and handed any other labware
    object, a copy of the beaker included, provided the Z commanded before the
    operation is at or above the safe height: the XY move comes first and is not
    preceded by a rise;
  \<^item> \<^verbatim>\<open>drop_tip_scrape\<close>, for all its commands but the scrape stroke, which is a lateral
    move at scrape height.
  In current-position mode (no deck, no slot or no well) \<^verbatim>\<open>aspirate\<close> and \<^verbatim>\<open>dispense\<close>
  write no move of X or Y at all.
\<close>

theorem choreography_safety_ordering:
  "ordering_ok (safe_z LABWARE_TIPRACK_96) zc False (emitted (pick_up_tip dk sid well n) s)
   \<and> ordering_ok (safe_z LABWARE_48WELL_10MM) zc False
       (emitted (transfer_volume tbl dk ss sw ds dw v syr fxy fzd fzu fu) s)
   \<and> ordering_ok (safe_z LABWARE_BEAKER_1WELL) zc False
       (emitted (aspirate tbl v sy (Some dk) (Some sid) Beaker_object (Some well) zs za
                   fxy fzd fzu fu) s)
   \<and> ordering_ok (safe_z LABWARE_BEAKER_1WELL) zc False
       (emitted (dispense tbl v sy (Some dk) (Some sid) Beaker_object (Some well) zs za
                   fxy fzd fzu fu) s)
   \<and> (zp \<le> safe_z lt \<longrightarrow>
        ordering_ok (safe_z lt) (Some zp) False
          (emitted (aspirate tbl v sy (Some dk) (Some sid) (Other_object lt) (Some well) zs za
                      fxy fzd fzu fu) s))
   \<and> (zp \<le> safe_z lt \<longrightarrow>
        ordering_ok (safe_z lt) (Some zp) False
          (emitted (dispense tbl v sy (Some dk) (Some sid) (Other_object lt) (Some well) zs za
                      fxy fzd fzu fu) s))
   \<and> (adk = None \<or> asid = None \<or> awell = None \<longrightarrow>
        list_all no_lateral
          (emitted (aspirate tbl v sy adk asid lr awell zs za fxy fzd fzu fu) s))
   \<and> (adk = None \<or> asid = None \<or> awell = None \<longrightarrow>
        list_all no_lateral
          (emitted (dispense tbl v sy adk asid lr awell zs za fxy fzd fzu fu) s))
   \<and> ordering_ok (safe_z LABWARE_TIPWASTE_BOX) zc False
       (filter (\<lambda>c. \<not> is_scrape_stroke c) (emitted (drop_tip_scrape dk sid edge hw ex) s))"
proof -
  have a1: "ordering_ok (safe_z (object_value Beaker_object)) zc False
       (emitted (aspirate tbl v sy (Some dk) (Some sid) Beaker_object (Some well) zs za
                   fxy fzd fzu fu) s)"
    using aspirate_addressed_trace[where tbl = tbl and v = v and sy = sy and d = dk and i = sid
        and lt = Beaker_object and w = well and zs = zs and za = za and fxy = fxy
        and fzd = fzd and fzu = fzu and fu = fu and s = s]
    by (elim exE) (rule addressed_ordering, assumption, simp add: is_LABWARE_BEAKER_1WELL_def)
  have d1: "ordering_ok (safe_z (object_value Beaker_object)) zc False
       (emitted (dispense tbl v sy (Some dk) (Some sid) Beaker_object (Some well) zs za
                   fxy fzd fzu fu) s)"
    using dispense_addressed_trace[where tbl = tbl and v = v and sy = sy and d = dk and i = sid
        and lt = Beaker_object and w = well and zs = zs and za = za and fxy = fxy
        and fzd = fzd and fzu = fzu and fu = fu and s = s]
    by (elim exE) (rule addressed_ordering, assumption, simp add: is_LABWARE_BEAKER_1WELL_def)
  have a2: "zp \<le> safe_z lt \<Longrightarrow>
        ordering_ok (safe_z (object_value (Other_object lt))) (Some zp) False
          (emitted (aspirate tbl v sy (Some dk) (Some sid) (Other_object lt) (Some well) zs za
                      fxy fzd fzu fu) s)"
    using aspirate_addressed_trace[where tbl = tbl and v = v and sy = sy and d = dk and i = sid
        and lt = "Other_object lt" and w = well and zs = zs and za = za and fxy = fxy
        and fzd = fzd and fzu = fzu and fu = fu and s = s]
    by (elim exE) (rule addressed_ordering, assumption, simp)
  have d2: "zp \<le> safe_z lt \<Longrightarrow>
        ordering_ok (safe_z (object_value (Other_object lt))) (Some zp) False
          (emitted (dispense tbl v sy (Some dk) (Some sid) (Other_object lt) (Some well) zs za
                      fxy fzd fzu fu) s)"
    using dispense_addressed_trace[where tbl = tbl and v = v and sy = sy and d = dk and i = sid
        and lt = "Other_object lt" and w = well and zs = zs and za = za and fxy = fxy
        and fzd = fzd and fzu = fzu and fu = fu and s = s]
    by (elim exE) (rule addressed_ordering, assumption, simp)
  have a3: "adk = None \<or> asid = None \<or> awell = None \<Longrightarrow> list_all no_lateral
          (emitted (aspirate tbl v sy adk asid lr awell zs za fxy fzd fzu fu) s)"
  proof -
    assume h: "adk = None \<or> asid = None \<or> awell = None"
    from aspirate_current_xy_trace[OF h, where tbl = tbl and v = v and sy = sy and lt = lr
        and zs = zs and za = za and fxy = fxy and fzd = fzd and fzu = fzu and fu = fu and s = s]
    show ?thesis by (elim exE) (rule current_xy_no_lateral, assumption)
  qed
  have d3: "adk = None \<or> asid = None \<or> awell = None \<Longrightarrow> list_all no_lateral
          (emitted (dispense tbl v sy adk asid lr awell zs za fxy fzd fzu fu) s)"
  proof -
    assume h: "adk = None \<or> asid = None \<or> awell = None"
    from dispense_current_xy_trace[OF h, where tbl = tbl and v = v and sy = sy and lt = lr
        and zs = zs and za = za and fxy = fxy and fzd = fzd and fzu = fzu and fu = fu and s = s]
    show ?thesis by (elim exE) (rule current_xy_no_lateral, assumption)
  qed
  show ?thesis
    by (intro conjI impI pick_up_tip_ordering transfer_volume_ordering drop_tip_scrape_ordering
        a1[unfolded object_value.simps] d1[unfolded object_value.simps]
        a2[unfolded object_value.simps] d2[unfolded object_value.simps] a3 d3; simp)
qed


lemma drop_tip_scrape_right_run:
  "drop_tip_scrape Deck_init ''2'' ''right'' 64 20
     (fresh_robot [(''ok'', 0), (''ok'', 0), (''ok'', 0), (''ok'', 0), (''ok'', 0), (''ok'', 0)])
   = (Returned,
      \<lparr>connected = True, current_syringe = None,
       sent = [Lit ''G90'', G1 [PZ 100, PF 600], G1 [PX 234.1, PY 65, PF 7500],
               G1 [PZ 170, PF 750], G1 [PX 318.1, PY 65, PF 2000], G1 [PZ 100, PF 600]],
       rx = [], stdout = []\<rparr>)"
  by (simp add: drop_tip_scrape_def slot2 center2 inst_type_init waste_heights Let_def run_defs)

lemma aspirate_plate_run:
  "aspirate SYRINGES 50 (Some ''1ml'') (Some Deck_init) (Some ''4'')
     (Other_object LABWARE_48WELL_10MM) (Some ''A1'') None None 7500 600 750 200
     (fresh_robot [(''ok'', 0), (''ok'', 0), (''ok'', 0), (''ok'', 0), (''ok'', 0), (''ok'', 0),
                   (''ok'', 0)])
   = (Returned,
      \<lparr>connected = True, current_syringe = None,
       sent = [Lit ''G90'', G1 [PX 190.22, PY 132.96, PF 7500], G1 [PZ 170, PF 600],
               Lit ''G91'', G1 [PU 3, PF 200], Lit ''G90'', G1 [PZ 158, PF 750]],
       rx = [], stdout = []\<rparr>)"
  apply (simp add: aspirate_def get_syringe_named SYRINGES_def Syringe_1ml_def slot4 Let_def
      inst_type_init wpm_A1 plate_heights is_LABWARE_BEAKER_1WELL_def)
  apply (simp add: run_defs send_ok_rel nonzero_part_def fl_eval)
  done

text \<open>
  C2, as stated, fails. On slot 2 with the edge \<^verbatim>\<open>right\<close>, \<^verbatim>\<open>drop_tip_scrape\<close> returns
  after a trace whose fifth command moves X to 318.1 while the Z commanded last is the
  scrape height 170, below the safe height 100. And \<^verbatim>\<open>aspirate\<close> on a well of the
  48-well plate starts with the XY move: issued after a Z of 170 was commanded, it
  travels below the safe height 158.
\<close>

theorem scrape_stroke_below_safe_height:
  "fst (drop_tip_scrape Deck_init ''2'' ''right'' 64 20
          (fresh_robot [(''ok'', 0), (''ok'', 0), (''ok'', 0), (''ok'', 0), (''ok'', 0), (''ok'', 0)]))
     = Returned
   \<and> emitted (drop_tip_scrape Deck_init ''2'' ''right'' 64 20)
          (fresh_robot [(''ok'', 0), (''ok'', 0), (''ok'', 0), (''ok'', 0), (''ok'', 0), (''ok'', 0)])
     = [Lit ''G90'', G1 [PZ 100, PF 600], G1 [PX 234.1, PY 65, PF 7500],
        G1 [PZ 170, PF 750], G1 [PX 318.1, PY 65, PF 2000], G1 [PZ 100, PF 600]]
   \<and> \<not> ordering_ok (safe_z LABWARE_TIPWASTE_BOX) None False
         (emitted (drop_tip_scrape Deck_init ''2'' ''right'' 64 20)
            (fresh_robot [(''ok'', 0), (''ok'', 0), (''ok'', 0), (''ok'', 0), (''ok'', 0),
                          (''ok'', 0)]))
   \<and> \<not> ordering_ok (safe_z LABWARE_48WELL_10MM) (Some 170) False
         (emitted (aspirate SYRINGES 50 (Some ''1ml'') (Some Deck_init) (Some ''4'')
                     (Other_object LABWARE_48WELL_10MM) (Some ''A1'') None None 7500 600 750 200)
            (fresh_robot [(''ok'', 0), (''ok'', 0), (''ok'', 0), (''ok'', 0), (''ok'', 0),
                          (''ok'', 0), (''ok'', 0)]))"
  by (simp add: emitted_def drop_tip_scrape_right_run aspirate_plate_run waste_heights plate_heights)
     (simp add: fresh_robot_def)

theorem choreography_safety_ordering_witness:
  "ordering_ok (safe_z LABWARE_48WELL_10MM) (Some 100) False
     (emitted (aspirate SYRINGES 50 (Some ''1ml'') (Some Deck_init) (Some ''4'')
                 (Other_object LABWARE_48WELL_10MM) (Some ''A1'') None None 7500 600 750 200)
        (fresh_robot [(''ok'', 0), (''ok'', 0), (''ok'', 0), (''ok'', 0), (''ok'', 0),
                      (''ok'', 0), (''ok'', 0)]))
   \<and> ordering_ok (safe_z LABWARE_BEAKER_1WELL) (Some 100) False
     (emitted (dispense SYRINGES 50 (Some ''1ml'') (Some Deck_init) (Some ''2'')
                 (Other_object LABWARE_BEAKER_1WELL) (Some ''A1'') None None 7500 600 750 200)
        (fresh_robot [(''ok'', 0), (''ok'', 0), (''ok'', 0), (''ok'', 0), (''ok'', 0),
                      (''ok'', 0), (''ok'', 0)]))
   \<and> list_all no_lateral
     (emitted (dispense SYRINGES 50 (Some ''1ml'') None None (Other_object LABWARE_48WELL_10MM)
                 None (Some 100) (Some 150) 7500 600 750 200)
        (fresh_robot [(''ok'', 0), (''ok'', 0), (''ok'', 0), (''ok'', 0), (''ok'', 0),
                      (''ok'', 0), (''ok'', 0)]))"
proof -
  have h: "100 \<le> safe_z LABWARE_48WELL_10MM" "100 \<le> safe_z LABWARE_BEAKER_1WELL"
    by (simp_all add: LABWARE_48WELL_10MM_def LABWARE_BEAKER_1WELL_def)
  have n: "(None :: Deck option) = None \<or> (None :: string option) = None \<or> (None :: string option) = None"
    by simp
  note t = choreography_safety_ordering[where lt = LABWARE_48WELL_10MM and zp = 100
      and tbl = SYRINGES and v = 50 and sy = "Some ''1ml''" and dk = Deck_init and sid = "''4''"
      and well = "''A1''" and zs = None and za = None and fxy = 7500 and fzd = 600 and fzu = 750
      and fu = 200
      and s = "fresh_robot [(''ok'', 0), (''ok'', 0), (''ok'', 0), (''ok'', 0), (''ok'', 0),
                      (''ok'', 0), (''ok'', 0)]"]
  note c = choreography_safety_ordering[where lt = LABWARE_BEAKER_1WELL and zp = 100
      and tbl = SYRINGES and v = 50 and sy = "Some ''1ml''" and dk = Deck_init and sid = "''2''"
      and well = "''A1''" and zs = None and za = None and fxy = 7500 and fzd = 600 and fzu = 750
      and fu = 200
      and s = "fresh_robot [(''ok'', 0), (''ok'', 0), (''ok'', 0), (''ok'', 0), (''ok'', 0),
                      (''ok'', 0), (''ok'', 0)]"]
  note u = choreography_safety_ordering[where lr = "Other_object LABWARE_48WELL_10MM"
      and tbl = SYRINGES and v = 50 and sy = "Some ''1ml''" and adk = None and asid = None
      and awell = None and zs = "Some 100" and za = "Some 150" and fxy = 7500 and fzd = 600
      and fzu = 750 and fu = 200
      and s = "fresh_robot [(''ok'', 0), (''ok'', 0), (''ok'', 0), (''ok'', 0), (''ok'', 0),
                      (''ok'', 0), (''ok'', 0)]"]
  from t[THEN conjunct2, THEN conjunct2, THEN conjunct2, THEN conjunct2, THEN conjunct1] h(1)
    c[THEN conjunct2, THEN conjunct2, THEN conjunct2, THEN conjunct2, THEN conjunct2,
      THEN conjunct1] h(2)
    u[THEN conjunct2, THEN conjunct2, THEN conjunct2, THEN conjunct2, THEN conjunct2,
      THEN conjunct2, THEN conjunct2, THEN conjunct1] n
  show ?thesis by blast
qed

text \<open>
  The rise that comes first is tied to the object, not to the geometry. Handed a copy
  of the beaker (another object with the fields of \<^verbatim>\<open>LABWARE_BEAKER_1WELL\<close>),
  \<^verbatim>\<open>aspirate\<close> starts with the XY move as it does for a plate: issued after a Z of 170
  was commanded, it travels below the safe height 100 of the beaker.
\<close>

lemma wpm_beaker:
  "well_position_machine
     (LabwareInstance_init LABWARE_BEAKER_1WELL (mk_slot ''2'' 242.1 70) lbl Deck_init) ''A1''
   = Inr (234.1, 65)"
  by (simp add: well_defs LABWARE_BEAKER_1WELL_def)

lemma aspirate_beaker_copy_run:
  "aspirate SYRINGES 50 (Some ''1ml'') (Some Deck_init) (Some ''2'')
     (Other_object LABWARE_BEAKER_1WELL) (Some ''A1'') None None 7500 600 750 200
     (fresh_robot [(''ok'', 0), (''ok'', 0), (''ok'', 0), (''ok'', 0), (''ok'', 0), (''ok'', 0),
                   (''ok'', 0)])
   = (Returned,
      \<lparr>connected = True, current_syringe = None,
       sent = [Lit ''G90'', G1 [PX 234.1, PY 65, PF 7500], G1 [PZ 150, PF 600],
               Lit ''G91'', G1 [PU 3, PF 200], Lit ''G90'', G1 [PZ 100, PF 750]],
       rx = [], stdout = []\<rparr>)"
  apply (simp add: aspirate_def get_syringe_named SYRINGES_def Syringe_1ml_def slot2 Let_def
      inst_type_init wpm_beaker beaker_heights is_LABWARE_BEAKER_1WELL_def)
  apply (simp add: run_defs send_ok_rel nonzero_part_def fl_eval)
  done

lemma aspirate_beaker_object_run:
  "aspirate SYRINGES 50 (Some ''1ml'') (Some Deck_init) (Some ''2'')
     Beaker_object (Some ''A1'') None None 7500 600 750 200
     (fresh_robot [(''ok'', 0), (''ok'', 0), (''ok'', 0), (''ok'', 0), (''ok'', 0), (''ok'', 0),
                   (''ok'', 0), (''ok'', 0)])
   = (Returned,
      \<lparr>connected = True, current_syringe = None,
       sent = [Lit ''G90'', G1 [PZ 100, PF 750], G1 [PX 234.1, PY 65, PF 7500],
               G1 [PZ 150, PF 600], Lit ''G91'', G1 [PU 3, PF 200], Lit ''G90'',
               G1 [PZ 100, PF 750]],
       rx = [], stdout = []\<rparr>)"
  apply (simp add: aspirate_def get_syringe_named SYRINGES_def Syringe_1ml_def slot2 Let_def
      inst_type_init wpm_beaker beaker_heights is_LABWARE_BEAKER_1WELL_def)
  apply (simp add: run_defs send_ok_rel nonzero_part_def fl_eval)
  done

lemma aspirate_beaker_copy_travels_first:
  "\<not> ordering_ok (safe_z LABWARE_BEAKER_1WELL) (Some 170) False
       (emitted (aspirate SYRINGES 50 (Some ''1ml'') (Some Deck_init) (Some ''2'')
                   (Other_object LABWARE_BEAKER_1WELL) (Some ''A1'') None None 7500 600 750 200)
          (fresh_robot [(''ok'', 0), (''ok'', 0), (''ok'', 0), (''ok'', 0), (''ok'', 0),
                        (''ok'', 0), (''ok'', 0)]))"
  by (simp add: emitted_def aspirate_beaker_copy_run beaker_heights)
     (simp add: fresh_robot_def)

end
